theory Spec2Isabelle
  imports Complex_Main "HOL-Library.Monad_Syntax" "HOL-Library.Sublist"
begin

section \<open>Tensors, layers and the errors of the library\<close>

text \<open>
  The notebook \<^verbatim>\<open>Tutorial 5. Adversarial Autoencoder.ipynb\<close> composes layers of the tensor
  library. The contents of a tensor are floating-point numbers, which are not modelled.
  A tensor is represented by what the library itself records about it: its shape and
  the graph of operations that produced it (its \<^verbatim>\<open>grad_fn\<close>). Two tensors of the model
  are equal when they have the same shape and were computed by the same operations from
  the same leaves.

  Sizes are Python integers, hence \<^typ>\<open>int\<close>; \<^verbatim>\<open>//\<close> is floor division, as \<open>div\<close> is.
  The exceptions the library and the interpreter raise are values of \<open>error\<close>.
\<close>

datatype error =
    RuntimeError
  | ValueError
  | IndexError
  | TypeError
  | NameError
  | ImportError
  | CalledProcessError
  | FileNotFoundError

text \<open>
  The layers the notebook instantiates, with the positional arguments it passes:
  \<^verbatim>\<open>Conv2d(in_channels, out_channels, kernel_size, stride, padding)\<close>,
  \<^verbatim>\<open>ConvTranspose2d(in_channels, out_channels, kernel_size, stride, padding, output_padding)\<close>,
  \<^verbatim>\<open>BatchNorm2d(num_features)\<close>, \<^verbatim>\<open>BatchNorm1d(num_features)\<close>,
  \<^verbatim>\<open>Linear(in_features, out_features)\<close>, \<^verbatim>\<open>LeakyReLU(negative_slope)\<close> and
  \<^verbatim>\<open>Sequential(*layers)\<close>.
\<close>

datatype layer =
    Conv2d int int int int int
  | ConvTranspose2d int int int int int int
  | BatchNorm2d int
  | BatchNorm1d int
  | Linear int int
  | LeakyReLU real
  | Sequential "layer list"

text \<open>
  The operation graph. \<open>Apply l tr g\<close> is the primitive layer \<open>l\<close> applied, in training
  mode when \<open>tr\<close>, to the tensor computed by \<open>g\<close>; \<open>Leaf\<close> is a tensor no modelled
  operation produced (an input batch); \<open>Randn k\<close> is the \<open>k\<close>-th draw of \<^verbatim>\<open>torch.randn\<close>;
  \<open>Ones\<close> and \<open>Zeros\<close> are the constant tensors of \<^verbatim>\<open>ones_like\<close> and \<^verbatim>\<open>zeros_like\<close>;
  \<open>Select i g\<close> is the \<open>i\<close>-th slice along the first dimension; \<open>Mul\<close> is the product with
  a Python float and \<open>Add\<close> the sum of two tensors.
\<close>

datatype node =
    Leaf string
  | Randn nat
  | Ones "int list"
  | Zeros "int list"
  | Apply layer bool node
  | View "int list" node
  | Select nat node
  | MseLoss node node
  | BceWithLogits node node
  | Mul real node
  | Add node node

record tensor =
  shape :: "int list"
  grad_fn :: node

subsection \<open>Shapes computed by the primitive layers\<close>

text \<open>
  Output sizes follow the library's documentation (dilation 1):
  a convolution maps a side \<open>h\<close> to \<open>(h + 2 * padding - kernel) // stride + 1\<close>,
  a transposed convolution to
  \<open>(h - 1) * stride - 2 * padding + (kernel - 1) + output_padding + 1\<close>.
\<close>

definition conv_out :: "int \<Rightarrow> int \<Rightarrow> int \<Rightarrow> int \<Rightarrow> int" where
  "conv_out h k s p = (h + 2 * p - k) div s + 1"

definition conv_transpose_out :: "int \<Rightarrow> int \<Rightarrow> int \<Rightarrow> int \<Rightarrow> int \<Rightarrow> int" where
  "conv_transpose_out h k s p opad = (h - 1) * s - 2 * p + (k - 1) + opad + 1"

text \<open>
  A convolution takes a batch \<open>[n, c, h, w]\<close> or a single image \<open>[c, h, w]\<close>. It raises
  \<^verbatim>\<open>RuntimeError\<close> on any other rank, when the channels differ from \<open>in_channels\<close>, when
  the layer has no input or no output channel (its weight is empty), on a stride
  below 1, and when the padded input is smaller than the kernel.
\<close>

fun conv2d_shape :: "int \<Rightarrow> int \<Rightarrow> int \<Rightarrow> int \<Rightarrow> int \<Rightarrow> int list \<Rightarrow> error + int list" where
  "conv2d_shape cin cout k s p [n, c, h, w] =
     (if c \<noteq> cin \<or> cin < 1 \<or> cout < 1 \<or> s < 1 \<or> h + 2 * p < k \<or> w + 2 * p < k
      then Inl RuntimeError
      else Inr [n, cout, conv_out h k s p, conv_out w k s p])"
| "conv2d_shape cin cout k s p [c, h, w] =
     (if c \<noteq> cin \<or> cin < 1 \<or> cout < 1 \<or> s < 1 \<or> h + 2 * p < k \<or> w + 2 * p < k
      then Inl RuntimeError
      else Inr [cout, conv_out h k s p, conv_out w k s p])"
| "conv2d_shape cin cout k s p sh = Inl RuntimeError"

text \<open>
  A transposed convolution raises \<^verbatim>\<open>RuntimeError\<close> on a wrong rank or channel count,
  when the layer has no input or no output channel, on a stride below 1, when
  \<open>output_padding\<close> is not smaller than the stride, and when the computed output side is
  not positive.
\<close>

fun conv_transpose2d_shape ::
  "int \<Rightarrow> int \<Rightarrow> int \<Rightarrow> int \<Rightarrow> int \<Rightarrow> int \<Rightarrow> int list \<Rightarrow> error + int list" where
  "conv_transpose2d_shape cin cout k s p opad [n, c, h, w] =
     (if c \<noteq> cin \<or> cin < 1 \<or> cout < 1 \<or> s < 1 \<or> s \<le> opad
         \<or> conv_transpose_out h k s p opad < 1 \<or> conv_transpose_out w k s p opad < 1
      then Inl RuntimeError
      else Inr [n, cout, conv_transpose_out h k s p opad, conv_transpose_out w k s p opad])"
| "conv_transpose2d_shape cin cout k s p opad [c, h, w] =
     (if c \<noteq> cin \<or> cin < 1 \<or> cout < 1 \<or> s < 1 \<or> s \<le> opad
         \<or> conv_transpose_out h k s p opad < 1 \<or> conv_transpose_out w k s p opad < 1
      then Inl RuntimeError
      else Inr [cout, conv_transpose_out h k s p opad, conv_transpose_out w k s p opad])"
| "conv_transpose2d_shape cin cout k s p opad sh = Inl RuntimeError"

text \<open>
  Batch normalisation checks the rank first (\<^verbatim>\<open>ValueError\<close>: expected 4D input, or
  2D or 3D for \<^verbatim>\<open>BatchNorm1d\<close>). In training mode it then refuses an input with
  a single value per channel (\<^verbatim>\<open>ValueError\<close>: Expected more than 1 value per channel
  when training): the product of the batch size and the sizes after the channel
  dimension is 1. Last, the channel count must be \<open>num_features\<close> (\<^verbatim>\<open>RuntimeError\<close>).
\<close>

fun batch_norm2d_shape :: "bool \<Rightarrow> int \<Rightarrow> int list \<Rightarrow> error + int list" where
  "batch_norm2d_shape tr num_features [n, c, h, w] =
     (if tr \<and> n * h * w = 1 then Inl ValueError
      else if c \<noteq> num_features then Inl RuntimeError
      else Inr [n, c, h, w])"
| "batch_norm2d_shape tr num_features sh = Inl ValueError"

fun batch_norm1d_shape :: "bool \<Rightarrow> int \<Rightarrow> int list \<Rightarrow> error + int list" where
  "batch_norm1d_shape tr num_features [n, c] =
     (if tr \<and> n = 1 then Inl ValueError
      else if c \<noteq> num_features then Inl RuntimeError
      else Inr [n, c])"
| "batch_norm1d_shape tr num_features [n, c, l] =
     (if tr \<and> n * l = 1 then Inl ValueError
      else if c \<noteq> num_features then Inl RuntimeError
      else Inr [n, c, l])"
| "batch_norm1d_shape tr num_features sh = Inl ValueError"

text \<open>
  A linear layer acts on the last dimension of a tensor of any positive rank.
\<close>

definition linear_shape :: "int \<Rightarrow> int \<Rightarrow> int list \<Rightarrow> error + int list" where
  "linear_shape in_features out_features sh =
     (if sh = [] \<or> last sh \<noteq> in_features then Inl RuntimeError
      else Inr (butlast sh @ [out_features]))"

fun layer_shape :: "bool \<Rightarrow> layer \<Rightarrow> int list \<Rightarrow> error + int list" where
  "layer_shape tr (Conv2d cin cout k s p) sh = conv2d_shape cin cout k s p sh"
| "layer_shape tr (ConvTranspose2d cin cout k s p opad) sh =
     conv_transpose2d_shape cin cout k s p opad sh"
| "layer_shape tr (BatchNorm2d c) sh = batch_norm2d_shape tr c sh"
| "layer_shape tr (BatchNorm1d c) sh = batch_norm1d_shape tr c sh"
| "layer_shape tr (Linear i out) sh = linear_shape i out sh"
| "layer_shape tr (LeakyReLU a) sh = Inr sh"
| "layer_shape tr (Sequential ls) sh = Inr sh"

subsection \<open>Constructing a layer\<close>

text \<open>
  The constructor of a layer allocates its parameters, and the library raises
  \<^verbatim>\<open>RuntimeError\<close> when a size is negative (a size of 0 is accepted with a warning).
  \<^verbatim>\<open>LeakyReLU\<close> has no parameter, and \<^verbatim>\<open>Sequential\<close> only collects modules that exist.
\<close>

fun layer_init :: "layer \<Rightarrow> error + layer" where
  "layer_init (Conv2d cin cout k s p) =
     (if cin < 0 \<or> cout < 0 then Inl RuntimeError else Inr (Conv2d cin cout k s p))"
| "layer_init (ConvTranspose2d cin cout k s p opad) =
     (if cin < 0 \<or> cout < 0 then Inl RuntimeError else Inr (ConvTranspose2d cin cout k s p opad))"
| "layer_init (BatchNorm2d c) = (if c < 0 then Inl RuntimeError else Inr (BatchNorm2d c))"
| "layer_init (BatchNorm1d c) = (if c < 0 then Inl RuntimeError else Inr (BatchNorm1d c))"
| "layer_init (Linear i out) =
     (if i < 0 \<or> out < 0 then Inl RuntimeError else Inr (Linear i out))"
| "layer_init (LeakyReLU a) = Inr (LeakyReLU a)"
| "layer_init (Sequential ls) = Inr (Sequential ls)"

subsection \<open>Calling a module\<close>

text \<open>
  \<open>primitive tr l x\<close> is the call \<^verbatim>\<open>l(x)\<close> of a layer that is not a container: the
  layer's shape check, and on success a tensor whose graph records the application.
  \<^verbatim>\<open>Sequential\<close> feeds each layer's output to the next; the first exception ends the
  call, as it does in Python.
\<close>

definition primitive :: "bool \<Rightarrow> layer \<Rightarrow> tensor \<Rightarrow> error + tensor" where
  "primitive tr l x =
     (case layer_shape tr l (shape x) of
        Inl e \<Rightarrow> Inl e
      | Inr sh \<Rightarrow> Inr \<lparr>shape = sh, grad_fn = Apply l tr (grad_fn x)\<rparr>)"

fun forward_layer :: "bool \<Rightarrow> layer \<Rightarrow> tensor \<Rightarrow> error + tensor"
  and forward_layers :: "bool \<Rightarrow> layer list \<Rightarrow> tensor \<Rightarrow> error + tensor" where
  "forward_layer tr (Sequential ls) x = forward_layers tr ls x"
| "forward_layer tr (Conv2d cin cout k s p) x = primitive tr (Conv2d cin cout k s p) x"
| "forward_layer tr (ConvTranspose2d cin cout k s p opad) x =
     primitive tr (ConvTranspose2d cin cout k s p opad) x"
| "forward_layer tr (BatchNorm2d c) x = primitive tr (BatchNorm2d c) x"
| "forward_layer tr (BatchNorm1d c) x = primitive tr (BatchNorm1d c) x"
| "forward_layer tr (Linear i out) x = primitive tr (Linear i out) x"
| "forward_layer tr (LeakyReLU a) x = primitive tr (LeakyReLU a) x"
| "forward_layers tr [] x = Inr x"
| "forward_layers tr (l # ls) x =
     (case forward_layer tr l x of
        Inl e \<Rightarrow> Inl e
      | Inr y \<Rightarrow> forward_layers tr ls y)"

section \<open>The generator\<close>

text \<open>
  \<^verbatim>\<open>AdversarialAutoencoderGenerator.__init__\<close> builds the encoder and the decoder with
  two \<^verbatim>\<open>while\<close> loops. Each loop is the function of its loop variables; a loop that
  does not end has the value \<open>None\<close>.
  \<^verbatim>\<open>
        size = input_size // 2
        channels = step_channels
        while size > 1:
            encoder.append(
                nn.Sequential(
                    nn.Conv2d(channels, channels * 4, 5, 4, 2),
                    nn.BatchNorm2d(channels * 4),
                    nonlinearity,
                )
            )
            channels *= 4
            size = size // 4
  \<close>
\<close>

partial_function (option) encoder_loop ::
  "layer \<Rightarrow> int \<Rightarrow> int \<Rightarrow> layer list \<Rightarrow> (layer list \<times> int) option" where
  "encoder_loop nonlinearity sz channels encoder =
     (if sz > 1 then
        encoder_loop nonlinearity (sz div 4) (channels * 4)
          (encoder @ [Sequential [Conv2d channels (channels * 4) 5 4 2,
                                  BatchNorm2d (channels * 4), nonlinearity]])
      else Some (encoder, channels))"

text \<open>
  \<^verbatim>\<open>
        size = 1
        channels = step_channels
        while size < input_size // 2:
            decoder.append(
                nn.Sequential(
                    nn.ConvTranspose2d(channels, channels * 4, 5, 4, 2, 3),
                    nn.BatchNorm2d(channels * 4),
                    nonlinearity,
                )
            )
            channels *= 4
            size *= 4
  \<close>
\<close>

partial_function (option) decoder_loop ::
  "layer \<Rightarrow> int \<Rightarrow> int \<Rightarrow> int \<Rightarrow> layer list \<Rightarrow> (layer list \<times> int) option" where
  "decoder_loop nonlinearity input_size sz channels decoder =
     (if sz < input_size div 2 then
        decoder_loop nonlinearity input_size (sz * 4) (channels * 4)
          (decoder @ [Sequential [ConvTranspose2d channels (channels * 4) 5 4 2 3,
                                  BatchNorm2d (channels * 4), nonlinearity]])
      else Some (decoder, channels))"

text \<open>
  The module: the attribute \<^verbatim>\<open>encoding_dims\<close> set by the base class
  \<^verbatim>\<open>models.Generator\<close>, the four sub-modules, and the flag \<^verbatim>\<open>training\<close> of
  \<^verbatim>\<open>nn.Module\<close>, which is \<^verbatim>\<open>True\<close> after construction and which \<^verbatim>\<open>train()\<close> and
  \<^verbatim>\<open>eval()\<close> set on the module and all its sub-modules together.
\<close>

record generator =
  encoding_dims :: int
  encoder :: layer
  encoder_fc :: layer
  decoder_fc :: layer
  decoder :: layer
  training :: bool

text \<open>
  The constructor, in the order of its statements: the first convolution, the encoder
  loop, the two linear layers, the decoder loop, the last transposed convolution. Its
  value is \<open>None\<close> when a loop does not end, \<open>Some (Inl e)\<close> when a layer's constructor raises
  \<open>e\<close>, and \<open>Some (Inr g)\<close> when it returns the module \<open>g\<close>. Inside the loops the channel
  count is \<open>step_channels\<close> times a power of four, and the loops are reached only after
  the first convolution has accepted \<open>step_channels\<close>: no constructor raises there
  (lemmas \<open>encoder_loop_constructs\<close> and \<open>decoder_loop_constructs\<close> below).
\<close>

definition AdversarialAutoencoderGenerator ::
  "int \<Rightarrow> int \<Rightarrow> int \<Rightarrow> int \<Rightarrow> layer \<Rightarrow> (error + generator) option" where
  "AdversarialAutoencoderGenerator edims input_size input_channels step_channels nonlinearity =
     (case layer_init (Conv2d input_channels step_channels 5 2 2) of
        Inl e \<Rightarrow> Some (Inl e)
      | Inr conv \<Rightarrow>
          do {
            (enc, channels) \<leftarrow>
               encoder_loop nonlinearity (input_size div 2) step_channels
                 [Sequential [conv, nonlinearity]];
            (case layer_init (Linear channels edims) of
               Inl e \<Rightarrow> Some (Inl e)
             | Inr fc \<Rightarrow>
                 (case layer_init (Linear edims step_channels) of
                    Inl e \<Rightarrow> Some (Inl e)
                  | Inr dfc \<Rightarrow>
                      do {
                        (dec, channels') \<leftarrow>
                           decoder_loop nonlinearity input_size 1 step_channels [];
                        (case layer_init (ConvTranspose2d channels' input_channels 5 2 2 1) of
                           Inl e \<Rightarrow> Some (Inl e)
                         | Inr out \<Rightarrow>
                             Some (Inr \<lparr>encoding_dims = edims,
                                        encoder = Sequential enc,
                                        encoder_fc = fc,
                                        decoder_fc = dfc,
                                        decoder = Sequential (dec @ [out]),
                                        training = True\<rparr>))
                      }))
          })"

text \<open>
  \<^verbatim>\<open>noise.view(-1, noise.size(1), 1, 1)\<close>: \<^verbatim>\<open>size(1)\<close> raises \<^verbatim>\<open>IndexError\<close> on a tensor
  of rank below 2, and \<^verbatim>\<open>view\<close> raises \<^verbatim>\<open>RuntimeError\<close> when the size \<open>-1\<close> stands for
  cannot be inferred (the given sizes multiply to 0).
\<close>

definition view_noise :: "tensor \<Rightarrow> error + tensor" where
  "view_noise noise =
     (case shape noise of
        n # c # rest \<Rightarrow>
          if c = 0 then Inl RuntimeError
          else Inr \<lparr>shape = [prod_list (n # rest), c, 1, 1],
                    grad_fn = View [-1, c, 1, 1] (grad_fn noise)\<rparr>
      | _ \<Rightarrow> Inl IndexError)"

text \<open>
  \<^verbatim>\<open>encoding.view(-1, encoding.size(1) * encoding.size(2) * encoding.size(3))\<close>.
\<close>

definition view_encoding :: "tensor \<Rightarrow> error + tensor" where
  "view_encoding encoding =
     (case shape encoding of
        n # c # h # w # rest \<Rightarrow>
          if c * h * w = 0 then Inl RuntimeError
          else Inr \<lparr>shape = [prod_list (n # rest), c * h * w],
                    grad_fn = View [-1, c * h * w] (grad_fn encoding)\<rparr>
      | _ \<Rightarrow> Inl IndexError)"

text \<open>
  \<^verbatim>\<open>
    def sample(self, noise):
        noise = self.decoder_fc(noise)
        noise = noise.view(-1, noise.size(1), 1, 1)
        return self.decoder(noise)
  \<close>
\<close>

definition Generator_sample :: "generator \<Rightarrow> tensor \<Rightarrow> error + tensor" where
  "Generator_sample self noise =
     (case forward_layer (training self) (decoder_fc self) noise of
        Inl e \<Rightarrow> Inl e
      | Inr noise1 \<Rightarrow>
          (case view_noise noise1 of
             Inl e \<Rightarrow> Inl e
           | Inr noise2 \<Rightarrow> forward_layer (training self) (decoder self) noise2))"

text \<open>
  \<^verbatim>\<open>forward\<close> returns a pair of tensors in training mode and one tensor otherwise.
  \<^verbatim>\<open>
    def forward(self, x):
        if self.training:
            encoding = self.encoder(x)
            encoding = self.encoder_fc(encoding.view(-1, ...))
            return self.sample(encoding), encoding
        else:
            return self.sample(x)
  \<close>
\<close>

datatype gen_out = Tuple2 tensor tensor | Single tensor

definition Generator_forward :: "generator \<Rightarrow> tensor \<Rightarrow> error + gen_out" where
  "Generator_forward self x =
     (if training self then
        (case forward_layer (training self) (encoder self) x of
           Inl e \<Rightarrow> Inl e
         | Inr encoding0 \<Rightarrow>
             (case view_encoding encoding0 of
                Inl e \<Rightarrow> Inl e
              | Inr flat \<Rightarrow>
                  (case forward_layer (training self) (encoder_fc self) flat of
                     Inl e \<Rightarrow> Inl e
                   | Inr encoding \<Rightarrow>
                       (case Generator_sample self encoding of
                          Inl e \<Rightarrow> Inl e
                        | Inr recon \<Rightarrow> Inr (Tuple2 recon encoding)))))
      else
        (case Generator_sample self x of
           Inl e \<Rightarrow> Inl e
         | Inr img \<Rightarrow> Inr (Single img)))"

section \<open>The discriminator\<close>

text \<open>
  \<^verbatim>\<open>
        model = [nn.Sequential(nn.Linear(input_dims, input_dims // 2), nonlinearity)]
        size = input_dims // 2
        while size > 16:
            model.append(
                nn.Sequential(
                    nn.Linear(size, size // 2), nn.BatchNorm1d(size // 2), nonlinearity
                )
            )
            size = size // 2
        model.append(nn.Linear(size, 1))
        self.model = nn.Sequential(*model)
  \<close>
\<close>

partial_function (option) discriminator_loop ::
  "layer \<Rightarrow> int \<Rightarrow> layer list \<Rightarrow> (layer list \<times> int) option" where
  "discriminator_loop nonlinearity sz model =
     (if sz > 16 then
        discriminator_loop nonlinearity (sz div 2)
          (model @ [Sequential [Linear sz (sz div 2), BatchNorm1d (sz div 2), nonlinearity]])
      else Some (model, sz))"

record discriminator =
  input_dims :: int
  model :: layer
  d_training :: bool

text \<open>
  The constructor: the first linear layer, the loop, the last linear layer. Inside the
  loop the size is above 16, so no constructor raises there.
\<close>

definition AdversarialAutoencoderDiscriminator ::
  "int \<Rightarrow> layer \<Rightarrow> (error + discriminator) option" where
  "AdversarialAutoencoderDiscriminator idims nonlinearity =
     (case layer_init (Linear idims (idims div 2)) of
        Inl e \<Rightarrow> Some (Inl e)
      | Inr lin \<Rightarrow>
          do {
            (m, sz) \<leftarrow>
               discriminator_loop nonlinearity (idims div 2) [Sequential [lin, nonlinearity]];
            (case layer_init (Linear sz 1) of
               Inl e \<Rightarrow> Some (Inl e)
             | Inr out \<Rightarrow>
                 Some (Inr \<lparr>input_dims = idims,
                            model = Sequential (m @ [out]),
                            d_training = True\<rparr>))
          })"

text \<open>
  \<^verbatim>\<open>
    def forward(self, x):
        return self.model(x)
  \<close>
\<close>

definition Discriminator_forward :: "discriminator \<Rightarrow> tensor \<Rightarrow> error + tensor" where
  "Discriminator_forward self x = forward_layer (d_training self) (model self) x"

text \<open>
  The predicates of the discriminator's layer inventory: the primitive layers of a
  module in the order a call applies them, and the kinds a multi-layer perceptron is
  made of.
\<close>

fun primitives :: "layer \<Rightarrow> layer list" where
  "primitives (Sequential ls) = concat (map primitives ls)"
| "primitives l = [l]"

fun is_mlp_layer :: "layer \<Rightarrow> bool" where
  "is_mlp_layer (Linear i out) = True"
| "is_mlp_layer (BatchNorm1d c) = True"
| "is_mlp_layer (LeakyReLU a) = True"
| "is_mlp_layer l = False"

section \<open>The losses\<close>

subsection \<open>Library functions on tensors\<close>

text \<open>
  Broadcasting aligns two shapes at their last dimension; two sizes are compatible when
  they are equal or one of them is 1.
\<close>

fun broadcast_rev :: "int list \<Rightarrow> int list \<Rightarrow> int list option" where
  "broadcast_rev [] ys = Some ys"
| "broadcast_rev (x # xs) [] = Some (x # xs)"
| "broadcast_rev (x # xs) (y # ys) =
     (if x = y \<or> y = 1 then map_option ((#) x) (broadcast_rev xs ys)
      else if x = 1 then map_option ((#) y) (broadcast_rev xs ys)
      else None)"

definition broadcast_shapes :: "int list \<Rightarrow> int list \<Rightarrow> int list option" where
  "broadcast_shapes a b = map_option rev (broadcast_rev (rev a) (rev b))"

text \<open>
  \<^verbatim>\<open>F.mse_loss(input, target)\<close> broadcasts its arguments and reduces to a scalar;
  \<^verbatim>\<open>F.binary_cross_entropy_with_logits(input, target)\<close> raises \<^verbatim>\<open>ValueError\<close> unless the
  target has the size of the input.
\<close>

definition mse_loss :: "tensor \<Rightarrow> tensor \<Rightarrow> error + tensor" where
  "mse_loss input target =
     (case broadcast_shapes (shape input) (shape target) of
        None \<Rightarrow> Inl RuntimeError
      | Some sh \<Rightarrow> Inr \<lparr>shape = [], grad_fn = MseLoss (grad_fn input) (grad_fn target)\<rparr>)"

definition binary_cross_entropy_with_logits :: "tensor \<Rightarrow> tensor \<Rightarrow> error + tensor" where
  "binary_cross_entropy_with_logits input target =
     (if shape target \<noteq> shape input then Inl ValueError
      else Inr \<lparr>shape = [], grad_fn = BceWithLogits (grad_fn input) (grad_fn target)\<rparr>)"

definition ones_like :: "tensor \<Rightarrow> tensor" where
  "ones_like t = \<lparr>shape = shape t, grad_fn = Ones (shape t)\<rparr>"

definition zeros_like :: "tensor \<Rightarrow> tensor" where
  "zeros_like t = \<lparr>shape = shape t, grad_fn = Zeros (shape t)\<rparr>"

text \<open>\<^verbatim>\<open>a * t\<close> for a Python float \<open>a\<close>, and the in-place sum \<^verbatim>\<open>loss += t\<close>, whose result
  must have the shape of \<^verbatim>\<open>loss\<close>.\<close>

definition scale :: "real \<Rightarrow> tensor \<Rightarrow> tensor" where
  "scale a t = \<lparr>shape = shape t, grad_fn = Mul a (grad_fn t)\<rparr>"

definition iadd :: "tensor \<Rightarrow> tensor \<Rightarrow> error + tensor" where
  "iadd loss t =
     (if broadcast_shapes (shape loss) (shape t) = Some (shape loss)
      then Inr \<lparr>shape = shape loss, grad_fn = Add (grad_fn loss) (grad_fn t)\<rparr>
      else Inl RuntimeError)"

subsection \<open>The two \<^verbatim>\<open>forward\<close> methods\<close>

text \<open>
  \<^verbatim>\<open>
class AdversarialAutoencoderGeneratorLoss(losses.GeneratorLoss):
    def forward(self, real_inputs, gen_inputs, dgz):
        loss = 0.999 * F.mse_loss(gen_inputs, real_inputs)
        target = torch.ones_like(dgz)
        loss += 0.001 * F.binary_cross_entropy_with_logits(dgz, target)
        return loss
  \<close>
\<close>

definition GeneratorLoss_forward :: "tensor \<Rightarrow> tensor \<Rightarrow> tensor \<Rightarrow> error + tensor" where
  "GeneratorLoss_forward real_inputs gen_inputs dgz =
     (case mse_loss gen_inputs real_inputs of
        Inl e \<Rightarrow> Inl e
      | Inr m \<Rightarrow>
          (let loss = scale 0.999 m;
               target = ones_like dgz
           in case binary_cross_entropy_with_logits dgz target of
                Inl e \<Rightarrow> Inl e
              | Inr b \<Rightarrow> iadd loss (scale 0.001 b)))"

text \<open>
  \<^verbatim>\<open>
class AdversarialAutoencoderDiscriminatorLoss(losses.DiscriminatorLoss):
    def forward(self, dx, dgz):
        target_real = torch.ones_like(dx)
        target_fake = torch.zeros_like(dx)
        loss = 0.5 * F.binary_cross_entropy_with_logits(dx, target_real)
        loss += 0.5 * F.binary_cross_entropy_with_logits(dgz, target_fake)
        return loss
  \<close>
\<close>

definition DiscriminatorLoss_forward :: "tensor \<Rightarrow> tensor \<Rightarrow> error + tensor" where
  "DiscriminatorLoss_forward dx dgz =
     (let target_real = ones_like dx;
          target_fake = zeros_like dx
      in case binary_cross_entropy_with_logits dx target_real of
           Inl e \<Rightarrow> Inl e
         | Inr b1 \<Rightarrow>
             (let loss = scale 0.5 b1
              in case binary_cross_entropy_with_logits dgz target_fake of
                   Inl e \<Rightarrow> Inl e
                 | Inr b2 \<Rightarrow> iadd loss (scale 0.5 b2)))"

text \<open>The loss terms of a graph: whether a mean-squared-error term occurs in it, and
  how many binary-cross-entropy terms do.\<close>

fun has_mse_term :: "node \<Rightarrow> bool" where
  "has_mse_term (MseLoss a b) = True"
| "has_mse_term (BceWithLogits a b) = (has_mse_term a \<or> has_mse_term b)"
| "has_mse_term (Add a b) = (has_mse_term a \<or> has_mse_term b)"
| "has_mse_term (Mul c a) = has_mse_term a"
| "has_mse_term (Apply l tr a) = has_mse_term a"
| "has_mse_term (View sh a) = has_mse_term a"
| "has_mse_term (Select i a) = has_mse_term a"
| "has_mse_term (Leaf s) = False"
| "has_mse_term (Randn k) = False"
| "has_mse_term (Ones sh) = False"
| "has_mse_term (Zeros sh) = False"

fun bce_terms :: "node \<Rightarrow> nat" where
  "bce_terms (BceWithLogits a b) = 1 + bce_terms a + bce_terms b"
| "bce_terms (MseLoss a b) = bce_terms a + bce_terms b"
| "bce_terms (Add a b) = bce_terms a + bce_terms b"
| "bce_terms (Mul c a) = bce_terms a"
| "bce_terms (Apply l tr a) = bce_terms a"
| "bce_terms (View sh a) = bce_terms a"
| "bce_terms (Select i a) = bce_terms a"
| "bce_terms (Leaf s) = 0"
| "bce_terms (Randn k) = 0"
| "bce_terms (Ones sh) = 0"
| "bce_terms (Zeros sh) = 0"

section \<open>Training steps and the state they change\<close>

text \<open>
  A parameter belongs to the generator or to the discriminator and has a name inside
  its module. The state the training steps read and write: the value (\<^verbatim>\<open>.data\<close>) and
  the accumulated gradient (\<^verbatim>\<open>.grad\<close>, \<open>None\<close> when there is none) of every parameter,
  the calls made on optimizers, the number of draws from the random generator, and
  the number of GPUs the process can use.
  Parameter values are symbolic as tensors are: \<open>Updated o v g\<close> is the value the
  optimizer \<open>o\<close> computed from the value \<open>v\<close> and the gradient \<open>g\<close>. The running
  statistics of batch normalisation are buffers, not parameters, and are not part of
  the state.
\<close>

datatype param = GenParam string | DiscParam string

datatype pvalue = Initial | Updated string pvalue "node list"

datatype opt_call = ZeroGrad string | Step string

record optimizer =
  opt_id :: string
  param_groups :: "param list"

record state =
  data :: "param \<Rightarrow> pvalue"
  grad :: "param \<Rightarrow> node list option"
  opt_calls :: "opt_call list"
  draws :: nat
  gpus :: nat

datatype device = Cpu | Cuda nat

text \<open>
  \<^verbatim>\<open>optimizer.zero_grad()\<close> resets the gradient of the optimizer's own parameters;
  \<^verbatim>\<open>optimizer.step()\<close> updates the value of each of its own parameters that has
  a gradient. Both touch no other parameter.
\<close>

definition zero_grad :: "optimizer \<Rightarrow> state \<Rightarrow> state" where
  "zero_grad opt s =
     s\<lparr>grad := (\<lambda>p. if p \<in> set (param_groups opt) then None else grad s p),
       opt_calls := opt_calls s @ [ZeroGrad (opt_id opt)]\<rparr>"

definition step :: "optimizer \<Rightarrow> state \<Rightarrow> state" where
  "step opt s =
     s\<lparr>data := (\<lambda>p. if p \<in> set (param_groups opt) then
                       (case grad s p of
                          None \<Rightarrow> data s p
                        | Some g \<Rightarrow> Updated (opt_id opt) (data s p) g)
                     else data s p),
       opt_calls := opt_calls s @ [Step (opt_id opt)]\<rparr>"

text \<open>
  \<^verbatim>\<open>loss.backward()\<close> adds the gradient of the loss to \<^verbatim>\<open>.grad\<close> of every parameter the
  graph of the loss reaches, whichever module owns it. Which parameters a graph reaches
  is decided by the library's autograd engine: the function \<open>leaves\<close> is a parameter of
  the model. It raises \<^verbatim>\<open>RuntimeError\<close> when the loss is not a single number or reaches
  no parameter.
\<close>

definition backward :: "(node \<Rightarrow> param list) \<Rightarrow> tensor \<Rightarrow> state \<Rightarrow> error + state" where
  "backward leaves loss s =
     (if prod_list (shape loss) \<noteq> 1 \<or> leaves (grad_fn loss) = [] then Inl RuntimeError
      else Inr (s\<lparr>grad := (\<lambda>p. if p \<in> set (leaves (grad_fn loss)) then
                                  (case grad s p of
                                     None \<Rightarrow> Some [grad_fn loss]
                                   | Some g \<Rightarrow> Some (g @ [grad_fn loss]))
                                else grad s p)\<rparr>))"

text \<open>\<^verbatim>\<open>loss.item()\<close>: the number held by a one-element tensor, here its graph.\<close>

definition item :: "tensor \<Rightarrow> error + node" where
  "item t = (if prod_list (shape t) = 1 then Inr (grad_fn t) else Inl RuntimeError)"

text \<open>
  \<^verbatim>\<open>a, b = generator(real_inputs)\<close> unpacks the value of the call. A tuple of two
  tensors is taken apart. A single tensor is iterated along its first dimension, which
  yields two values only when that dimension is 2 (\<^verbatim>\<open>ValueError\<close> otherwise, \<^verbatim>\<open>TypeError\<close>
  for a tensor of rank 0).
\<close>

definition unpack2 :: "gen_out \<Rightarrow> error + tensor \<times> tensor" where
  "unpack2 out =
     (case out of
        Tuple2 a b \<Rightarrow> Inr (a, b)
      | Single t \<Rightarrow>
          (case shape t of
             [] \<Rightarrow> Inl TypeError
           | n # rest \<Rightarrow>
               if n = 2 then Inr (\<lparr>shape = rest, grad_fn = Select 0 (grad_fn t)\<rparr>,
                                  \<lparr>shape = rest, grad_fn = Select 1 (grad_fn t)\<rparr>)
               else Inl ValueError))"

text \<open>
  \<^verbatim>\<open>torch.randn(real_inputs.size(0), generator.encoding_dims, device=device)\<close> raises
  \<^verbatim>\<open>RuntimeError\<close> on a negative size and on a device the process does not have.
\<close>

definition device_available :: "device \<Rightarrow> state \<Rightarrow> bool" where
  "device_available dev s = (case dev of Cpu \<Rightarrow> True | Cuda k \<Rightarrow> k < gpus s)"

definition randn :: "int \<Rightarrow> int \<Rightarrow> device \<Rightarrow> state \<Rightarrow> (error + tensor) \<times> state" where
  "randn n d dev s =
     (if n < 0 \<or> d < 0 \<or> \<not> device_available dev s then (Inl RuntimeError, s)
      else (Inr \<lparr>shape = [n, d], grad_fn = Randn (draws s)\<rparr>, s\<lparr>draws := Suc (draws s)\<rparr>))"

definition size0 :: "tensor \<Rightarrow> error + int" where
  "size0 t = (case shape t of [] \<Rightarrow> Inl IndexError | n # rest \<Rightarrow> Inr n)"

text \<open>
  \<^verbatim>\<open>
    def train_ops(self, generator, discriminator, optimizer_generator,
                  real_inputs, device, batch_size, labels=None):
        recon, encodings = generator(real_inputs)
        optimizer_generator.zero_grad()
        dgz = discriminator(encodings)
        loss = self.forward(real_inputs, recon, dgz)
        loss.backward()
        optimizer_generator.step()
        return loss.item()
  \<close>
  An exception leaves the state as the statements before it made it.
\<close>

definition GeneratorLoss_train_ops ::
  "(node \<Rightarrow> param list) \<Rightarrow> generator \<Rightarrow> discriminator \<Rightarrow> optimizer \<Rightarrow> tensor \<Rightarrow> device \<Rightarrow> int
     \<Rightarrow> state \<Rightarrow> (error + node) \<times> state" where
  "GeneratorLoss_train_ops leaves generator discriminator optimizer_generator real_inputs
       dev batch_size s =
     (case Generator_forward generator real_inputs of
        Inl e \<Rightarrow> (Inl e, s)
      | Inr out \<Rightarrow>
     (case unpack2 out of
        Inl e \<Rightarrow> (Inl e, s)
      | Inr (recon, encodings) \<Rightarrow>
     (let s1 = zero_grad optimizer_generator s
      in case Discriminator_forward discriminator encodings of
        Inl e \<Rightarrow> (Inl e, s1)
      | Inr dgz \<Rightarrow>
     (case GeneratorLoss_forward real_inputs recon dgz of
        Inl e \<Rightarrow> (Inl e, s1)
      | Inr loss \<Rightarrow>
     (case backward leaves loss s1 of
        Inl e \<Rightarrow> (Inl e, s1)
      | Inr s2 \<Rightarrow>
     (let s3 = step optimizer_generator s2
      in (item loss, s3)))))))"

text \<open>
  \<^verbatim>\<open>
    def train_ops(self, generator, discriminator, optimizer_discriminator,
                  real_inputs, device, batch_size, labels=None):
        _, encodings = generator(real_inputs)
        noise = torch.randn(real_inputs.size(0), generator.encoding_dims, device=device)
        optimizer_discriminator.zero_grad()
        dx = discriminator(noise)
        dgz = discriminator(encodings)
        loss = self.forward(dx, dgz)
        loss.backward()
        optimizer_discriminator.step()
        return loss.item()
  \<close>
\<close>

definition DiscriminatorLoss_train_ops ::
  "(node \<Rightarrow> param list) \<Rightarrow> generator \<Rightarrow> discriminator \<Rightarrow> optimizer \<Rightarrow> tensor \<Rightarrow> device \<Rightarrow> int
     \<Rightarrow> state \<Rightarrow> (error + node) \<times> state" where
  "DiscriminatorLoss_train_ops leaves generator discriminator optimizer_discriminator real_inputs
       dev batch_size s =
     (case Generator_forward generator real_inputs of
        Inl e \<Rightarrow> (Inl e, s)
      | Inr out \<Rightarrow>
     (case unpack2 out of
        Inl e \<Rightarrow> (Inl e, s)
      | Inr (uu, encodings) \<Rightarrow>
     (case size0 real_inputs of
        Inl e \<Rightarrow> (Inl e, s)
      | Inr n \<Rightarrow>
     (case randn n (encoding_dims generator) dev s of
        (Inl e, s0) \<Rightarrow> (Inl e, s0)
      | (Inr noise, s0) \<Rightarrow>
     (let s1 = zero_grad optimizer_discriminator s0
      in case Discriminator_forward discriminator noise of
        Inl e \<Rightarrow> (Inl e, s1)
      | Inr dx \<Rightarrow>
     (case Discriminator_forward discriminator encodings of
        Inl e \<Rightarrow> (Inl e, s1)
      | Inr dgz \<Rightarrow>
     (case DiscriminatorLoss_forward dx dgz of
        Inl e \<Rightarrow> (Inl e, s1)
      | Inr loss \<Rightarrow>
     (case backward leaves loss s1 of
        Inl e \<Rightarrow> (Inl e, s1)
      | Inr s2 \<Rightarrow>
     (let s3 = step optimizer_discriminator s2
      in (item loss, s3))))))))))"

text \<open>Which model a parameter belongs to.\<close>

fun of_generator :: "param \<Rightarrow> bool" where
  "of_generator (GenParam x) = True"
| "of_generator (DiscParam x) = False"

fun of_discriminator :: "param \<Rightarrow> bool" where
  "of_discriminator (GenParam x) = False"
| "of_discriminator (DiscParam x) = True"

section \<open>The configuration handed to the trainer\<close>

text \<open>
  \<^verbatim>\<open>
network = {
    "generator": {
        "name": AdversarialAutoencoderGenerator,
        "args": {"encoding_dims": 128, "input_size": 32, "input_channels": 1},
        ...
    },
    "discriminator": {
        "name": AdversarialAutoencoderDiscriminator,
        "args": {"input_dims": 128,},
        ...
    },
}
  \<close>
  The trainer calls each \<^verbatim>\<open>name\<close> with its \<^verbatim>\<open>args\<close>; the parameters left out take the
  defaults of the constructors, \<^verbatim>\<open>step_channels=16\<close> and
  \<^verbatim>\<open>nonlinearity=nn.LeakyReLU(0.2)\<close>.
\<close>

definition default_step_channels :: int where
  "default_step_channels = 16"

definition default_nonlinearity :: layer where
  "default_nonlinearity = LeakyReLU 0.2"

definition network_generator :: "(error + generator) option" where
  "network_generator =
     AdversarialAutoencoderGenerator 128 32 1 default_step_channels default_nonlinearity"

definition network_discriminator :: "(error + discriminator) option" where
  "network_discriminator = AdversarialAutoencoderDiscriminator 128 default_nonlinearity"

section \<open>The notebook as a script\<close>

subsection \<open>The installation guard of the first cell\<close>

text \<open>
  What the script meets outside itself: the version of the framework that is installed
  (\<open>None\<close> when there is none, and the import raises \<^verbatim>\<open>ImportError\<close>), the version
  \<^verbatim>\<open>pip install torchgan\<close> would install (\<open>None\<close> when the command fails with
  \<^verbatim>\<open>CalledProcessError\<close>), whether a GPU is available, and for every call into a library
  the exception it raises, if any. The calls \<open>ImportTorchgan\<close>, \<open>PipInstall\<close> and
  \<open>ImportTorchganAgain\<close> are the three statements of the first cell that leave the
  notebook: the import in the \<^verbatim>\<open>try\<close> block, the installation command, and the import
  after it. An installed framework can still fail to import, with \<^verbatim>\<open>ImportError\<close> or with
  another exception, before the installation and after it, and the installer can fail to
  start.
\<close>

datatype call =
    ImportTorchgan
  | PipInstall
  | ImportTorchganAgain
  | ImportLibraries
  | ManualSeed int
  | MNIST
  | DataLoader int
  | ClassDef string
  | MakeLosses
  | NetworkDict
  | TorchDevice device
  | Trainer device int
  | TrainerCall
  | PlotReal
  | Imread int
  | Show
  | ArtistAnimation

record world =
  torchgan_version :: "string option"
  pip_installs :: "string option"
  cuda_is_available :: bool
  raises :: "call \<Rightarrow> error option"

definition import_torchgan :: "call \<Rightarrow> world \<Rightarrow> error + string" where
  "import_torchgan statement w =
     (case raises w statement of
        Some e \<Rightarrow> Inl e
      | None \<Rightarrow>
          (case torchgan_version w of None \<Rightarrow> Inl ImportError | Some v \<Rightarrow> Inr v))"

definition pip_install :: "world \<Rightarrow> error + world" where
  "pip_install w =
     (case raises w PipInstall of
        Some e \<Rightarrow> Inl e
      | None \<Rightarrow>
          (case pip_installs w of
             None \<Rightarrow> Inl CalledProcessError
           | Some v \<Rightarrow> Inr (w\<lparr>torchgan_version := Some v\<rparr>)))"

text \<open>
  \<^verbatim>\<open>
try:
    import torchgan
    print(f"Existing TorchGAN {torchgan.__version__} installation found")
except ImportError:
    import subprocess
    import sys
    subprocess.check_call([sys.executable, "-m", "pip", "install", "torchgan"])
    import torchgan
    print(f"Installed TorchGAN {torchgan.__version__}")
  \<close>
  The value is the line printed, or the exception that leaves the cell.
\<close>

definition import_guard :: "world \<Rightarrow> (error + string) \<times> world" where
  "import_guard w =
     (case import_torchgan ImportTorchgan w of
        Inr v \<Rightarrow> (Inr (''Existing TorchGAN '' @ v @ '' installation found''), w)
      | Inl e \<Rightarrow>
          if e = ImportError then
            (case pip_install w of
               Inl e1 \<Rightarrow> (Inl e1, w)
             | Inr w1 \<Rightarrow>
                 (case import_torchgan ImportTorchganAgain w1 of
                    Inl e2 \<Rightarrow> (Inl e2, w1)
                  | Inr v \<Rightarrow> (Inr (''Installed TorchGAN '' @ v), w1)))
          else (Inl e, w))"

subsection \<open>The cells in order\<close>

text \<open>
  The state of the running notebook: the world, the calls into libraries completed so
  far after the first cell, and the two variables a later cell reads, \<^verbatim>\<open>device\<close> and \<^verbatim>\<open>epochs\<close>. A cell
  returns the exception that ended it, if any, and the state it reached.
\<close>

record notebook_state =
  env :: world
  calls :: "call list"
  device_var :: "device option"
  epochs_var :: "int option"

type_synonym cell = "notebook_state \<Rightarrow> error option \<times> notebook_state"

definition perform :: "call \<Rightarrow> cell" where
  "perform c s =
     (case raises (env s) c of
        Some e \<Rightarrow> (Some e, s)
      | None \<Rightarrow> (None, s\<lparr>calls := calls s @ [c]\<rparr>))"

definition and_then :: "cell \<Rightarrow> cell \<Rightarrow> cell" where
  "and_then f g s = (case f s of (Some e, s1) \<Rightarrow> (Some e, s1) | (None, s1) \<Rightarrow> g s1)"

fun run_all :: "cell list \<Rightarrow> cell" where
  "run_all [] s = (None, s)"
| "run_all (c # cs) s = and_then c (run_all cs) s"

definition cell_install :: cell where
  "cell_install s =
     (case import_guard (env s) of
        (Inl e, w) \<Rightarrow> (Some e, s\<lparr>env := w\<rparr>)
      | (Inr msg, w) \<Rightarrow> (None, s\<lparr>env := w\<rparr>))"

definition cell_imports :: cell where
  "cell_imports = perform ImportLibraries"

definition cell_seed :: cell where
  "cell_seed = perform (ManualSeed 999)"

definition cell_dataset :: cell where
  "cell_dataset = perform MNIST"

definition cell_loader :: cell where
  "cell_loader = perform (DataLoader 64)"

definition cell_generator :: cell where
  "cell_generator = perform (ClassDef ''AdversarialAutoencoderGenerator'')"

definition cell_discriminator :: cell where
  "cell_discriminator = perform (ClassDef ''AdversarialAutoencoderDiscriminator'')"

definition cell_losses :: cell where
  "cell_losses =
     run_all [perform (ClassDef ''AdversarialAutoencoderGeneratorLoss''),
              perform (ClassDef ''AdversarialAutoencoderDiscriminatorLoss''),
              perform MakeLosses]"

definition cell_network :: cell where
  "cell_network = perform NetworkDict"

text \<open>
  \<^verbatim>\<open>
if torch.cuda.is_available():
    device = torch.device("cuda:0")
    torch.backends.cudnn.deterministic = True
    epochs = 10
else:
    device = torch.device("cpu")
    epochs = 5
  \<close>
\<close>

definition cell_device :: cell where
  "cell_device s =
     (if cuda_is_available (env s) then
        and_then (perform (TorchDevice (Cuda 0)))
          (\<lambda>s1. (None, s1\<lparr>device_var := Some (Cuda 0), epochs_var := Some 10\<rparr>)) s
      else
        and_then (perform (TorchDevice Cpu))
          (\<lambda>s1. (None, s1\<lparr>device_var := Some Cpu, epochs_var := Some 5\<rparr>)) s)"

text \<open>
  \<^verbatim>\<open>
trainer = Trainer(network, losses, sample_size=64, epochs=epochs, device=device)
trainer(loader)
  \<close>
  Reading a variable no cell has assigned raises \<^verbatim>\<open>NameError\<close>.
\<close>

definition cell_trainer :: cell where
  "cell_trainer s =
     (case epochs_var s of
        None \<Rightarrow> (Some NameError, s)
      | Some e \<Rightarrow>
          (case device_var s of
             None \<Rightarrow> (Some NameError, s)
           | Some d \<Rightarrow> run_all [perform (Trainer d e), perform TrainerCall] s))"

text \<open>
  The two plotting cells read the images the trainer wrote, the last one once for every
  epoch: \<^verbatim>\<open>for i in range(1, trainer.epochs + 1)\<close>.
\<close>

definition cell_plot :: cell where
  "cell_plot s =
     (case epochs_var s of
        None \<Rightarrow> (Some NameError, s)
      | Some e \<Rightarrow> run_all [perform PlotReal, perform (Imread e), perform Show] s)"

definition cell_animation :: cell where
  "cell_animation s =
     (case epochs_var s of
        None \<Rightarrow> (Some NameError, s)
      | Some e \<Rightarrow> run_all (map (\<lambda>i. perform (Imread i)) [1..e] @ [perform ArtistAnimation]) s)"

definition notebook :: "world \<Rightarrow> error option \<times> notebook_state" where
  "notebook w =
     run_all [cell_install, cell_imports, cell_seed, cell_dataset, cell_loader,
              cell_generator, cell_discriminator, cell_losses, cell_network,
              cell_device, cell_trainer, cell_plot, cell_animation]
       \<lparr>env = w, calls = [], device_var = None, epochs_var = None\<rparr>"

text \<open>
  The calls of a run that no exception ends, in order, for the device \<open>d\<close> and the
  number of epochs \<open>e\<close> the device cell chose.
\<close>

definition full_run :: "device \<Rightarrow> int \<Rightarrow> call list" where
  "full_run d e =
     [ImportLibraries, ManualSeed 999, MNIST, DataLoader 64,
      ClassDef ''AdversarialAutoencoderGenerator'',
      ClassDef ''AdversarialAutoencoderDiscriminator'',
      ClassDef ''AdversarialAutoencoderGeneratorLoss'',
      ClassDef ''AdversarialAutoencoderDiscriminatorLoss'',
      MakeLosses, NetworkDict, TorchDevice d, Trainer d e, TrainerCall,
      PlotReal, Imread e, Show]
     @ map Imread [1..e] @ [ArtistAnimation]"

text \<open>The calls that show results.\<close>

fun is_plotting :: "call \<Rightarrow> bool" where
  "is_plotting PlotReal = True"
| "is_plotting (Imread i) = True"
| "is_plotting Show = True"
| "is_plotting ArtistAnimation = True"
| "is_plotting c = False"

section \<open>Termination of the constructors' loops\<close>

text \<open>
  Each loop is shown to return by induction on a measure that its body decreases: the
  loop variable itself where it is divided, and the distance to the bound where it is
  multiplied. With the result comes a bound on the number of blocks appended.
\<close>

lemma encoder_loop_returns:
  "\<exists>r. encoder_loop nl sz c acc = Some r"
proof (induction "nat sz" arbitrary: sz c acc rule: less_induct)
  case less
  show ?case
  proof (cases "sz > 1")
    case True
    then have "nat (sz div 4) < nat sz" by simp
    from less [OF this] show ?thesis
      by (subst encoder_loop.simps) (simp add: True)
  next
    case False
    then show ?thesis by (subst encoder_loop.simps) simp
  qed
qed

lemma encoder_loop_length:
  "encoder_loop nl sz c acc = Some (enc, ch) \<Longrightarrow> length enc \<le> length acc + nat sz"
proof (induction "nat sz" arbitrary: sz c acc rule: less_induct)
  case less
  show ?case
  proof (cases "sz > 1")
    case True
    then have m: "nat (sz div 4) < nat sz" by simp
    from less.prems True have
      "encoder_loop nl (sz div 4) (c * 4)
         (acc @ [Sequential [Conv2d c (c * 4) 5 4 2, BatchNorm2d (c * 4), nl]]) = Some (enc, ch)"
      by (subst (asm) encoder_loop.simps) simp
    from less.hyps [OF m this] True show ?thesis by simp
  next
    case False
    with less.prems show ?thesis by (subst (asm) encoder_loop.simps) simp
  qed
qed

lemma decoder_loop_returns:
  "1 \<le> sz \<Longrightarrow> \<exists>r. decoder_loop nl input_size sz c acc = Some r"
proof (induction "nat (input_size div 2 - sz)" arbitrary: sz c acc rule: less_induct)
  case less
  show ?case
  proof (cases "sz < input_size div 2")
    case True
    with less.prems have m: "nat (input_size div 2 - sz * 4) < nat (input_size div 2 - sz)"
      by simp
    have "1 \<le> sz * 4" using less.prems by simp
    from less.hyps [OF m this] show ?thesis
      by (subst decoder_loop.simps) (simp add: True)
  next
    case False
    then show ?thesis by (subst decoder_loop.simps) simp
  qed
qed

lemma decoder_loop_length:
  "1 \<le> sz \<Longrightarrow> decoder_loop nl input_size sz c acc = Some (dec, ch) \<Longrightarrow>
   length dec \<le> length acc + nat (input_size div 2 - sz)"
proof (induction "nat (input_size div 2 - sz)" arbitrary: sz c acc rule: less_induct)
  case less
  show ?case
  proof (cases "sz < input_size div 2")
    case True
    with less.prems have m: "nat (input_size div 2 - sz * 4) < nat (input_size div 2 - sz)"
      by simp
    have p: "1 \<le> sz * 4" using less.prems by simp
    from less.prems True have
      "decoder_loop nl input_size (sz * 4) (c * 4)
         (acc @ [Sequential [ConvTranspose2d c (c * 4) 5 4 2 3, BatchNorm2d (c * 4), nl]]) = Some (dec, ch)"
      by (subst (asm) decoder_loop.simps) simp
    from less.hyps [OF m p this] True less.prems show ?thesis by simp
  next
    case False
    with less.prems show ?thesis by (subst (asm) decoder_loop.simps) simp
  qed
qed

lemma discriminator_loop_returns:
  "\<exists>r. discriminator_loop nl sz acc = Some r"
proof (induction "nat sz" arbitrary: sz acc rule: less_induct)
  case less
  show ?case
  proof (cases "sz > 16")
    case True
    then have "nat (sz div 2) < nat sz" by simp
    from less [OF this] show ?thesis
      by (subst discriminator_loop.simps) (simp add: True)
  next
    case False
    then show ?thesis by (subst discriminator_loop.simps) simp
  qed
qed

lemma discriminator_loop_length:
  "discriminator_loop nl sz acc = Some (m, s) \<Longrightarrow> length m \<le> length acc + nat sz"
proof (induction "nat sz" arbitrary: sz acc rule: less_induct)
  case less
  show ?case
  proof (cases "sz > 16")
    case True
    then have m: "nat (sz div 2) < nat sz" by simp
    from less.prems True have
      "discriminator_loop nl (sz div 2)
         (acc @ [Sequential [Linear sz (sz div 2), BatchNorm1d (sz div 2), nl]]) = Some (m, s)"
      by (subst (asm) discriminator_loop.simps) simp
    from less.hyps [OF m this] True show ?thesis by simp
  next
    case False
    with less.prems show ?thesis by (subst (asm) discriminator_loop.simps) simp
  qed
qed

text \<open>
  No constructor raises inside the loops: started at a channel count that is not
  negative, the loops build only layers whose constructors return.
\<close>

lemma encoder_loop_constructs:
  assumes "encoder_loop nl sz c acc = Some (enc, ch)" and "0 \<le> c"
    and "list_all (\<lambda>l. layer_init l = Inr l) (primitives nl)"
    and "list_all (\<lambda>l. layer_init l = Inr l) (concat (map primitives acc))"
  shows "list_all (\<lambda>l. layer_init l = Inr l) (concat (map primitives enc)) \<and> 0 \<le> ch"
  using assms
proof (induction "nat sz" arbitrary: sz c acc rule: less_induct)
  case less
  show ?case
  proof (cases "sz > 1")
    case True
    then have m: "nat (sz div 4) < nat sz" by simp
    let ?acc = "acc @ [Sequential [Conv2d c (c * 4) 5 4 2, BatchNorm2d (c * 4), nl]]"
    from less.prems(1) True have loop:
      "encoder_loop nl (sz div 4) (c * 4) ?acc = Some (enc, ch)"
      by (subst (asm) encoder_loop.simps) simp
    have c4: "0 \<le> c * 4" using less.prems(2) by simp
    have acc: "list_all (\<lambda>l. layer_init l = Inr l) (concat (map primitives ?acc))"
      using less.prems(2,3,4) by simp
    from less.hyps [OF m loop c4 less.prems(3) acc] show ?thesis .
  next
    case False
    with less.prems show ?thesis by (subst (asm) encoder_loop.simps) simp
  qed
qed

lemma decoder_loop_constructs:
  assumes "decoder_loop nl input_size sz c acc = Some (dec, ch)" and "1 \<le> sz" and "0 \<le> c"
    and "list_all (\<lambda>l. layer_init l = Inr l) (primitives nl)"
    and "list_all (\<lambda>l. layer_init l = Inr l) (concat (map primitives acc))"
  shows "list_all (\<lambda>l. layer_init l = Inr l) (concat (map primitives dec)) \<and> 0 \<le> ch"
  using assms
proof (induction "nat (input_size div 2 - sz)" arbitrary: sz c acc rule: less_induct)
  case less
  show ?case
  proof (cases "sz < input_size div 2")
    case True
    with less.prems(2) have m: "nat (input_size div 2 - sz * 4) < nat (input_size div 2 - sz)"
      by simp
    let ?acc = "acc @ [Sequential [ConvTranspose2d c (c * 4) 5 4 2 3, BatchNorm2d (c * 4), nl]]"
    from less.prems(1) True have loop:
      "decoder_loop nl input_size (sz * 4) (c * 4) ?acc = Some (dec, ch)"
      by (subst (asm) decoder_loop.simps) simp
    have p: "1 \<le> sz * 4" using less.prems(2) by simp
    have c4: "0 \<le> c * 4" using less.prems(3) by simp
    have acc: "list_all (\<lambda>l. layer_init l = Inr l) (concat (map primitives ?acc))"
      using less.prems(3,4,5) by simp
    from less.hyps [OF m loop p c4 less.prems(4) acc] show ?thesis .
  next
    case False
    with less.prems show ?thesis by (subst (asm) decoder_loop.simps) simp
  qed
qed

lemma discriminator_loop_constructs:
  assumes "discriminator_loop nl sz acc = Some (m, s)"
    and "list_all (\<lambda>l. layer_init l = Inr l) (primitives nl)"
    and "list_all (\<lambda>l. layer_init l = Inr l) (concat (map primitives acc))"
  shows "list_all (\<lambda>l. layer_init l = Inr l) (concat (map primitives m)) \<and> (0 \<le> sz \<longrightarrow> 0 \<le> s)"
  using assms
proof (induction "nat sz" arbitrary: sz acc rule: less_induct)
  case less
  show ?case
  proof (cases "sz > 16")
    case True
    then have m: "nat (sz div 2) < nat sz" by simp
    let ?acc = "acc @ [Sequential [Linear sz (sz div 2), BatchNorm1d (sz div 2), nl]]"
    from less.prems(1) True have loop:
      "discriminator_loop nl (sz div 2) ?acc = Some (m, s)"
      by (subst (asm) discriminator_loop.simps) simp
    have acc: "list_all (\<lambda>l. layer_init l = Inr l) (concat (map primitives ?acc))"
      using True less.prems(2,3) by simp
    from less.hyps [OF m loop less.prems(2) acc] True show ?thesis by simp
  next
    case False
    with less.prems show ?thesis by (subst (asm) discriminator_loop.simps) simp
  qed
qed


text \<open>
  Started at a value that is not negative, the loops end with a channel count, and a
  size, that is not negative.
\<close>

lemma encoder_loop_channels:
  assumes "encoder_loop nl sz c acc = Some (enc, ch)" and "0 \<le> c"
  shows "0 \<le> ch"
  using assms
proof (induction "nat sz" arbitrary: sz c acc rule: less_induct)
  case less
  show ?case
  proof (cases "sz > 1")
    case True
    then have m: "nat (sz div 4) < nat sz" by simp
    from less.prems(1) True have loop:
      "encoder_loop nl (sz div 4) (c * 4)
         (acc @ [Sequential [Conv2d c (c * 4) 5 4 2, BatchNorm2d (c * 4), nl]]) = Some (enc, ch)"
      by (subst (asm) encoder_loop.simps) simp
    have c4: "0 \<le> c * 4" using less.prems(2) by simp
    from less.hyps [OF m loop c4] show ?thesis .
  next
    case False
    with less.prems show ?thesis by (subst (asm) encoder_loop.simps) simp
  qed
qed

lemma decoder_loop_channels:
  assumes "decoder_loop nl input_size sz c acc = Some (dec, ch)" and "1 \<le> sz" and "0 \<le> c"
  shows "0 \<le> ch"
  using assms
proof (induction "nat (input_size div 2 - sz)" arbitrary: sz c acc rule: less_induct)
  case less
  show ?case
  proof (cases "sz < input_size div 2")
    case True
    with less.prems(2) have m: "nat (input_size div 2 - sz * 4) < nat (input_size div 2 - sz)"
      by simp
    from less.prems(1) True have loop:
      "decoder_loop nl input_size (sz * 4) (c * 4)
         (acc @ [Sequential [ConvTranspose2d c (c * 4) 5 4 2 3, BatchNorm2d (c * 4), nl]])
         = Some (dec, ch)"
      by (subst (asm) decoder_loop.simps) simp
    have p: "1 \<le> sz * 4" using less.prems(2) by simp
    have c4: "0 \<le> c * 4" using less.prems(3) by simp
    from less.hyps [OF m loop p c4] show ?thesis .
  next
    case False
    with less.prems show ?thesis by (subst (asm) decoder_loop.simps) simp
  qed
qed

lemma discriminator_loop_size:
  assumes "discriminator_loop nl sz acc = Some (m, s)" and "0 \<le> sz"
  shows "0 \<le> s"
  using assms
proof (induction "nat sz" arbitrary: sz acc rule: less_induct)
  case less
  show ?case
  proof (cases "sz > 16")
    case True
    then have m: "nat (sz div 2) < nat sz" by simp
    from less.prems(1) True have loop:
      "discriminator_loop nl (sz div 2)
         (acc @ [Sequential [Linear sz (sz div 2), BatchNorm1d (sz div 2), nl]]) = Some (m, s)"
      by (subst (asm) discriminator_loop.simps) simp
    from True have "0 \<le> sz div 2" by simp
    from less.hyps [OF m loop this] show ?thesis .
  next
    case False
    with less.prems show ?thesis by (subst (asm) discriminator_loop.simps) simp
  qed
qed


text \<open>
  Claim C5. The layer-building loops of the two constructors terminate for every valid
  configuration, and the topology they yield is finite. For every \<open>input_size \<ge> 2\<close> the
  encoder loop (started at \<open>input_size // 2\<close>, dividing by 4 while above 1) and the
  decoder loop (started at 1, multiplying by 4 while below \<open>input_size // 2\<close>) return,
  each with a bounded number of blocks, and so the generator's constructor ends: it
  returns the module when \<open>encoding_dims\<close>, \<open>input_channels\<close> and \<open>step_channels\<close> are not
  negative, and raises the exception of a layer's constructor otherwise. For
  every \<open>input_dims \<ge> 1\<close> the discriminator loop (started at \<open>input_dims // 2\<close>, halving
  while above 16) returns, and the discriminator's constructor returns the module.
\<close>

theorem constructor_loops_terminate:
  "(2 \<le> input_size \<longrightarrow>
      (\<exists>enc ch. encoder_loop nl (input_size div 2) c acc = Some (enc, ch)
                \<and> length enc \<le> length acc + nat (input_size div 2))
    \<and> (\<exists>dec ch. decoder_loop nl input_size 1 c acc = Some (dec, ch)
                \<and> length dec \<le> length acc + nat (input_size div 2 - 1))
    \<and> (\<exists>g. AdversarialAutoencoderGenerator edims input_size input_channels c nl = Some g)
    \<and> (0 \<le> edims \<and> 0 \<le> input_channels \<and> 0 \<le> c \<longrightarrow>
         (\<exists>g. AdversarialAutoencoderGenerator edims input_size input_channels c nl
                = Some (Inr g))))
   \<and> (1 \<le> idims \<longrightarrow>
      (\<exists>m sz. discriminator_loop nl (idims div 2) acc = Some (m, sz)
              \<and> length m \<le> length acc + nat (idims div 2))
    \<and> (\<exists>d. AdversarialAutoencoderDiscriminator idims nl = Some (Inr d)))"
proof -
  have enc: "\<exists>enc ch. encoder_loop nl s c a = Some (enc, ch) \<and> length enc \<le> length a + nat s"
    for s a
  proof -
    obtain r where "encoder_loop nl s c a = Some r"
      using encoder_loop_returns by blast
    then show ?thesis
      using encoder_loop_length [of nl s c a "fst r" "snd r"] by (cases r) auto
  qed
  have dec: "\<exists>dec ch. decoder_loop nl i 1 c a = Some (dec, ch)
               \<and> length dec \<le> length a + nat (i div 2 - 1)" for i a
  proof -
    obtain r where "decoder_loop nl i 1 c a = Some r"
      using decoder_loop_returns [of 1] by blast
    then show ?thesis
      using decoder_loop_length [of 1 nl i c a "fst r" "snd r"] by (cases r) auto
  qed
  have dis: "\<exists>m sz. discriminator_loop nl s a = Some (m, sz) \<and> length m \<le> length a + nat s"
    for s a
  proof -
    obtain r where "discriminator_loop nl s a = Some r"
      using discriminator_loop_returns by blast
    then show ?thesis
      using discriminator_loop_length [of nl s a "fst r" "snd r"] by (cases r) auto
  qed
  have gen: "\<exists>g. AdversarialAutoencoderGenerator edims i input_channels c nl = Some g" for i
  proof -
    obtain e ch where "encoder_loop nl (i div 2) c
        [Sequential [Conv2d input_channels c 5 2 2, nl]] = Some (e, ch)"
      using enc by blast
    moreover obtain d ch' where "decoder_loop nl i 1 c [] = Some (d, ch')"
      using dec by blast
    ultimately show ?thesis
      by (simp add: AdversarialAutoencoderGenerator_def split: sum.splits)
  qed
  have genr: "\<exists>g. AdversarialAutoencoderGenerator edims i input_channels c nl = Some (Inr g)"
    if nn: "0 \<le> edims" "0 \<le> input_channels" "0 \<le> c" for i
  proof -
    obtain e ch where e: "encoder_loop nl (i div 2) c
        [Sequential [Conv2d input_channels c 5 2 2, nl]] = Some (e, ch)"
      using enc by blast
    obtain d ch' where d: "decoder_loop nl i 1 c [] = Some (d, ch')"
      using dec by blast
    from encoder_loop_channels [OF e nn(3)] have ch: "\<not> ch < 0" by simp
    from decoder_loop_channels [OF d _ nn(3)] have ch': "\<not> ch' < 0" by simp
    from nn have "\<not> edims < 0" "\<not> input_channels < 0" "\<not> c < 0" by simp_all
    with e d ch ch' show ?thesis
      by (simp add: AdversarialAutoencoderGenerator_def)
  qed
  have disc: "\<exists>d. AdversarialAutoencoderDiscriminator idims nl = Some (Inr d)"
    if nn: "1 \<le> idims"
  proof -
    obtain m sz where m: "discriminator_loop nl (idims div 2)
        [Sequential [Linear idims (idims div 2), nl]] = Some (m, sz)"
      using dis by blast
    from nn have h: "0 \<le> idims div 2" by simp
    from discriminator_loop_size [OF m h] have "\<not> sz < 0" by simp
    moreover from nn h have "\<not> idims < 0" "\<not> idims div 2 < 0" by simp_all
    ultimately show ?thesis
      using m by (simp add: AdversarialAutoencoderDiscriminator_def)
  qed
  show ?thesis using enc dec dis gen genr disc by blast
qed

theorem constructor_loops_terminate_witness:
  "(2::int) \<le> 32 \<and> (1::int) \<le> 128
   \<and> (\<exists>enc ch. encoder_loop (LeakyReLU 0.2) (32 div 2) 16 [] = Some (enc, ch)
               \<and> length enc \<le> length ([]::layer list) + nat (32 div 2))
   \<and> (\<exists>dec ch. decoder_loop (LeakyReLU 0.2) 32 1 16 [] = Some (dec, ch)
               \<and> length dec \<le> length ([]::layer list) + nat (32 div 2 - 1))
   \<and> (\<exists>g. AdversarialAutoencoderGenerator 128 32 1 16 (LeakyReLU 0.2) = Some (Inr g))
   \<and> (\<exists>m sz. discriminator_loop (LeakyReLU 0.2) (128 div 2) [] = Some (m, sz)
              \<and> length m \<le> length ([]::layer list) + nat (128 div 2))
   \<and> (\<exists>d. AdversarialAutoencoderDiscriminator 128 (LeakyReLU 0.2) = Some (Inr d))"
  using constructor_loops_terminate [of 32 "LeakyReLU 0.2" 16 "[]" 128 1 128]
  by simp

section \<open>The loss formulas\<close>

lemma broadcast_rev_same: "broadcast_rev xs xs = Some xs"
  by (induction xs) simp_all

lemma broadcast_shapes_same: "broadcast_shapes a a = Some a"
  by (simp add: broadcast_shapes_def broadcast_rev_same)

lemma broadcast_shapes_scalar: "broadcast_shapes [] [] = Some []"
  by (simp add: broadcast_shapes_def)

lemma mse_loss_equal_shapes:
  "shape a = shape b \<Longrightarrow>
   mse_loss a b = Inr \<lparr>shape = [], grad_fn = MseLoss (grad_fn a) (grad_fn b)\<rparr>"
  by (simp add: mse_loss_def broadcast_shapes_same)

lemma bce_equal_shapes:
  "shape t = shape a \<Longrightarrow>
   binary_cross_entropy_with_logits a t =
     Inr \<lparr>shape = [], grad_fn = BceWithLogits (grad_fn a) (grad_fn t)\<rparr>"
  by (simp add: binary_cross_entropy_with_logits_def)

lemma iadd_scalars:
  "shape a = [] \<Longrightarrow> shape b = [] \<Longrightarrow>
   iadd a b = Inr \<lparr>shape = [], grad_fn = Add (grad_fn a) (grad_fn b)\<rparr>"
  by (simp add: iadd_def broadcast_shapes_scalar)

text \<open>
  Claim C1. For every real batch and reconstruction of equal shape and every tensor of
  discriminator logits \<open>dgz\<close>, \<^verbatim>\<open>AdversarialAutoencoderGeneratorLoss.forward\<close> raises
  nothing and returns the weighted sum
  \<open>0.999 * mse_loss(gen_inputs, real_inputs)
     + 0.001 * binary_cross_entropy_with_logits(dgz, ones_like(dgz))\<close>.
\<close>

theorem generator_loss_forward:
  assumes "shape gen_inputs = shape real_inputs"
  shows "\<exists>m b. mse_loss gen_inputs real_inputs = Inr m
           \<and> binary_cross_entropy_with_logits dgz (ones_like dgz) = Inr b
           \<and> GeneratorLoss_forward real_inputs gen_inputs dgz
               = Inr \<lparr>shape = [], grad_fn = Add (Mul 0.999 (grad_fn m)) (Mul 0.001 (grad_fn b))\<rparr>
           \<and> grad_fn m = MseLoss (grad_fn gen_inputs) (grad_fn real_inputs)
           \<and> grad_fn b = BceWithLogits (grad_fn dgz) (Ones (shape dgz))"
proof -
  let ?m = "\<lparr>shape = [], grad_fn = MseLoss (grad_fn gen_inputs) (grad_fn real_inputs)\<rparr>"
  let ?b = "\<lparr>shape = [], grad_fn = BceWithLogits (grad_fn dgz) (Ones (shape dgz))\<rparr>"
  have m: "mse_loss gen_inputs real_inputs = Inr ?m"
    using assms by (rule mse_loss_equal_shapes)
  have b: "binary_cross_entropy_with_logits dgz (ones_like dgz) = Inr ?b"
    by (simp add: bce_equal_shapes ones_like_def)
  have "iadd (scale 0.999 ?m) (scale 0.001 ?b)
          = Inr \<lparr>shape = [], grad_fn = Add (Mul 0.999 (grad_fn ?m)) (Mul 0.001 (grad_fn ?b))\<rparr>"
    by (simp add: iadd_scalars scale_def)
  then have "GeneratorLoss_forward real_inputs gen_inputs dgz
          = Inr \<lparr>shape = [], grad_fn = Add (Mul 0.999 (grad_fn ?m)) (Mul 0.001 (grad_fn ?b))\<rparr>"
    by (simp add: GeneratorLoss_forward_def m b)
  with m b show ?thesis by simp
qed

theorem generator_loss_forward_witness:
  "shape \<lparr>shape = [2, 1, 32, 32], grad_fn = Leaf ''recon''\<rparr>
     = shape \<lparr>shape = [2, 1, 32, 32], grad_fn = Leaf ''real''\<rparr>
   \<and> GeneratorLoss_forward \<lparr>shape = [2, 1, 32, 32], grad_fn = Leaf ''real''\<rparr>
        \<lparr>shape = [2, 1, 32, 32], grad_fn = Leaf ''recon''\<rparr>
        \<lparr>shape = [2, 1], grad_fn = Leaf ''dgz''\<rparr>
      = Inr \<lparr>shape = [],
             grad_fn = Add (Mul 0.999 (MseLoss (Leaf ''recon'') (Leaf ''real'')))
                           (Mul 0.001 (BceWithLogits (Leaf ''dgz'') (Ones [2, 1])))\<rparr>"
  using generator_loss_forward
    [of "\<lparr>shape = [2, 1, 32, 32], grad_fn = Leaf ''recon''\<rparr>"
        "\<lparr>shape = [2, 1, 32, 32], grad_fn = Leaf ''real''\<rparr>"
        "\<lparr>shape = [2, 1], grad_fn = Leaf ''dgz''\<rparr>"]
  by auto

text \<open>
  Claim C2, as stated, at a concrete input: for two logit tensors of shape \<open>(2, 1)\<close> the
  loss \<^verbatim>\<open>AdversarialAutoencoderDiscriminatorLoss.forward\<close> returns is the sum of two
  binary-cross-entropy terms and holds no mean-squared-error term.
\<close>

theorem discriminator_loss_has_no_mse_term:
  "DiscriminatorLoss_forward \<lparr>shape = [2, 1], grad_fn = Leaf ''dx''\<rparr>
        \<lparr>shape = [2, 1], grad_fn = Leaf ''dgz''\<rparr>
     = Inr \<lparr>shape = [],
            grad_fn = Add (Mul 0.5 (BceWithLogits (Leaf ''dx'') (Ones [2, 1])))
                          (Mul 0.5 (BceWithLogits (Leaf ''dgz'') (Zeros [2, 1])))\<rparr>
   \<and> \<not> has_mse_term (Add (Mul 0.5 (BceWithLogits (Leaf ''dx'') (Ones [2, 1])))
                          (Mul 0.5 (BceWithLogits (Leaf ''dgz'') (Zeros [2, 1]))))"
  by (simp add: DiscriminatorLoss_forward_def binary_cross_entropy_with_logits_def
      ones_like_def zeros_like_def scale_def iadd_def broadcast_shapes_def)

text \<open>
  Claim C2, amended. For every pair of logit tensors \<open>dx\<close> and \<open>dgz\<close> of equal shape,
  \<^verbatim>\<open>AdversarialAutoencoderDiscriminatorLoss.forward\<close> raises nothing and returns the
  weighted sum of two binary-cross-entropy terms
  \<open>0.5 * binary_cross_entropy_with_logits(dx, ones_like(dx))
     + 0.5 * binary_cross_entropy_with_logits(dgz, zeros_like(dx))\<close>;
  it adds exactly two such terms and no mean-squared-error term to those its arguments
  already hold.
\<close>

theorem discriminator_loss_forward:
  assumes "shape dgz = shape dx"
  shows "\<exists>loss. DiscriminatorLoss_forward dx dgz = Inr loss
           \<and> shape loss = []
           \<and> grad_fn loss = Add (Mul 0.5 (BceWithLogits (grad_fn dx) (Ones (shape dx))))
                                (Mul 0.5 (BceWithLogits (grad_fn dgz) (Zeros (shape dx))))
           \<and> bce_terms (grad_fn loss) = 2 + bce_terms (grad_fn dx) + bce_terms (grad_fn dgz)
           \<and> has_mse_term (grad_fn loss)
               = (has_mse_term (grad_fn dx) \<or> has_mse_term (grad_fn dgz))"
proof -
  let ?b1 = "\<lparr>shape = [], grad_fn = BceWithLogits (grad_fn dx) (Ones (shape dx))\<rparr>"
  let ?b2 = "\<lparr>shape = [], grad_fn = BceWithLogits (grad_fn dgz) (Zeros (shape dx))\<rparr>"
  have b1: "binary_cross_entropy_with_logits dx (ones_like dx) = Inr ?b1"
    by (simp add: bce_equal_shapes ones_like_def)
  have b2: "binary_cross_entropy_with_logits dgz (zeros_like dx) = Inr ?b2"
    using assms by (simp add: bce_equal_shapes zeros_like_def)
  have "iadd (scale 0.5 ?b1) (scale 0.5 ?b2)
          = Inr \<lparr>shape = [], grad_fn = Add (Mul 0.5 (grad_fn ?b1)) (Mul 0.5 (grad_fn ?b2))\<rparr>"
    by (simp add: iadd_scalars scale_def)
  then have "DiscriminatorLoss_forward dx dgz
          = Inr \<lparr>shape = [], grad_fn = Add (Mul 0.5 (grad_fn ?b1)) (Mul 0.5 (grad_fn ?b2))\<rparr>"
    by (simp add: DiscriminatorLoss_forward_def b1 b2)
  then show ?thesis by simp
qed

theorem discriminator_loss_forward_witness:
  "shape \<lparr>shape = [64, 1], grad_fn = Leaf ''dgz''\<rparr> = shape \<lparr>shape = [64, 1], grad_fn = Leaf ''dx''\<rparr>
   \<and> (\<exists>loss. DiscriminatorLoss_forward \<lparr>shape = [64, 1], grad_fn = Leaf ''dx''\<rparr>
                \<lparr>shape = [64, 1], grad_fn = Leaf ''dgz''\<rparr> = Inr loss
          \<and> bce_terms (grad_fn loss) = 2 \<and> \<not> has_mse_term (grad_fn loss))"
  using discriminator_loss_forward
    [of "\<lparr>shape = [64, 1], grad_fn = Leaf ''dgz''\<rparr>" "\<lparr>shape = [64, 1], grad_fn = Leaf ''dx''\<rparr>"]
  by auto

section \<open>Shapes through the blocks of the generator\<close>

lemma forward_layers_append:
  "forward_layers tr (xs @ ys) t =
     (case forward_layers tr xs t of Inl e \<Rightarrow> Inl e | Inr y \<Rightarrow> forward_layers tr ys y)"
  by (induction xs arbitrary: t) (simp_all split: sum.splits)

lemma batch_not_single:
  fixes n h :: int
  assumes "2 \<le> n" and "1 \<le> h"
  shows "n * h * h \<noteq> 1"
  using assms by (auto simp: zmult_eq_1_iff)

lemma wide_not_single:
  fixes n h :: int
  assumes "1 \<le> n" and "1 \<le> h"
  shows "n * (4 * h) * (4 * h) \<noteq> 1"
  using assms by (auto simp: zmult_eq_1_iff)

lemma four_power_ge_1: "(1::int) \<le> 4 ^ j"
  by simp

text \<open>
  A block of the encoder divides the side \<open>h\<close> by 4, rounding up. Its batch
  normalisation accepts every batch of two or more, and raises \<^verbatim>\<open>ValueError\<close> on a batch
  of one when the side has come down to 1.
\<close>

lemma encoder_block_any:
  assumes "2 \<le> n" and "1 \<le> c" and "1 \<le> h" and "shape t = [n, c, h, h]"
  shows "\<exists>t'. forward_layer True
                 (Sequential [Conv2d c (c * 4) 5 4 2, BatchNorm2d (c * 4), LeakyReLU a]) t = Inr t'
              \<and> shape t' = [n, c * 4, (h - 1) div 4 + 1, (h - 1) div 4 + 1]"
proof -
  have co: "conv_out h 5 4 2 = (h - 1) div 4 + 1"
    by (simp add: conv_out_def)
  have "1 \<le> (h - 1) div 4 + 1"
    using assms(3) by simp
  then have nz: "n * ((h - 1) div 4 + 1) * ((h - 1) div 4 + 1) \<noteq> 1"
    using assms(1) by (intro batch_not_single)
  show ?thesis
    using assms(2,3,4) nz by (simp add: primitive_def co)
qed

lemma encoder_block_single:
  assumes "1 \<le> c" and "1 \<le> h" and "shape t = [1, c, h, h]"
  shows "forward_layer True
           (Sequential [Conv2d c (c * 4) 5 4 2, BatchNorm2d (c * 4), LeakyReLU a]) t
           = Inl ValueError
       \<or> (1 < (h - 1) div 4 + 1
          \<and> (\<exists>t'. forward_layer True
                      (Sequential [Conv2d c (c * 4) 5 4 2, BatchNorm2d (c * 4), LeakyReLU a]) t
                      = Inr t'
                   \<and> shape t' = [1, c * 4, (h - 1) div 4 + 1, (h - 1) div 4 + 1]))"
proof -
  have co: "conv_out h 5 4 2 = (h - 1) div 4 + 1"
    by (simp add: conv_out_def)
  have h': "1 \<le> (h - 1) div 4 + 1"
    using assms(2) by simp
  show ?thesis
  proof (cases "(h - 1) div 4 + 1 = 1")
    case True
    then show ?thesis
      using assms by (simp add: primitive_def co)
  next
    case False
    with h' have big: "1 < (h - 1) div 4 + 1" by linarith
    then have "((h - 1) div 4 + 1) * ((h - 1) div 4 + 1) \<noteq> 1"
      by (auto simp: zmult_eq_1_iff)
    with big show ?thesis
      using assms by (simp add: primitive_def co)
  qed
qed

lemma decoder_block_shape:
  assumes "1 \<le> n" and "1 \<le> c" and "1 \<le> h" and "shape t = [n, c, h, h]"
  shows "\<exists>t'. forward_layer True
                 (Sequential [ConvTranspose2d c (c * 4) 5 4 2 3, BatchNorm2d (c * 4), LeakyReLU a]) t
                 = Inr t'
              \<and> shape t' = [n, c * 4, 4 * h, 4 * h]"
proof -
  have co: "conv_transpose_out h 5 4 2 3 = 4 * h"
    by (simp add: conv_transpose_out_def)
  have nz: "n * (4 * h) * (4 * h) \<noteq> 1"
    using assms(1,3) by (rule wide_not_single)
  show ?thesis
    using assms(2,3,4) nz by (simp add: primitive_def co)
qed

lemma first_block_any:
  assumes "1 \<le> c" and "1 \<le> c'" and "1 \<le> h" and "shape t = [n, c, h, h]"
  shows "\<exists>t'. forward_layer True (Sequential [Conv2d c c' 5 2 2, LeakyReLU a]) t = Inr t'
              \<and> shape t' = [n, c', (h - 1) div 2 + 1, (h - 1) div 2 + 1]"
proof -
  have co: "conv_out h 5 2 2 = (h - 1) div 2 + 1"
    by (simp add: conv_out_def)
  show ?thesis
    using assms by (simp add: primitive_def co)
qed

lemma last_layer_shape:
  assumes "1 \<le> c" and "1 \<le> c'" and "1 \<le> h" and "shape t = [n, c, h, h]"
  shows "\<exists>t'. forward_layer True (ConvTranspose2d c c' 5 2 2 1) t = Inr t'
              \<and> shape t' = [n, c', 2 * h, 2 * h]"
proof -
  have co: "conv_transpose_out h 5 2 2 1 = 2 * h"
    by (simp add: conv_transpose_out_def)
  show ?thesis
    using assms by (simp add: primitive_def co)
qed

lemma linear_batch_shape:
  "shape t = [n, c] \<Longrightarrow>
   \<exists>t'. forward_layer tr (Linear c c') t = Inr t' \<and> shape t' = [n, c']"
  by (simp add: primitive_def linear_shape_def)

text \<open>
  Whenever \<^verbatim>\<open>forward\<close> returns in training mode, what it returns is the pair of
  \<^verbatim>\<open>sample(encoding)\<close> and the encoding computed by the encoder and \<^verbatim>\<open>encoder_fc\<close>.
\<close>

lemma forward_training_cases:
  assumes "training g" and "Generator_forward g x = Inr out"
  shows "\<exists>enc0 flat encoding recon.
           forward_layer True (encoder g) x = Inr enc0
         \<and> view_encoding enc0 = Inr flat
         \<and> forward_layer True (encoder_fc g) flat = Inr encoding
         \<and> Generator_sample g encoding = Inr recon
         \<and> out = Tuple2 recon encoding"
  using assms by (auto simp: Generator_forward_def split: sum.splits)

subsection \<open>The encoder loop\<close>

text \<open>
  The encoder loop counts with floor division while a convolution rounds up. The
  premise of the next lemmas relates the loop variable \<open>sz\<close> and the side \<open>h\<close> of the image
  when \<open>j\<close> iterations remain: both are at most \<open>4 ^ j\<close>, and \<open>sz\<close> is large enough for the
  loop to run \<open>j\<close> times. Then the side is 1 when the loop ends, which the linear layer
  after the encoder needs. A batch of one passes only when the loop builds no block.
\<close>

lemma next_range:
  fixes sz h :: int
  assumes "2 * 4 ^ j \<le> sz" and "sz \<le> 4 * 4 ^ j" and "1 \<le> h" and "h \<le> 4 * 4 ^ j"
  shows "(j = 0 \<and> sz div 4 \<le> 1 \<and> (h - 1) div 4 + 1 = 1)
      \<or> (0 < j \<and> 2 * 4 ^ (j - 1) \<le> sz div 4 \<and> sz div 4 \<le> 4 ^ j
            \<and> 1 \<le> (h - 1) div 4 + 1 \<and> (h - 1) div 4 + 1 \<le> 4 ^ j)"
proof (cases j)
  case 0
  with assms show ?thesis by simp
next
  case (Suc j')
  have "2 * 4 ^ j' \<le> sz div 4" using assms(1) Suc by simp
  moreover have "sz div 4 \<le> 4 ^ j" using assms(2) by simp
  moreover have "1 \<le> (h - 1) div 4 + 1" using assms(3) by simp
  moreover have "(h - 1) div 4 + 1 \<le> 4 ^ j" using assms(4) by simp
  ultimately show ?thesis using Suc by simp
qed

lemma encoder_loop_range:
  assumes n: "2 \<le> n \<or> (1 \<le> n \<and> j = 0)"
  shows "1 \<le> c \<Longrightarrow>
    (j = 0 \<and> sz \<le> 1 \<and> h = 1) \<or> (0 < j \<and> 2 * 4 ^ (j - 1) \<le> sz \<and> sz \<le> 4 ^ j \<and> 1 \<le> h \<and> h \<le> 4 ^ j)
    \<Longrightarrow> \<exists>bs. encoder_loop (LeakyReLU a) sz c acc = Some (acc @ bs, c * 4 ^ j)
           \<and> (\<forall>t. shape t = [n, c, h, h] \<longrightarrow>
                 (\<exists>t'. forward_layers True bs t = Inr t' \<and> shape t' = [n, c * 4 ^ j, 1, 1]))"
  using n
proof (induction j arbitrary: sz h c acc)
  case 0
  then have "sz \<le> 1" and h: "h = 1" by simp_all
  then have "encoder_loop (LeakyReLU a) sz c acc = Some (acc @ [], c * 4 ^ 0)"
    by (subst encoder_loop.simps) simp
  then show ?case using h by (intro exI [of _ "[]"]) simp
next
  case (Suc j)
  let ?B = "Sequential [Conv2d c (c * 4) 5 4 2, BatchNorm2d (c * 4), LeakyReLU a]"
  let ?h = "(h - 1) div 4 + 1"
  from Suc.prems(3) have n2: "2 \<le> n" by simp
  from Suc.prems(2) have lo: "2 * 4 ^ j \<le> sz" and hi: "sz \<le> 4 * 4 ^ j"
    and h1: "1 \<le> h" and h2: "h \<le> 4 * 4 ^ j" by simp_all
  have p1: "(1::int) \<le> 4 ^ j" by simp
  have big: "1 < sz" using lo p1 by linarith
  have c4: "1 \<le> c * 4" using Suc.prems(1) by simp
  have n': "2 \<le> n \<or> (1 \<le> n \<and> j = 0)" using n2 by simp
  obtain bs where
    loop: "encoder_loop (LeakyReLU a) (sz div 4) (c * 4) (acc @ [?B])
             = Some ((acc @ [?B]) @ bs, c * 4 * 4 ^ j)"
    and sh: "\<And>t. shape t = [n, c * 4, ?h, ?h] \<Longrightarrow>
               \<exists>t'. forward_layers True bs t = Inr t' \<and> shape t' = [n, c * 4 * 4 ^ j, 1, 1]"
    using Suc.IH [OF c4 next_range [OF lo hi h1 h2] n', of "acc @ [?B]"] by blast
  have "encoder_loop (LeakyReLU a) sz c acc = Some (acc @ (?B # bs), c * 4 ^ Suc j)"
    using big loop by (subst encoder_loop.simps) (simp add: mult.assoc)
  moreover have "\<exists>t'. forward_layers True (?B # bs) t = Inr t' \<and> shape t' = [n, c * 4 ^ Suc j, 1, 1]"
    if "shape t = [n, c, h, h]" for t
  proof -
    from encoder_block_any [OF n2 Suc.prems(1) h1 that]
    obtain t1 where t1: "forward_layer True ?B t = Inr t1" "shape t1 = [n, c * 4, ?h, ?h]"
      by blast
    from sh [OF t1(2)] obtain t' where
      "forward_layers True bs t1 = Inr t'" "shape t' = [n, c * 4 * 4 ^ j, 1, 1]" by blast
    with t1(1) show ?thesis by (simp add: mult.assoc)
  qed
  ultimately show ?case by blast
qed

lemma encoder_loop_single:
  "1 \<le> c \<Longrightarrow> 2 * 4 ^ j \<le> sz \<Longrightarrow> sz \<le> 4 * 4 ^ j \<Longrightarrow> 1 \<le> h \<Longrightarrow> h \<le> 4 * 4 ^ j
    \<Longrightarrow> \<exists>bs. encoder_loop (LeakyReLU a) sz c acc = Some (acc @ bs, c * 4 ^ Suc j)
           \<and> (\<forall>t. shape t = [1, c, h, h] \<longrightarrow> forward_layers True bs t = Inl ValueError)"
proof (induction j arbitrary: sz h c acc)
  case 0
  let ?B = "Sequential [Conv2d c (c * 4) 5 4 2, BatchNorm2d (c * 4), LeakyReLU a]"
  from 0 have big: "1 < sz" and small: "sz div 4 \<le> 1" and h': "(h - 1) div 4 + 1 = 1"
    by simp_all
  have "encoder_loop (LeakyReLU a) (sz div 4) (c * 4) (acc @ [?B]) = Some (acc @ [?B], c * 4)"
    using small by (subst encoder_loop.simps) simp
  then have "encoder_loop (LeakyReLU a) sz c acc = Some (acc @ [?B], c * 4 ^ Suc 0)"
    using big by (subst encoder_loop.simps) simp
  moreover have "forward_layers True [?B] t = Inl ValueError" if "shape t = [1, c, h, h]" for t
    using encoder_block_single [OF "0.prems"(1,4) that, of a] h' by auto
  ultimately show ?case by blast
next
  case (Suc j)
  let ?B = "Sequential [Conv2d c (c * 4) 5 4 2, BatchNorm2d (c * 4), LeakyReLU a]"
  let ?h = "(h - 1) div 4 + 1"
  have p1: "(1::int) \<le> 4 ^ j" by simp
  from Suc.prems have lo: "2 * 4 ^ j \<le> sz div 4" and hi: "sz div 4 \<le> 4 * 4 ^ j"
    and h1: "1 \<le> ?h" and h2: "?h \<le> 4 * 4 ^ j" by simp_all
  from Suc.prems(2) have "8 * 4 ^ j \<le> sz" by simp
  with p1 have big: "1 < sz" by linarith
  have c4: "1 \<le> c * 4" using Suc.prems(1) by simp
  obtain bs where
    loop: "encoder_loop (LeakyReLU a) (sz div 4) (c * 4) (acc @ [?B])
             = Some ((acc @ [?B]) @ bs, c * 4 * 4 ^ Suc j)"
    and sh: "\<And>t. shape t = [1, c * 4, ?h, ?h] \<Longrightarrow> forward_layers True bs t = Inl ValueError"
    using Suc.IH [OF c4 lo hi h1 h2, of "acc @ [?B]"] by blast
  have "encoder_loop (LeakyReLU a) sz c acc = Some (acc @ (?B # bs), c * 4 ^ Suc (Suc j))"
    using big loop by (subst encoder_loop.simps) (simp add: mult.assoc)
  moreover have "forward_layers True (?B # bs) t = Inl ValueError"
    if "shape t = [1, c, h, h]" for t
    using encoder_block_single [OF Suc.prems(1,4) that, of a] sh by auto
  ultimately show ?case by blast
qed

subsection \<open>The decoder loop\<close>

text \<open>
  A block of the decoder multiplies the side by 4, so its batch normalisation sees more
  than one value per channel for every batch that is not empty.
\<close>

lemma decoder_loop_any:
  assumes n: "1 \<le> n"
  shows "1 \<le> sz \<Longrightarrow> 1 \<le> c \<Longrightarrow>
     \<exists>bs c'. decoder_loop (LeakyReLU a) isz sz c acc = Some (acc @ bs, c') \<and> 1 \<le> c'
           \<and> (\<forall>t h. 1 \<le> h \<and> shape t = [n, c, h, h] \<longrightarrow>
                 (\<exists>t' h'. forward_layers True bs t = Inr t' \<and> 1 \<le> h'
                       \<and> shape t' = [n, c', h', h']))"
proof (induction "nat (isz div 2 - sz)" arbitrary: sz c acc rule: less_induct)
  case less
  show ?case
  proof (cases "sz < isz div 2")
    case False
    then have "decoder_loop (LeakyReLU a) isz sz c acc = Some (acc @ [], c)"
      by (subst decoder_loop.simps) simp
    then show ?thesis using less.prems(2) by (intro exI [of _ "[]"] exI [of _ c]) auto
  next
    case True
    let ?B = "Sequential [ConvTranspose2d c (c * 4) 5 4 2 3, BatchNorm2d (c * 4), LeakyReLU a]"
    from True less.prems(1) have m: "nat (isz div 2 - sz * 4) < nat (isz div 2 - sz)"
      by simp
    have p: "1 \<le> sz * 4" using less.prems(1) by simp
    have c4: "1 \<le> c * 4" using less.prems(2) by simp
    obtain bs c' where
      loop: "decoder_loop (LeakyReLU a) isz (sz * 4) (c * 4) (acc @ [?B])
               = Some ((acc @ [?B]) @ bs, c')"
      and c': "1 \<le> c'"
      and sh: "\<And>t h. 1 \<le> h \<Longrightarrow> shape t = [n, c * 4, h, h] \<Longrightarrow>
                 \<exists>t' h'. forward_layers True bs t = Inr t' \<and> 1 \<le> h'
                       \<and> shape t' = [n, c', h', h']"
      using less.hyps [OF m p c4, of "acc @ [?B]"] by blast
    have "decoder_loop (LeakyReLU a) isz sz c acc = Some (acc @ (?B # bs), c')"
      using True loop by (subst decoder_loop.simps) simp
    moreover have "\<exists>t' h'. forward_layers True (?B # bs) t = Inr t' \<and> 1 \<le> h'
                       \<and> shape t' = [n, c', h', h']"
      if "1 \<le> h" and "shape t = [n, c, h, h]" for t h
    proof -
      from decoder_block_shape [OF n less.prems(2) that]
      obtain t1 where t1: "forward_layer True ?B t = Inr t1"
          "shape t1 = [n, c * 4, 4 * h, 4 * h]"
        by blast
      have "1 \<le> 4 * h" using that(1) by simp
      from sh [OF this t1(2)] obtain t' h' where
        "forward_layers True bs t1 = Inr t'" "1 \<le> h'" "shape t' = [n, c', h', h']" by blast
      with t1(1) show ?thesis by auto
    qed
    ultimately show ?thesis using c' by blast
  qed
qed

text \<open>
  When half the input side is a power of four, the decoder loop reaches exactly that
  side.
\<close>

lemma decoder_loop_pow4:
  assumes "1 \<le> n" and "isz div 2 = 4 ^ (i + m)"
  shows "1 \<le> c \<Longrightarrow>
         \<exists>bs. decoder_loop (LeakyReLU a) isz (4 ^ i) c acc = Some (acc @ bs, c * 4 ^ m)
           \<and> (\<forall>t. shape t = [n, c, 4 ^ i, 4 ^ i] \<longrightarrow>
                 (\<exists>t'. forward_layers True bs t = Inr t'
                       \<and> shape t' = [n, c * 4 ^ m, 4 ^ (i + m), 4 ^ (i + m)]))"
  using assms(2)
proof (induction m arbitrary: i c acc)
  case 0
  then have "decoder_loop (LeakyReLU a) isz (4 ^ i) c acc = Some (acc @ [], c * 4 ^ 0)"
    by (subst decoder_loop.simps) simp
  then show ?case by (intro exI [of _ "[]"]) simp
next
  case (Suc m)
  let ?B = "Sequential [ConvTranspose2d c (c * 4) 5 4 2 3, BatchNorm2d (c * 4), LeakyReLU a]"
  from Suc.prems(2) have half: "isz div 2 = 4 ^ (Suc i + m)" by simp
  have c4: "1 \<le> c * 4" using Suc.prems(1) by simp
  obtain bs where
    loop: "decoder_loop (LeakyReLU a) isz (4 ^ Suc i) (c * 4) (acc @ [?B])
             = Some ((acc @ [?B]) @ bs, c * 4 * 4 ^ m)"
    and sh: "\<And>t. shape t = [n, c * 4, 4 ^ Suc i, 4 ^ Suc i] \<Longrightarrow>
               \<exists>t'. forward_layers True bs t = Inr t'
                   \<and> shape t' = [n, c * 4 * 4 ^ m, 4 ^ (Suc i + m), 4 ^ (Suc i + m)]"
    using Suc.IH [OF c4 half, of "acc @ [?B]"] by blast
  have "(4::int) ^ i \<le> 4 ^ (i + m)"
    by (rule power_increasing) simp_all
  then have "(4::int) ^ i < 4 * 4 ^ (i + m)"
    using four_power_ge_1 [of "i + m"] by linarith
  then have less: "(4::int) ^ i < isz div 2"
    using Suc.prems(2) by simp
  have "decoder_loop (LeakyReLU a) isz (4 ^ i) c acc = Some (acc @ (?B # bs), c * 4 ^ Suc m)"
    using less loop by (subst decoder_loop.simps) (simp add: mult.assoc mult.commute)
  moreover have "\<exists>t'. forward_layers True (?B # bs) t = Inr t'
                   \<and> shape t' = [n, c * 4 ^ Suc m, 4 ^ (i + Suc m), 4 ^ (i + Suc m)]"
    if "shape t = [n, c, 4 ^ i, 4 ^ i]" for t
  proof -
    from decoder_block_shape [OF assms(1) Suc.prems(1) four_power_ge_1 that]
    obtain t1 where t1: "forward_layer True ?B t = Inr t1"
        "shape t1 = [n, c * 4, 4 * 4 ^ i, 4 * 4 ^ i]"
      by blast
    from t1(2) have "shape t1 = [n, c * 4, 4 ^ Suc i, 4 ^ Suc i]" by simp
    from sh [OF this] obtain t' where
      "forward_layers True bs t1 = Inr t'"
      "shape t' = [n, c * 4 * 4 ^ m, 4 ^ (Suc i + m), 4 ^ (Suc i + m)]" by blast
    with t1(1) show ?thesis by (simp add: mult.assoc)
  qed
  ultimately show ?case by blast
qed

subsection \<open>The constructed generator\<close>

lemma input_range:
  fixes input_size :: int
  assumes lo: "4 ^ j \<le> input_size" and hi: "input_size \<le> 2 * 4 ^ j"
  shows "(j = 0 \<and> input_size div 2 \<le> 1 \<and> (input_size - 1) div 2 + 1 = 1)
      \<or> (0 < j \<and> 2 * 4 ^ (j - 1) \<le> input_size div 2 \<and> input_size div 2 \<le> 4 ^ j
            \<and> 1 \<le> (input_size - 1) div 2 + 1 \<and> (input_size - 1) div 2 + 1 \<le> 4 ^ j)"
proof (cases j)
  case 0
  with lo hi show ?thesis by simp
next
  case (Suc j')
  have p1: "(1::int) \<le> 4 ^ j" by simp
  have "2 * 4 ^ j' \<le> input_size div 2" using lo Suc by simp
  moreover have "input_size div 2 \<le> 4 ^ j" using hi by simp
  moreover have "1 \<le> input_size" using lo p1 by linarith
  then have "1 \<le> (input_size - 1) div 2 + 1" by simp
  moreover have "(input_size - 1) div 2 + 1 \<le> 4 ^ j" using hi by simp
  ultimately show ?thesis using Suc by simp
qed

text \<open>
  The module the constructor returns for a configuration with positive sizes, and what
  its encoder and decoder do to a batch.
\<close>

lemma generator_built:
  assumes cfg: "1 \<le> edims" "1 \<le> ic" "1 \<le> sc"
    and lo: "4 ^ j \<le> isz" and hi: "isz \<le> 2 * 4 ^ j"
  shows "\<exists>bs ds c'.
      AdversarialAutoencoderGenerator edims isz ic sc (LeakyReLU a)
        = Some (Inr \<lparr>encoding_dims = edims,
                     encoder = Sequential (Sequential [Conv2d ic sc 5 2 2, LeakyReLU a] # bs),
                     encoder_fc = Linear (sc * 4 ^ j) edims,
                     decoder_fc = Linear edims sc,
                     decoder = Sequential (ds @ [ConvTranspose2d c' ic 5 2 2 1]),
                     training = True\<rparr>)
    \<and> 1 \<le> c'
    \<and> (\<forall>n t. (2 \<le> n \<or> (n = 1 \<and> j = 0))
             \<and> shape t = [n, sc, (isz - 1) div 2 + 1, (isz - 1) div 2 + 1] \<longrightarrow>
           (\<exists>t'. forward_layers True bs t = Inr t' \<and> shape t' = [n, sc * 4 ^ j, 1, 1]))
    \<and> (\<forall>t. 0 < j \<and> shape t = [1, sc, (isz - 1) div 2 + 1, (isz - 1) div 2 + 1] \<longrightarrow>
           forward_layers True bs t = Inl ValueError)
    \<and> (\<forall>n t. 1 \<le> n \<and> shape t = [n, sc, 1, 1] \<longrightarrow>
           (\<exists>t' h'. forward_layers True ds t = Inr t' \<and> 1 \<le> h' \<and> shape t' = [n, c', h', h']))
    \<and> (isz = 2 * 4 ^ j \<longrightarrow> c' = sc * 4 ^ j
          \<and> (\<forall>n t. 1 \<le> n \<and> shape t = [n, sc, 1, 1] \<longrightarrow>
                (\<exists>t'. forward_layers True ds t = Inr t' \<and> shape t' = [n, c', 4 ^ j, 4 ^ j])))"
proof -
  let ?F = "Sequential [Conv2d ic sc 5 2 2, LeakyReLU a]"
  let ?ch = "sc * 4 ^ j"
  let ?h = "(isz - 1) div 2 + 1"
  note range = input_range [OF lo hi]
  have "0 \<le> ?ch" using cfg(3) by (intro mult_nonneg_nonneg) simp_all
  then have chpos: "\<not> ?ch < 0" by simp
  have two: "(2::int) \<le> 2 \<or> ((1::int) \<le> 2 \<and> j = 0)" by simp
  obtain bs where
    eloop: "encoder_loop (LeakyReLU a) (isz div 2) sc [?F] = Some ([?F] @ bs, ?ch)"
    using encoder_loop_range [OF two cfg(3) range, of a "[?F]"] by blast
  have one: "(1::int) \<le> 1" by simp
  obtain ds c' where
    dloop: "decoder_loop (LeakyReLU a) isz 1 sc [] = Some ([] @ ds, c')" and c': "1 \<le> c'"
    using decoder_loop_any [OF one one cfg(3), of a isz "[]"] by blast
  have built: "AdversarialAutoencoderGenerator edims isz ic sc (LeakyReLU a)
        = Some (Inr \<lparr>encoding_dims = edims,
                     encoder = Sequential (?F # bs),
                     encoder_fc = Linear ?ch edims,
                     decoder_fc = Linear edims sc,
                     decoder = Sequential (ds @ [ConvTranspose2d c' ic 5 2 2 1]),
                     training = True\<rparr>)"
    using cfg c' chpos eloop dloop by (simp add: AdversarialAutoencoderGenerator_def)
  have enc: "\<exists>t'. forward_layers True bs t = Inr t' \<and> shape t' = [n, ?ch, 1, 1]"
    if n: "2 \<le> n \<or> (n = 1 \<and> j = 0)" and t: "shape t = [n, sc, ?h, ?h]" for n t
  proof -
    from n have n': "2 \<le> n \<or> (1 \<le> n \<and> j = 0)" by auto
    obtain bs' where
      "encoder_loop (LeakyReLU a) (isz div 2) sc [?F] = Some ([?F] @ bs', ?ch)"
      and sh: "\<And>t. shape t = [n, sc, ?h, ?h] \<Longrightarrow>
                \<exists>t'. forward_layers True bs' t = Inr t' \<and> shape t' = [n, ?ch, 1, 1]"
      using encoder_loop_range [OF n' cfg(3) range, of a "[?F]"] by blast
    with eloop have "bs' = bs" by simp
    with sh [OF t] show ?thesis by simp
  qed
  have single: "forward_layers True bs t = Inl ValueError"
    if j: "0 < j" and t: "shape t = [1, sc, ?h, ?h]" for t
  proof -
    from j obtain j' where j': "j = Suc j'" by (cases j) auto
    from range j' have r: "2 * 4 ^ j' \<le> isz div 2" "isz div 2 \<le> 4 * 4 ^ j'"
      "1 \<le> ?h" "?h \<le> 4 * 4 ^ j'" by simp_all
    obtain bs' where
      "encoder_loop (LeakyReLU a) (isz div 2) sc [?F] = Some ([?F] @ bs', sc * 4 ^ Suc j')"
      and sh: "\<And>t. shape t = [1, sc, ?h, ?h] \<Longrightarrow> forward_layers True bs' t = Inl ValueError"
      using encoder_loop_single [OF cfg(3) r, of a "[?F]"] by blast
    with eloop have "bs' = bs" by simp
    with sh [OF t] show ?thesis by simp
  qed
  have dec: "\<exists>t' h'. forward_layers True ds t = Inr t' \<and> 1 \<le> h' \<and> shape t' = [n, c', h', h']"
    if n: "1 \<le> n" and t: "shape t = [n, sc, 1, 1]" for n t
  proof -
    obtain ds' c'' where
      "decoder_loop (LeakyReLU a) isz 1 sc [] = Some ([] @ ds', c'')"
      and sh: "\<And>t h. 1 \<le> h \<Longrightarrow> shape t = [n, sc, h, h] \<Longrightarrow>
                 \<exists>t' h'. forward_layers True ds' t = Inr t' \<and> 1 \<le> h'
                       \<and> shape t' = [n, c'', h', h']"
      using decoder_loop_any [OF n one cfg(3), of a isz "[]"] by blast
    with dloop have "ds' = ds" "c'' = c'" by simp_all
    with sh [OF one t] show ?thesis by simp
  qed
  have pow: "c' = ?ch
          \<and> (\<forall>n t. 1 \<le> n \<and> shape t = [n, sc, 1, 1] \<longrightarrow>
                (\<exists>t'. forward_layers True ds t = Inr t' \<and> shape t' = [n, c', 4 ^ j, 4 ^ j]))"
    if isz: "isz = 2 * 4 ^ j"
  proof -
    from isz have half: "isz div 2 = 4 ^ (0 + j)" by simp
    obtain ds0 where "decoder_loop (LeakyReLU a) isz (4 ^ 0) sc [] = Some ([] @ ds0, ?ch)"
      using decoder_loop_pow4 [OF one half cfg(3), of a "[]"] by blast
    with dloop have same: "c' = ?ch" by simp
    have "\<exists>t'. forward_layers True ds t = Inr t' \<and> shape t' = [n, c', 4 ^ j, 4 ^ j]"
      if n: "1 \<le> n" and t: "shape t = [n, sc, 1, 1]" for n t
    proof -
      obtain ds' where
        "decoder_loop (LeakyReLU a) isz (4 ^ 0) sc [] = Some ([] @ ds', ?ch)"
        and sh: "\<And>t. shape t = [n, sc, 4 ^ 0, 4 ^ 0] \<Longrightarrow>
                  \<exists>t'. forward_layers True ds' t = Inr t'
                      \<and> shape t' = [n, ?ch, 4 ^ (0 + j), 4 ^ (0 + j)]"
        using decoder_loop_pow4 [OF n half cfg(3), of a "[]"] by blast
      with dloop have "ds' = ds" by simp
      moreover have "shape t = [n, sc, 4 ^ 0, 4 ^ 0]" using t by simp
      ultimately show ?thesis using sh same by auto
    qed
    with same show ?thesis by blast
  qed
  have A: "\<forall>n t. (2 \<le> n \<or> (n = 1 \<and> j = 0)) \<and> shape t = [n, sc, ?h, ?h] \<longrightarrow>
           (\<exists>t'. forward_layers True bs t = Inr t' \<and> shape t' = [n, ?ch, 1, 1])"
    using enc by blast
  have B: "\<forall>t. 0 < j \<and> shape t = [1, sc, ?h, ?h] \<longrightarrow>
           forward_layers True bs t = Inl ValueError"
    using single by blast
  have C: "\<forall>n t. 1 \<le> n \<and> shape t = [n, sc, 1, 1] \<longrightarrow>
           (\<exists>t' h'. forward_layers True ds t = Inr t' \<and> 1 \<le> h' \<and> shape t' = [n, c', h', h'])"
    using dec by blast
  have D: "isz = 2 * 4 ^ j \<longrightarrow> c' = ?ch
          \<and> (\<forall>n t. 1 \<le> n \<and> shape t = [n, sc, 1, 1] \<longrightarrow>
                (\<exists>t'. forward_layers True ds t = Inr t' \<and> shape t' = [n, c', 4 ^ j, 4 ^ j]))"
    using pow by blast
  from built c' A B C D show ?thesis
    by (intro exI [of _ bs] exI [of _ ds] exI [of _ c'] conjI) assumption+
qed

text \<open>
  The forward pass of the constructed module in training mode: a pair for every batch of
  two or more, and for a batch of one when the encoder has no block; \<^verbatim>\<open>ValueError\<close> for
  a batch of one when it has.
\<close>

lemma generator_runs:
  assumes cfg: "1 \<le> edims" "1 \<le> ic" "1 \<le> sc"
    and lo: "4 ^ j \<le> isz" and hi: "isz \<le> 2 * 4 ^ j"
  shows "\<exists>g. AdversarialAutoencoderGenerator edims isz ic sc (LeakyReLU a) = Some (Inr g)
           \<and> training g
           \<and> (\<forall>n x. (2 \<le> n \<or> (n = 1 \<and> j = 0)) \<and> shape x = [n, ic, isz, isz] \<longrightarrow>
                (\<exists>enc0 flat encoding recon w.
                    forward_layer True (encoder g) x = Inr enc0
                  \<and> view_encoding enc0 = Inr flat
                  \<and> forward_layer True (encoder_fc g) flat = Inr encoding
                  \<and> Generator_sample g encoding = Inr recon
                  \<and> Generator_forward g x = Inr (Tuple2 recon encoding)
                  \<and> shape encoding = [n, edims]
                  \<and> shape recon = [n, ic, w, w]
                  \<and> (isz = 2 * 4 ^ j \<longrightarrow> w = isz)))
           \<and> (\<forall>x. 0 < j \<and> shape x = [1, ic, isz, isz] \<longrightarrow>
                Generator_forward g x = Inl ValueError)"
proof -
  let ?F = "Sequential [Conv2d ic sc 5 2 2, LeakyReLU a]"
  let ?ch = "sc * 4 ^ j"
  let ?h = "(isz - 1) div 2 + 1"
  have p1: "(1::int) \<le> 4 ^ j" by simp
  have isz: "1 \<le> isz" using lo p1 by linarith
  have chpos: "?ch \<noteq> 0" using cfg(3) by simp
  obtain bs ds c' where
    built: "AdversarialAutoencoderGenerator edims isz ic sc (LeakyReLU a)
        = Some (Inr \<lparr>encoding_dims = edims,
                     encoder = Sequential (?F # bs),
                     encoder_fc = Linear ?ch edims,
                     decoder_fc = Linear edims sc,
                     decoder = Sequential (ds @ [ConvTranspose2d c' ic 5 2 2 1]),
                     training = True\<rparr>)"
    and c': "1 \<le> c'"
    and A: "\<forall>n t. (2 \<le> n \<or> (n = 1 \<and> j = 0)) \<and> shape t = [n, sc, ?h, ?h] \<longrightarrow>
           (\<exists>t'. forward_layers True bs t = Inr t' \<and> shape t' = [n, ?ch, 1, 1])"
    and B: "\<forall>t. 0 < j \<and> shape t = [1, sc, ?h, ?h] \<longrightarrow>
           forward_layers True bs t = Inl ValueError"
    and C: "\<forall>n t. 1 \<le> n \<and> shape t = [n, sc, 1, 1] \<longrightarrow>
           (\<exists>t' h'. forward_layers True ds t = Inr t' \<and> 1 \<le> h' \<and> shape t' = [n, c', h', h'])"
    and D: "isz = 2 * 4 ^ j \<longrightarrow> c' = ?ch
          \<and> (\<forall>n t. 1 \<le> n \<and> shape t = [n, sc, 1, 1] \<longrightarrow>
                (\<exists>t'. forward_layers True ds t = Inr t' \<and> shape t' = [n, c', 4 ^ j, 4 ^ j]))"
    using generator_built [OF cfg lo hi, of a] by (elim exE conjE) (rule that; assumption)
  have esh: "\<exists>t'. forward_layers True bs t = Inr t' \<and> shape t' = [n, ?ch, 1, 1]"
    if "2 \<le> n \<or> (n = 1 \<and> j = 0)" and "shape t = [n, sc, ?h, ?h]" for n t
    using A that by blast
  have single: "forward_layers True bs t = Inl ValueError"
    if "0 < j" and "shape t = [1, sc, ?h, ?h]" for t
    using B that by blast
  have dsh: "\<exists>t' h'. forward_layers True ds t = Inr t' \<and> 1 \<le> h' \<and> shape t' = [n, c', h', h']"
    if "1 \<le> n" and "shape t = [n, sc, 1, 1]" for n t
    using C that by blast
  have psh: "\<exists>t'. forward_layers True ds t = Inr t' \<and> shape t' = [n, c', 4 ^ j, 4 ^ j]"
    if "isz = 2 * 4 ^ j" and "1 \<le> n" and "shape t = [n, sc, 1, 1]" for n t
    using D that by blast
  let ?L = "ConvTranspose2d c' ic 5 2 2 1"
  let ?g = "\<lparr>encoding_dims = edims, encoder = Sequential (?F # bs),
             encoder_fc = Linear ?ch edims, decoder_fc = Linear edims sc,
             decoder = Sequential (ds @ [?L]), training = True\<rparr>"
  have run: "\<exists>enc0 flat encoding recon w.
                    forward_layer True (encoder ?g) x = Inr enc0
                  \<and> view_encoding enc0 = Inr flat
                  \<and> forward_layer True (encoder_fc ?g) flat = Inr encoding
                  \<and> Generator_sample ?g encoding = Inr recon
                  \<and> Generator_forward ?g x = Inr (Tuple2 recon encoding)
                  \<and> shape encoding = [n, edims]
                  \<and> shape recon = [n, ic, w, w]
                  \<and> (isz = 2 * 4 ^ j \<longrightarrow> w = isz)"
    if n: "2 \<le> n \<or> (n = 1 \<and> j = 0)" and x: "shape x = [n, ic, isz, isz]" for n x
  proof -
    from n have n1: "1 \<le> n" by auto
    from first_block_any [OF cfg(2,3) isz x] obtain t1 where
      t1: "forward_layer True ?F x = Inr t1" "shape t1 = [n, sc, ?h, ?h]" by blast
    from esh [OF n t1(2)] obtain enc0 where
      e0: "forward_layers True bs t1 = Inr enc0" "shape enc0 = [n, ?ch, 1, 1]" by blast
    have enc: "forward_layer True (encoder ?g) x = Inr enc0"
      using t1(1) e0(1) by simp
    let ?flat = "\<lparr>shape = [n, ?ch], grad_fn = View [-1, ?ch] (grad_fn enc0)\<rparr>"
    have flat: "view_encoding enc0 = Inr ?flat"
      using e0(2) chpos by (simp add: view_encoding_def)
    have "shape ?flat = [n, ?ch]" by simp
    from linear_batch_shape [OF this, of True edims] obtain encoding where
      fc: "forward_layer True (Linear ?ch edims) ?flat = Inr encoding"
      "shape encoding = [n, edims]" by blast
    from linear_batch_shape [OF fc(2), of True sc] obtain z1 where
      z1: "forward_layer True (Linear edims sc) encoding = Inr z1"
      "shape z1 = [n, sc]" by blast
    let ?z2 = "\<lparr>shape = [n, sc, 1, 1], grad_fn = View [-1, sc, 1, 1] (grad_fn z1)\<rparr>"
    have z2: "view_noise z1 = Inr ?z2"
      using z1(2) cfg(3) by (simp add: view_noise_def)
    have sz2: "shape ?z2 = [n, sc, 1, 1]" by simp
    have "\<exists>d1 h'. forward_layers True ds ?z2 = Inr d1 \<and> 1 \<le> h' \<and> shape d1 = [n, c', h', h']
            \<and> (isz = 2 * 4 ^ j \<longrightarrow> 2 * h' = isz)"
    proof (cases "isz = 2 * 4 ^ j")
      case True
      from psh [OF True n1 sz2] obtain d1 where
        "forward_layers True ds ?z2 = Inr d1" "shape d1 = [n, c', 4 ^ j, 4 ^ j]" by blast
      with True p1 show ?thesis by auto
    next
      case False
      with dsh [OF n1 sz2] show ?thesis by auto
    qed
    then obtain d1 h' where
      d1: "forward_layers True ds ?z2 = Inr d1" "1 \<le> h'" "shape d1 = [n, c', h', h']"
      and w: "isz = 2 * 4 ^ j \<longrightarrow> 2 * h' = isz" by blast
    from last_layer_shape [OF c' cfg(2) d1(2,3)] obtain recon where
      rc: "forward_layer True ?L d1 = Inr recon" "shape recon = [n, ic, 2 * h', 2 * h']"
      by blast
    have dec: "forward_layer True (decoder ?g) ?z2 = Inr recon"
      using d1(1) rc(1) by (simp add: forward_layers_append)
    have smp: "Generator_sample ?g encoding = Inr recon"
      using z1(1) z2 dec by (simp add: Generator_sample_def)
    have fwd: "Generator_forward ?g x = Inr (Tuple2 recon encoding)"
      using enc flat fc(1) smp by (simp add: Generator_forward_def)
    from enc flat fc smp fwd rc(2) w show ?thesis
      by (intro exI [of _ enc0] exI [of _ ?flat] exI [of _ encoding] exI [of _ recon]
          exI [of _ "2 * h'"]) simp
  qed
  have raises: "Generator_forward ?g x = Inl ValueError"
    if j: "0 < j" and x: "shape x = [1, ic, isz, isz]" for x
  proof -
    from first_block_any [OF cfg(2,3) isz x] obtain t1 where
      t1: "forward_layer True ?F x = Inr t1" "shape t1 = [1, sc, ?h, ?h]" by blast
    from single [OF j t1(2)] t1(1) have "forward_layer True (encoder ?g) x = Inl ValueError"
      by simp
    then show ?thesis by (simp add: Generator_forward_def)
  qed
  have R: "\<forall>n x. (2 \<le> n \<or> (n = 1 \<and> j = 0)) \<and> shape x = [n, ic, isz, isz] \<longrightarrow>
                (\<exists>enc0 flat encoding recon w.
                    forward_layer True (encoder ?g) x = Inr enc0
                  \<and> view_encoding enc0 = Inr flat
                  \<and> forward_layer True (encoder_fc ?g) flat = Inr encoding
                  \<and> Generator_sample ?g encoding = Inr recon
                  \<and> Generator_forward ?g x = Inr (Tuple2 recon encoding)
                  \<and> shape encoding = [n, edims]
                  \<and> shape recon = [n, ic, w, w]
                  \<and> (isz = 2 * 4 ^ j \<longrightarrow> w = isz))"
    by (intro allI impI, elim conjE) (rule run)
  have S: "\<forall>x. 0 < j \<and> shape x = [1, ic, isz, isz] \<longrightarrow> Generator_forward ?g x = Inl ValueError"
    by (intro allI impI, elim conjE) (rule raises)
  have T: "training ?g" by simp
  from built T R S show ?thesis
    by (intro exI [of _ ?g] conjI) assumption+
qed

section \<open>The generator's forward pass\<close>

text \<open>
  Claim C3, amended. The generator both encodes and decodes. Take a configuration with
  \<open>encoding_dims\<close>, \<open>input_channels\<close> and \<open>step_channels\<close> at least 1 and
  \<open>4 ^ j \<le> input_size \<le> 2 * 4 ^ j\<close> for some \<open>j\<close> (every power of two is such a size). The
  constructor returns a module in training mode. For every batch of shape
  \<open>(n, input_channels, input_size, input_size)\<close> with \<open>n \<ge> 2\<close>, and with \<open>n = 1\<close> when
  \<open>j = 0\<close> (an input side of 1 or 2, where the encoder has no batch normalisation),
  \<^verbatim>\<open>forward(x)\<close> returns the pair \<open>(reconstruction, encoding)\<close>: the encoding is the
  encoder's output, flattened and passed through \<^verbatim>\<open>encoder_fc\<close>, of shape
  \<open>(n, encoding_dims)\<close>, and the reconstruction is \<^verbatim>\<open>sample(encoding)\<close>, a batch of \<open>n\<close>
  square images with \<open>input_channels\<close> channels, of the input's side when
  \<open>input_size = 2 * 4 ^ j\<close>. For a batch of one and \<open>j \<ge> 1\<close>, \<^verbatim>\<open>forward(x)\<close> raises
  \<^verbatim>\<open>ValueError\<close>.
\<close>

theorem generator_forward_training:
  assumes "1 \<le> edims" and "1 \<le> input_channels" and "1 \<le> step_channels"
    and "4 ^ j \<le> input_size" and "input_size \<le> 2 * 4 ^ j"
  shows "\<exists>g. AdversarialAutoencoderGenerator edims input_size input_channels step_channels
                (LeakyReLU a) = Some (Inr g)
           \<and> training g
           \<and> (\<forall>n x. (2 \<le> n \<or> (n = 1 \<and> j = 0))
                   \<and> shape x = [n, input_channels, input_size, input_size] \<longrightarrow>
                (\<exists>enc0 flat encoding recon w.
                    forward_layer True (encoder g) x = Inr enc0
                  \<and> view_encoding enc0 = Inr flat
                  \<and> forward_layer True (encoder_fc g) flat = Inr encoding
                  \<and> Generator_sample g encoding = Inr recon
                  \<and> Generator_forward g x = Inr (Tuple2 recon encoding)
                  \<and> shape encoding = [n, edims]
                  \<and> shape recon = [n, input_channels, w, w]
                  \<and> (input_size = 2 * 4 ^ j \<longrightarrow> w = input_size)))
           \<and> (\<forall>x. 0 < j \<and> shape x = [1, input_channels, input_size, input_size] \<longrightarrow>
                Generator_forward g x = Inl ValueError)"
  using assms by (rule generator_runs)

text \<open>The definitions a forward pass on a concrete tensor unfolds.\<close>

lemmas layer_eval =
  Generator_forward_def Generator_sample_def view_encoding_def view_noise_def
  primitive_def linear_shape_def conv_out_def conv_transpose_out_def

theorem generator_forward_training_witness:
  "(1::int) \<le> 128 \<and> (1::int) \<le> 1 \<and> (1::int) \<le> 16
   \<and> (4::int) ^ 2 \<le> 32 \<and> (32::int) \<le> 2 * 4 ^ 2
   \<and> (\<exists>g recon encoding.
         AdversarialAutoencoderGenerator 128 32 1 16 (LeakyReLU 0.2) = Some (Inr g)
       \<and> Generator_forward g \<lparr>shape = [64, 1, 32, 32], grad_fn = Leaf ''real_inputs''\<rparr>
           = Inr (Tuple2 recon encoding)
       \<and> Generator_sample g encoding = Inr recon
       \<and> shape encoding = [64, 128]
       \<and> shape recon = [64, 1, 32, 32]
       \<and> Generator_forward g \<lparr>shape = [1, 1, 32, 32], grad_fn = Leaf ''real_inputs''\<rparr>
           = Inl ValueError)"
proof -
  have h: "(1::int) \<le> 128" "(1::int) \<le> 1" "(1::int) \<le> 16"
    "(4::int) ^ 2 \<le> 32" "(32::int) \<le> 2 * 4 ^ 2"
    by simp_all
  from generator_forward_training [OF h, of "0.2"]
  obtain g where g: "AdversarialAutoencoderGenerator 128 32 1 16 (LeakyReLU 0.2) = Some (Inr g)"
    and run: "\<forall>n x. (2 \<le> n \<or> (n = 1 \<and> (2::nat) = 0)) \<and> shape x = [n, 1, 32, 32] \<longrightarrow>
        (\<exists>enc0 flat encoding recon w.
            forward_layer True (encoder g) x = Inr enc0
          \<and> view_encoding enc0 = Inr flat
          \<and> forward_layer True (encoder_fc g) flat = Inr encoding
          \<and> Generator_sample g encoding = Inr recon
          \<and> Generator_forward g x = Inr (Tuple2 recon encoding)
          \<and> shape encoding = [n, 128]
          \<and> shape recon = [n, 1, w, w]
          \<and> ((32::int) = 2 * 4 ^ 2 \<longrightarrow> w = 32))"
    and one: "\<forall>x. (0::nat) < 2 \<and> shape x = [1, 1, 32, 32] \<longrightarrow>
        Generator_forward g x = Inl ValueError"
    by (elim exE conjE) (rule that; assumption)
  let ?x = "\<lparr>shape = [64, 1, 32, 32], grad_fn = Leaf ''real_inputs''\<rparr>"
  let ?y = "\<lparr>shape = [1, 1, 32, 32], grad_fn = Leaf ''real_inputs''\<rparr>"
  have "((2::int) \<le> 64 \<or> ((64::int) = 1 \<and> (2::nat) = 0)) \<and> shape ?x = [64, 1, 32, 32]"
    by simp
  with run obtain encoding recon w where
    r: "Generator_sample g encoding = Inr recon"
      "Generator_forward g ?x = Inr (Tuple2 recon encoding)"
      "shape encoding = [64, 128]" "shape recon = [64, 1, w, w]"
      "(32::int) = 2 * 4 ^ 2 \<longrightarrow> w = 32"
    by blast
  from r(4,5) have rs: "shape recon = [64, 1, 32, 32]" by simp
  have "(0::nat) < 2 \<and> shape ?y = [1, 1, 32, 32]" by simp
  with one have v: "Generator_forward g ?y = Inl ValueError" by blast
  from g r(1,2,3) rs v h show ?thesis by blast
qed

text \<open>
  Claim C3, as stated, at three concrete inputs, all in training mode. The generator
  built for \<open>input_size = 8\<close> raises \<^verbatim>\<open>ValueError\<close> on a batch of one image: the last batch
  normalisation of the encoder sees one value per channel. The generator built for
  \<open>input_size = 10\<close> raises \<^verbatim>\<open>RuntimeError\<close> on a batch of two images: the encoder ends
  with a side of 2, and \<^verbatim>\<open>encoder_fc\<close> expects 64 features where it gets 256. The
  generator built for \<open>input_channels = 0\<close> raises \<^verbatim>\<open>RuntimeError\<close> on a batch of two
  images without channels. In all three cases \<^verbatim>\<open>forward\<close> returns no pair.
\<close>

theorem generator_forward_raises:
  "AdversarialAutoencoderGenerator 128 8 1 16 (LeakyReLU 0.2)
     = Some (Inr \<lparr>encoding_dims = 128,
             encoder = Sequential
               [Sequential [Conv2d 1 16 5 2 2, LeakyReLU 0.2],
                Sequential [Conv2d 16 64 5 4 2, BatchNorm2d 64, LeakyReLU 0.2]],
             encoder_fc = Linear 64 128,
             decoder_fc = Linear 128 16,
             decoder = Sequential
               [Sequential [ConvTranspose2d 16 64 5 4 2 3, BatchNorm2d 64, LeakyReLU 0.2],
                ConvTranspose2d 64 1 5 2 2 1],
             training = True\<rparr>)
   \<and> Generator_forward
        \<lparr>encoding_dims = 128,
             encoder = Sequential
               [Sequential [Conv2d 1 16 5 2 2, LeakyReLU 0.2],
                Sequential [Conv2d 16 64 5 4 2, BatchNorm2d 64, LeakyReLU 0.2]],
             encoder_fc = Linear 64 128,
             decoder_fc = Linear 128 16,
             decoder = Sequential
               [Sequential [ConvTranspose2d 16 64 5 4 2 3, BatchNorm2d 64, LeakyReLU 0.2],
                ConvTranspose2d 64 1 5 2 2 1],
             training = True\<rparr>
        \<lparr>shape = [1, 1, 8, 8], grad_fn = Leaf ''x''\<rparr> = Inl ValueError
   \<and> AdversarialAutoencoderGenerator 128 10 1 16 (LeakyReLU 0.2)
     = Some (Inr \<lparr>encoding_dims = 128,
             encoder = Sequential
               [Sequential [Conv2d 1 16 5 2 2, LeakyReLU 0.2],
                Sequential [Conv2d 16 64 5 4 2, BatchNorm2d 64, LeakyReLU 0.2]],
             encoder_fc = Linear 64 128,
             decoder_fc = Linear 128 16,
             decoder = Sequential
               [Sequential [ConvTranspose2d 16 64 5 4 2 3, BatchNorm2d 64, LeakyReLU 0.2],
                Sequential [ConvTranspose2d 64 256 5 4 2 3, BatchNorm2d 256, LeakyReLU 0.2],
                ConvTranspose2d 256 1 5 2 2 1],
             training = True\<rparr>)
   \<and> Generator_forward
        \<lparr>encoding_dims = 128,
             encoder = Sequential
               [Sequential [Conv2d 1 16 5 2 2, LeakyReLU 0.2],
                Sequential [Conv2d 16 64 5 4 2, BatchNorm2d 64, LeakyReLU 0.2]],
             encoder_fc = Linear 64 128,
             decoder_fc = Linear 128 16,
             decoder = Sequential
               [Sequential [ConvTranspose2d 16 64 5 4 2 3, BatchNorm2d 64, LeakyReLU 0.2],
                Sequential [ConvTranspose2d 64 256 5 4 2 3, BatchNorm2d 256, LeakyReLU 0.2],
                ConvTranspose2d 256 1 5 2 2 1],
             training = True\<rparr>
        \<lparr>shape = [2, 1, 10, 10], grad_fn = Leaf ''x''\<rparr> = Inl RuntimeError
   \<and> AdversarialAutoencoderGenerator 128 32 0 16 (LeakyReLU 0.2)
     = Some (Inr \<lparr>encoding_dims = 128,
             encoder = Sequential
               [Sequential [Conv2d 0 16 5 2 2, LeakyReLU 0.2],
                Sequential [Conv2d 16 64 5 4 2, BatchNorm2d 64, LeakyReLU 0.2],
                Sequential [Conv2d 64 256 5 4 2, BatchNorm2d 256, LeakyReLU 0.2]],
             encoder_fc = Linear 256 128,
             decoder_fc = Linear 128 16,
             decoder = Sequential
               [Sequential [ConvTranspose2d 16 64 5 4 2 3, BatchNorm2d 64, LeakyReLU 0.2],
                Sequential [ConvTranspose2d 64 256 5 4 2 3, BatchNorm2d 256, LeakyReLU 0.2],
                ConvTranspose2d 256 0 5 2 2 1],
             training = True\<rparr>)
   \<and> Generator_forward
        \<lparr>encoding_dims = 128,
             encoder = Sequential
               [Sequential [Conv2d 0 16 5 2 2, LeakyReLU 0.2],
                Sequential [Conv2d 16 64 5 4 2, BatchNorm2d 64, LeakyReLU 0.2],
                Sequential [Conv2d 64 256 5 4 2, BatchNorm2d 256, LeakyReLU 0.2]],
             encoder_fc = Linear 256 128,
             decoder_fc = Linear 128 16,
             decoder = Sequential
               [Sequential [ConvTranspose2d 16 64 5 4 2 3, BatchNorm2d 64, LeakyReLU 0.2],
                Sequential [ConvTranspose2d 64 256 5 4 2 3, BatchNorm2d 256, LeakyReLU 0.2],
                ConvTranspose2d 256 0 5 2 2 1],
             training = True\<rparr>
        \<lparr>shape = [2, 0, 32, 32], grad_fn = Leaf ''x''\<rparr> = Inl RuntimeError"
  by (simp add: AdversarialAutoencoderGenerator_def encoder_loop.simps decoder_loop.simps layer_eval)

text \<open>
  Claim C8, amended. With the configuration of the notebook (\<open>input_size = 32\<close>,
  \<open>input_channels = 1\<close>, \<open>step_channels = 16\<close>, \<open>encoding_dims = 128\<close>) the decoder inverts the
  encoder's change of shape: for every batch \<open>x\<close> of shape \<open>(n, 1, 32, 32)\<close> with \<open>n \<ge> 2\<close>
  and the generator in training mode, \<^verbatim>\<open>forward(x)\<close> returns a reconstruction of exactly
  the shape of \<open>x\<close> and an encoding of shape \<open>(n, 128)\<close>.
\<close>

theorem default_generator_shapes:
  assumes "2 \<le> n" and "shape x = [n, 1, 32, 32]"
  shows "\<exists>g recon encoding.
           network_generator = Some (Inr g) \<and> training g
         \<and> Generator_forward g x = Inr (Tuple2 recon encoding)
         \<and> shape recon = shape x
         \<and> shape encoding = [n, 128]"
proof -
  have h: "(1::int) \<le> 128" "(1::int) \<le> 1" "(1::int) \<le> 16"
    "(4::int) ^ 2 \<le> 32" "(32::int) \<le> 2 * 4 ^ 2"
    by simp_all
  from generator_runs [OF h, of "0.2"]
  obtain g where g: "AdversarialAutoencoderGenerator 128 32 1 16 (LeakyReLU 0.2) = Some (Inr g)"
    and tr: "training g"
    and run: "\<forall>n x. (2 \<le> n \<or> (n = 1 \<and> (2::nat) = 0)) \<and> shape x = [n, 1, 32, 32] \<longrightarrow>
        (\<exists>enc0 flat encoding recon w.
            forward_layer True (encoder g) x = Inr enc0
          \<and> view_encoding enc0 = Inr flat
          \<and> forward_layer True (encoder_fc g) flat = Inr encoding
          \<and> Generator_sample g encoding = Inr recon
          \<and> Generator_forward g x = Inr (Tuple2 recon encoding)
          \<and> shape encoding = [n, 128]
          \<and> shape recon = [n, 1, w, w]
          \<and> ((32::int) = 2 * 4 ^ 2 \<longrightarrow> w = 32))"
    by (elim exE conjE) (rule that; assumption)
  from assms have "(2 \<le> n \<or> (n = 1 \<and> (2::nat) = 0)) \<and> shape x = [n, 1, 32, 32]"
    by simp
  with run obtain encoding recon w where
    r: "Generator_forward g x = Inr (Tuple2 recon encoding)"
      "shape encoding = [n, 128]" "shape recon = [n, 1, w, w]"
      "(32::int) = 2 * 4 ^ 2 \<longrightarrow> w = 32"
    by blast
  from r(3,4) assms(2) have rs: "shape recon = shape x" by simp
  have "network_generator = Some (Inr g)"
    using g by (simp add: network_generator_def default_step_channels_def
        default_nonlinearity_def)
  with tr r(1,2) rs show ?thesis by blast
qed

theorem default_generator_shapes_witness:
  "(2::int) \<le> 64
   \<and> shape \<lparr>shape = [64, 1, 32, 32], grad_fn = Leaf ''real_inputs''\<rparr> = [64, 1, 32, 32]
   \<and> (\<exists>g recon encoding.
          network_generator = Some (Inr g) \<and> training g
        \<and> Generator_forward g \<lparr>shape = [64, 1, 32, 32], grad_fn = Leaf ''real_inputs''\<rparr>
             = Inr (Tuple2 recon encoding)
        \<and> shape recon = [64, 1, 32, 32]
        \<and> shape encoding = [64, 128])"
  using default_generator_shapes
    [of 64 "\<lparr>shape = [64, 1, 32, 32], grad_fn = Leaf ''real_inputs''\<rparr>"]
  by simp

text \<open>
  Claim C8, as stated, at a concrete input: on a batch of shape \<open>(1, 1, 32, 32)\<close> the
  generator of the notebook's configuration, in training mode, raises \<^verbatim>\<open>ValueError\<close> and
  returns neither a reconstruction nor an encoding. The encoder's last batch
  normalisation receives the shape \<open>(1, 256, 1, 1)\<close>.
\<close>

theorem default_generator_single_example:
  "network_generator
     = Some (Inr \<lparr>encoding_dims = 128,
             encoder = Sequential
               [Sequential [Conv2d 1 16 5 2 2, LeakyReLU 0.2],
                Sequential [Conv2d 16 64 5 4 2, BatchNorm2d 64, LeakyReLU 0.2],
                Sequential [Conv2d 64 256 5 4 2, BatchNorm2d 256, LeakyReLU 0.2]],
             encoder_fc = Linear 256 128,
             decoder_fc = Linear 128 16,
             decoder = Sequential
               [Sequential [ConvTranspose2d 16 64 5 4 2 3, BatchNorm2d 64, LeakyReLU 0.2],
                Sequential [ConvTranspose2d 64 256 5 4 2 3, BatchNorm2d 256, LeakyReLU 0.2],
                ConvTranspose2d 256 1 5 2 2 1],
             training = True\<rparr>)
   \<and> Generator_forward
        \<lparr>encoding_dims = 128,
             encoder = Sequential
               [Sequential [Conv2d 1 16 5 2 2, LeakyReLU 0.2],
                Sequential [Conv2d 16 64 5 4 2, BatchNorm2d 64, LeakyReLU 0.2],
                Sequential [Conv2d 64 256 5 4 2, BatchNorm2d 256, LeakyReLU 0.2]],
             encoder_fc = Linear 256 128,
             decoder_fc = Linear 128 16,
             decoder = Sequential
               [Sequential [ConvTranspose2d 16 64 5 4 2 3, BatchNorm2d 64, LeakyReLU 0.2],
                Sequential [ConvTranspose2d 64 256 5 4 2 3, BatchNorm2d 256, LeakyReLU 0.2],
                ConvTranspose2d 256 1 5 2 2 1],
             training = True\<rparr>
        \<lparr>shape = [1, 1, 32, 32], grad_fn = Leaf ''x''\<rparr> = Inl ValueError"
  by (simp add: network_generator_def default_step_channels_def default_nonlinearity_def
      AdversarialAutoencoderGenerator_def encoder_loop.simps decoder_loop.simps layer_eval)

text \<open>
  Claim C4. When the generator is not in training mode, \<^verbatim>\<open>forward(x)\<close> takes its
  argument for a latent vector: it returns \<^verbatim>\<open>sample(x)\<close> alone, a single tensor and never
  a pair, and its value does not depend on the layers \<^verbatim>\<open>encoder\<close> and \<^verbatim>\<open>encoder_fc\<close>,
  which are not applied. In training mode it never returns a single tensor, so the
  kind of value returned differs between the two modes.
\<close>

theorem generator_forward_eval:
  assumes "\<not> training g"
  shows "Generator_forward g x
           = (case Generator_sample g x of Inl e \<Rightarrow> Inl e | Inr img \<Rightarrow> Inr (Single img))
       \<and> Generator_forward (g\<lparr>encoder := enc', encoder_fc := fc'\<rparr>) x = Generator_forward g x
       \<and> Generator_forward g x \<noteq> Inr (Tuple2 a b)
       \<and> Generator_forward (g\<lparr>training := True\<rparr>) x' \<noteq> Inr (Single c)"
proof -
  have 1: "Generator_forward g x
           = (case Generator_sample g x of Inl e \<Rightarrow> Inl e | Inr img \<Rightarrow> Inr (Single img))"
    using assms by (simp add: Generator_forward_def)
  have "Generator_sample (g\<lparr>encoder := enc', encoder_fc := fc'\<rparr>) x = Generator_sample g x"
    by (simp add: Generator_sample_def split: sum.splits)
  then have 2: "Generator_forward (g\<lparr>encoder := enc', encoder_fc := fc'\<rparr>) x
                  = Generator_forward g x"
    using assms by (simp add: Generator_forward_def)
  have 3: "Generator_forward g x \<noteq> Inr (Tuple2 a b)"
    unfolding 1 by (simp split: sum.splits)
  have 4: "Generator_forward (g\<lparr>training := True\<rparr>) x' \<noteq> Inr (Single c)"
    by (simp add: Generator_forward_def split: sum.splits)
  from 1 2 3 4 show ?thesis by blast
qed

theorem generator_forward_eval_witness:
  "\<not> training \<lparr>encoding_dims = 128,
             encoder = Sequential
               [Sequential [Conv2d 1 16 5 2 2, LeakyReLU 0.2],
                Sequential [Conv2d 16 64 5 4 2, BatchNorm2d 64, LeakyReLU 0.2],
                Sequential [Conv2d 64 256 5 4 2, BatchNorm2d 256, LeakyReLU 0.2]],
             encoder_fc = Linear 256 128,
             decoder_fc = Linear 128 16,
             decoder = Sequential
               [Sequential [ConvTranspose2d 16 64 5 4 2 3, BatchNorm2d 64, LeakyReLU 0.2],
                Sequential [ConvTranspose2d 64 256 5 4 2 3, BatchNorm2d 256, LeakyReLU 0.2],
                ConvTranspose2d 256 1 5 2 2 1],
             training = False\<rparr>
   \<and> map_sum id (\<lambda>out. case out of Single img \<Rightarrow> shape img | Tuple2 r e \<Rightarrow> [])
        (Generator_forward
          \<lparr>encoding_dims = 128,
             encoder = Sequential
               [Sequential [Conv2d 1 16 5 2 2, LeakyReLU 0.2],
                Sequential [Conv2d 16 64 5 4 2, BatchNorm2d 64, LeakyReLU 0.2],
                Sequential [Conv2d 64 256 5 4 2, BatchNorm2d 256, LeakyReLU 0.2]],
             encoder_fc = Linear 256 128,
             decoder_fc = Linear 128 16,
             decoder = Sequential
               [Sequential [ConvTranspose2d 16 64 5 4 2 3, BatchNorm2d 64, LeakyReLU 0.2],
                Sequential [ConvTranspose2d 64 256 5 4 2 3, BatchNorm2d 256, LeakyReLU 0.2],
                ConvTranspose2d 256 1 5 2 2 1],
             training = False\<rparr>
          \<lparr>shape = [1, 128], grad_fn = Leaf ''noise''\<rparr>) = Inr [1, 1, 32, 32]"
proof -
  let ?g = "\<lparr>encoding_dims = 128,
             encoder = Sequential
               [Sequential [Conv2d 1 16 5 2 2, LeakyReLU 0.2],
                Sequential [Conv2d 16 64 5 4 2, BatchNorm2d 64, LeakyReLU 0.2],
                Sequential [Conv2d 64 256 5 4 2, BatchNorm2d 256, LeakyReLU 0.2]],
             encoder_fc = Linear 256 128,
             decoder_fc = Linear 128 16,
             decoder = Sequential
               [Sequential [ConvTranspose2d 16 64 5 4 2 3, BatchNorm2d 64, LeakyReLU 0.2],
                Sequential [ConvTranspose2d 64 256 5 4 2 3, BatchNorm2d 256, LeakyReLU 0.2],
                ConvTranspose2d 256 1 5 2 2 1],
             training = False\<rparr>"
  let ?x = "\<lparr>shape = [1, 128], grad_fn = Leaf ''noise''\<rparr>"
  have h: "\<not> training ?g" by simp
  have s: "map_sum id shape (Generator_sample ?g ?x) = Inr [1, 1, 32, 32]"
    by (simp add: layer_eval)
  from generator_forward_eval [OF h, of ?x]
  have "Generator_forward ?g ?x
           = (case Generator_sample ?g ?x of Inl e \<Rightarrow> Inl e | Inr img \<Rightarrow> Inr (Single img))"
    by blast
  with s h show ?thesis by (auto split: sum.splits)
qed

section \<open>The discriminator's forward pass\<close>

lemma discriminator_block_shape:
  assumes "tr \<longrightarrow> n \<noteq> 1" and "shape t = [n, sz]"
  shows "\<exists>t'. forward_layer tr
                 (Sequential [Linear sz (sz div 2), BatchNorm1d (sz div 2), LeakyReLU a]) t = Inr t'
              \<and> shape t' = [n, sz div 2]"
  using assms by (simp add: primitive_def linear_shape_def)

lemma discriminator_loop_shapes:
  assumes "tr \<longrightarrow> n \<noteq> 1"
  shows "\<exists>bs sz'. discriminator_loop (LeakyReLU a) sz acc = Some (acc @ bs, sz')
           \<and> list_all is_mlp_layer (concat (map primitives bs))
           \<and> (0 \<le> sz \<longrightarrow> 0 \<le> sz')
           \<and> (\<forall>t. shape t = [n, sz] \<longrightarrow>
                 (\<exists>t'. forward_layers tr bs t = Inr t' \<and> shape t' = [n, sz']))"
proof (induction "nat sz" arbitrary: sz acc rule: less_induct)
  case less
  show ?case
  proof (cases "sz > 16")
    case False
    then have "discriminator_loop (LeakyReLU a) sz acc = Some (acc @ [], sz)"
      by (subst discriminator_loop.simps) simp
    then show ?thesis by (intro exI [of _ "[]"] exI [of _ sz]) simp
  next
    case True
    let ?B = "Sequential [Linear sz (sz div 2), BatchNorm1d (sz div 2), LeakyReLU a]"
    from True have m: "nat (sz div 2) < nat sz" by simp
    obtain bs sz' where
      loop: "discriminator_loop (LeakyReLU a) (sz div 2) (acc @ [?B])
               = Some ((acc @ [?B]) @ bs, sz')"
      and mlp: "list_all is_mlp_layer (concat (map primitives bs))"
      and pos: "0 \<le> sz div 2 \<longrightarrow> 0 \<le> sz'"
      and sh: "\<And>t. shape t = [n, sz div 2] \<Longrightarrow>
                 \<exists>t'. forward_layers tr bs t = Inr t' \<and> shape t' = [n, sz']"
      using less.hyps [OF m, of "acc @ [?B]"] by blast
    have "discriminator_loop (LeakyReLU a) sz acc = Some (acc @ (?B # bs), sz')"
      using True loop by (subst discriminator_loop.simps) simp
    moreover have "list_all is_mlp_layer (concat (map primitives (?B # bs)))"
      using mlp by simp
    moreover have "0 \<le> sz \<longrightarrow> 0 \<le> sz'"
      using pos by simp
    moreover have "\<exists>t'. forward_layers tr (?B # bs) t = Inr t' \<and> shape t' = [n, sz']"
      if "shape t = [n, sz]" for t
    proof -
      from discriminator_block_shape [OF assms that]
      obtain t1 where t1: "forward_layer tr ?B t = Inr t1" "shape t1 = [n, sz div 2]"
        by blast
      from sh [OF t1(2)] obtain t' where
        "forward_layers tr bs t1 = Inr t'" "shape t' = [n, sz']" by blast
      with t1(1) show ?thesis by simp
    qed
    ultimately show ?thesis by blast
  qed
qed

text \<open>
  Claim C6, amended. The discriminator is a multi-layer perceptron on latent vectors:
  for every \<open>input_dims \<ge> 1\<close> the constructed module is made of \<^verbatim>\<open>Linear\<close>,
  \<^verbatim>\<open>BatchNorm1d\<close> and \<^verbatim>\<open>LeakyReLU\<close> layers only and ends in a \<^verbatim>\<open>Linear\<close> layer of output
  dimension 1; for every batch of shape \<open>(n, input_dims)\<close>, with \<open>n \<ge> 2\<close> when the module is
  in training mode (and any \<open>n \<ge> 0\<close> in evaluation mode), \<^verbatim>\<open>forward\<close> returns one logit
  per example, a tensor of shape \<open>(n, 1)\<close>.
\<close>

theorem discriminator_forward_mlp:
  assumes "1 \<le> idims"
  shows "\<exists>d sz. AdversarialAutoencoderDiscriminator idims (LeakyReLU a) = Some (Inr d)
           \<and> d_training d
           \<and> list_all is_mlp_layer (primitives (model d))
           \<and> last (primitives (model d)) = Linear sz 1
           \<and> (\<forall>tr n x. 0 \<le> n \<and> (tr \<longrightarrow> 2 \<le> n) \<and> shape x = [n, idims] \<longrightarrow>
                 (\<exists>y. Discriminator_forward (d\<lparr>d_training := tr\<rparr>) x = Inr y
                     \<and> shape y = [n, 1]))"
proof -
  let ?F = "Sequential [Linear idims (idims div 2), LeakyReLU a]"
  obtain bs sz where
    loop: "discriminator_loop (LeakyReLU a) (idims div 2) [?F] = Some ([?F] @ bs, sz)"
    and mlp: "list_all is_mlp_layer (concat (map primitives bs))"
    and pos: "0 \<le> idims div 2 \<longrightarrow> 0 \<le> sz"
    using discriminator_loop_shapes [of False 0 a "idims div 2" "[?F]"] by auto
  from pos assms have sz: "0 \<le> sz" by simp
  let ?d = "\<lparr>input_dims = idims, model = Sequential (([?F] @ bs) @ [Linear sz 1]),
             d_training = True\<rparr>"
  have built: "AdversarialAutoencoderDiscriminator idims (LeakyReLU a) = Some (Inr ?d)"
    using loop sz assms by (simp add: AdversarialAutoencoderDiscriminator_def)
  have inv: "list_all is_mlp_layer (primitives (model ?d))"
    using mlp by simp
  have lst: "last (primitives (model ?d)) = Linear sz 1"
    by simp
  have run: "\<exists>y. Discriminator_forward (?d\<lparr>d_training := tr\<rparr>) x = Inr y \<and> shape y = [n, 1]"
    if "0 \<le> n" and "tr \<longrightarrow> 2 \<le> n" and x: "shape x = [n, idims]" for tr n x
  proof -
    from that(2) have ok: "tr \<longrightarrow> n \<noteq> 1" by auto
    obtain bs' sz' where
      loop': "discriminator_loop (LeakyReLU a) (idims div 2) [?F] = Some ([?F] @ bs', sz')"
      and sh: "\<And>t. shape t = [n, idims div 2] \<Longrightarrow>
                 \<exists>t'. forward_layers tr bs' t = Inr t' \<and> shape t' = [n, sz']"
      using discriminator_loop_shapes [OF ok, of a "idims div 2" "[?F]"] by blast
    from loop loop' have same: "bs' = bs" "sz' = sz" by simp_all
    have "\<exists>t1. forward_layer tr ?F x = Inr t1 \<and> shape t1 = [n, idims div 2]"
      using x by (simp add: primitive_def linear_shape_def)
    then obtain t1 where t1: "forward_layer tr ?F x = Inr t1" "shape t1 = [n, idims div 2]"
      by blast
    from sh [OF t1(2)] same obtain t2 where
      t2: "forward_layers tr bs t1 = Inr t2" "shape t2 = [n, sz]" by blast
    from linear_batch_shape [OF t2(2), of tr 1] obtain y where
      y: "forward_layer tr (Linear sz 1) t2 = Inr y" "shape y = [n, 1]" by blast
    have "Discriminator_forward (?d\<lparr>d_training := tr\<rparr>) x = Inr y"
      using t1(1) t2(1) y(1) by (simp add: Discriminator_forward_def forward_layers_append)
    with y(2) show ?thesis by blast
  qed
  show ?thesis
    using built inv lst run by (intro exI [of _ ?d] exI [of _ sz]) simp
qed

theorem discriminator_forward_mlp_witness:
  "(1::int) \<le> 128
   \<and> (\<exists>d y. AdversarialAutoencoderDiscriminator 128 (LeakyReLU 0.2) = Some (Inr d)
         \<and> list_all is_mlp_layer (primitives (model d))
         \<and> Discriminator_forward (d\<lparr>d_training := True\<rparr>)
              \<lparr>shape = [64, 128], grad_fn = Leaf ''encodings''\<rparr> = Inr y
         \<and> shape y = [64, 1])"
proof -
  have h: "(1::int) \<le> 128" by simp
  from discriminator_forward_mlp [OF h, of "0.2"]
  obtain d where d: "AdversarialAutoencoderDiscriminator 128 (LeakyReLU 0.2) = Some (Inr d)"
    "list_all is_mlp_layer (primitives (model d))"
    and run: "\<And>tr n x. 0 \<le> n \<and> (tr \<longrightarrow> 2 \<le> n) \<and> shape x = [n, 128] \<Longrightarrow>
        \<exists>y. Discriminator_forward (d\<lparr>d_training := tr\<rparr>) x = Inr y \<and> shape y = [n, 1]"
    by blast
  have "(0::int) \<le> 64 \<and> (True \<longrightarrow> (2::int) \<le> 64)
      \<and> shape \<lparr>shape = [64, 128], grad_fn = Leaf ''encodings''\<rparr> = [64, 128]"
    by simp
  from run [OF this] d h show ?thesis by blast
qed

text \<open>
  Claim C6, as stated, at a concrete input: the discriminator of the notebook's
  configuration, in the training mode it is constructed in, raises \<^verbatim>\<open>ValueError\<close> on
  a batch of shape \<open>(1, 128)\<close>: its first \<^verbatim>\<open>BatchNorm1d\<close> receives one value per channel.
\<close>

theorem discriminator_single_example:
  "network_discriminator
     = Some (Inr \<lparr>input_dims = 128,
             model = Sequential
               [Sequential [Linear 128 64, LeakyReLU 0.2],
                Sequential [Linear 64 32, BatchNorm1d 32, LeakyReLU 0.2],
                Sequential [Linear 32 16, BatchNorm1d 16, LeakyReLU 0.2],
                Linear 16 1],
             d_training = True\<rparr>)
   \<and> Discriminator_forward
        \<lparr>input_dims = 128,
             model = Sequential
               [Sequential [Linear 128 64, LeakyReLU 0.2],
                Sequential [Linear 64 32, BatchNorm1d 32, LeakyReLU 0.2],
                Sequential [Linear 32 16, BatchNorm1d 16, LeakyReLU 0.2],
                Linear 16 1],
             d_training = True\<rparr>
        \<lparr>shape = [1, 128], grad_fn = Leaf ''x''\<rparr> = Inl ValueError"
  by (simp add: network_discriminator_def default_nonlinearity_def
      AdversarialAutoencoderDiscriminator_def discriminator_loop.simps
      Discriminator_forward_def primitive_def linear_shape_def)

section \<open>The frame of a training step\<close>

lemma zero_grad_frame:
  "data (zero_grad opt s) = data s"
  "opt_calls (zero_grad opt s) = opt_calls s @ [ZeroGrad (opt_id opt)]"
  by (simp_all add: zero_grad_def)

lemma backward_frame:
  assumes "backward leaves loss s = Inr s'"
  shows "data s' = data s \<and> opt_calls s' = opt_calls s"
  using assms by (auto simp: backward_def split: if_splits)

lemma step_frame:
  "p \<notin> set (param_groups opt) \<Longrightarrow> data (step opt s) p = data s p"
  "opt_calls (step opt s) = opt_calls s @ [Step (opt_id opt)]"
  by (simp_all add: step_def)

lemma randn_frame:
  assumes "randn n d dev s = (r, s')"
  shows "data s' = data s \<and> opt_calls s' = opt_calls s"
  using assms by (auto simp: randn_def split: if_splits)

lemma GeneratorLoss_train_ops_frame:
  assumes "p \<notin> set (param_groups opt)"
  shows "data (snd (GeneratorLoss_train_ops leaves g d opt x dev bsz s)) p = data s p"
  using assms
  by (auto simp: GeneratorLoss_train_ops_def Let_def zero_grad_frame step_frame
           dest!: backward_frame split: sum.splits prod.splits)

lemma GeneratorLoss_train_ops_calls:
  "opt_calls (snd (GeneratorLoss_train_ops leaves g d opt x dev bsz s))
     \<in> {opt_calls s, opt_calls s @ [ZeroGrad (opt_id opt)],
         opt_calls s @ [ZeroGrad (opt_id opt), Step (opt_id opt)]}"
  by (auto simp: GeneratorLoss_train_ops_def Let_def zero_grad_frame step_frame
           dest!: backward_frame split: sum.splits prod.splits)

lemma DiscriminatorLoss_train_ops_frame:
  assumes "p \<notin> set (param_groups opt)"
  shows "data (snd (DiscriminatorLoss_train_ops leaves g d opt x dev bsz s)) p = data s p"
  using assms
  by (auto simp: DiscriminatorLoss_train_ops_def Let_def zero_grad_frame step_frame
           dest!: backward_frame randn_frame split: sum.splits prod.splits)

lemma DiscriminatorLoss_train_ops_calls:
  "opt_calls (snd (DiscriminatorLoss_train_ops leaves g d opt x dev bsz s))
     \<in> {opt_calls s, opt_calls s @ [ZeroGrad (opt_id opt)],
         opt_calls s @ [ZeroGrad (opt_id opt), Step (opt_id opt)]}"
  by (auto simp: DiscriminatorLoss_train_ops_def Let_def zero_grad_frame step_frame
           dest!: backward_frame randn_frame split: sum.splits prod.splits)

lemma not_owned:
  "list_all of_generator ps \<Longrightarrow> DiscParam x \<notin> set ps"
  "list_all of_discriminator ps \<Longrightarrow> GenParam x \<notin> set ps"
  by (auto simp: list_all_iff)

text \<open>
  Claim C7. Each \<^verbatim>\<open>train_ops\<close> updates only its own model's parameters. The trainer
  gives each loss the optimizer of its model, so \<^verbatim>\<open>optimizer_generator\<close> holds parameters
  of the generator only and \<^verbatim>\<open>optimizer_discriminator\<close> parameters of the discriminator
  only. Then \<^verbatim>\<open>AdversarialAutoencoderGeneratorLoss.train_ops\<close> leaves the value of every
  discriminator parameter unchanged and calls \<^verbatim>\<open>zero_grad\<close> and \<^verbatim>\<open>step\<close> on no optimizer but
  \<^verbatim>\<open>optimizer_generator\<close>; \<^verbatim>\<open>AdversarialAutoencoderDiscriminatorLoss.train_ops\<close> leaves the
  value of every generator parameter unchanged and calls them on no optimizer but
  \<^verbatim>\<open>optimizer_discriminator\<close>. This holds whether the step returns or raises.
\<close>

theorem train_ops_update_own_parameters:
  assumes "list_all of_generator (param_groups optimizer_generator)"
    and "list_all of_discriminator (param_groups optimizer_discriminator)"
  shows "data (snd (GeneratorLoss_train_ops leaves generator discriminator optimizer_generator
                      real_inputs dev batch_size s)) (DiscParam x)
           = data s (DiscParam x)
       \<and> opt_calls (snd (GeneratorLoss_train_ops leaves generator discriminator
                            optimizer_generator real_inputs dev batch_size s))
           \<in> {opt_calls s, opt_calls s @ [ZeroGrad (opt_id optimizer_generator)],
               opt_calls s @ [ZeroGrad (opt_id optimizer_generator),
                              Step (opt_id optimizer_generator)]}
       \<and> data (snd (DiscriminatorLoss_train_ops leaves generator discriminator
                       optimizer_discriminator real_inputs dev batch_size s)) (GenParam y)
           = data s (GenParam y)
       \<and> opt_calls (snd (DiscriminatorLoss_train_ops leaves generator discriminator
                            optimizer_discriminator real_inputs dev batch_size s))
           \<in> {opt_calls s, opt_calls s @ [ZeroGrad (opt_id optimizer_discriminator)],
               opt_calls s @ [ZeroGrad (opt_id optimizer_discriminator),
                              Step (opt_id optimizer_discriminator)]}"
proof (intro conjI)
  show "data (snd (GeneratorLoss_train_ops leaves generator discriminator optimizer_generator
                      real_inputs dev batch_size s)) (DiscParam x)
           = data s (DiscParam x)"
    using assms(1) by (intro GeneratorLoss_train_ops_frame not_owned)
  show "data (snd (DiscriminatorLoss_train_ops leaves generator discriminator
                       optimizer_discriminator real_inputs dev batch_size s)) (GenParam y)
           = data s (GenParam y)"
    using assms(2) by (intro DiscriminatorLoss_train_ops_frame not_owned)
qed (rule GeneratorLoss_train_ops_calls DiscriminatorLoss_train_ops_calls)+


text \<open>The two modules the trainer builds from the dictionary \<^verbatim>\<open>network\<close>.\<close>

lemma network_generator_value:
  "network_generator
     = Some (Inr \<lparr>encoding_dims = 128,
             encoder = Sequential
               [Sequential [Conv2d 1 16 5 2 2, LeakyReLU 0.2],
                Sequential [Conv2d 16 64 5 4 2, BatchNorm2d 64, LeakyReLU 0.2],
                Sequential [Conv2d 64 256 5 4 2, BatchNorm2d 256, LeakyReLU 0.2]],
             encoder_fc = Linear 256 128,
             decoder_fc = Linear 128 16,
             decoder = Sequential
               [Sequential [ConvTranspose2d 16 64 5 4 2 3, BatchNorm2d 64, LeakyReLU 0.2],
                Sequential [ConvTranspose2d 64 256 5 4 2 3, BatchNorm2d 256, LeakyReLU 0.2],
                ConvTranspose2d 256 1 5 2 2 1],
             training = True\<rparr>)"
  by (simp add: network_generator_def default_step_channels_def default_nonlinearity_def
      AdversarialAutoencoderGenerator_def encoder_loop.simps decoder_loop.simps)

lemma network_discriminator_value:
  "network_discriminator
     = Some (Inr \<lparr>input_dims = 128,
             model = Sequential
               [Sequential [Linear 128 64, LeakyReLU 0.2],
                Sequential [Linear 64 32, BatchNorm1d 32, LeakyReLU 0.2],
                Sequential [Linear 32 16, BatchNorm1d 16, LeakyReLU 0.2],
                Linear 16 1],
             d_training = True\<rparr>)"
  by (simp add: network_discriminator_def default_nonlinearity_def
      AdversarialAutoencoderDiscriminator_def discriminator_loop.simps)

text \<open>The definitions a training step on concrete arguments unfolds.\<close>

lemmas train_eval =
  GeneratorLoss_train_ops_def DiscriminatorLoss_train_ops_def
  GeneratorLoss_forward_def DiscriminatorLoss_forward_def Discriminator_forward_def
  mse_loss_def binary_cross_entropy_with_logits_def ones_like_def zeros_like_def
  scale_def iadd_def broadcast_shapes_def unpack2_def size0_def randn_def device_available_def
  zero_grad_def backward_def step_def item_def Let_def

theorem train_ops_update_own_parameters_witness:
  "list_all of_generator [GenParam ''encoder.0.0.weight'']
   \<and> list_all of_discriminator [DiscParam ''model.0.0.weight'']
   \<and> (\<exists>g d sg sd.
        network_generator = Some (Inr g) \<and> network_discriminator = Some (Inr d)
      \<and> sg = snd (GeneratorLoss_train_ops
                    (\<lambda>loss. [GenParam ''encoder.0.0.weight'', DiscParam ''model.0.0.weight''])
                    g d \<lparr>opt_id = ''optimizer_generator'',
                         param_groups = [GenParam ''encoder.0.0.weight'']\<rparr>
                    \<lparr>shape = [2, 1, 32, 32], grad_fn = Leaf ''real_inputs''\<rparr> Cpu 2
                    \<lparr>data = (\<lambda>p. Initial), grad = (\<lambda>p. None), opt_calls = [], draws = 0, gpus = 0\<rparr>)
      \<and> sd = snd (DiscriminatorLoss_train_ops
                    (\<lambda>loss. [GenParam ''encoder.0.0.weight'', DiscParam ''model.0.0.weight''])
                    g d \<lparr>opt_id = ''optimizer_discriminator'',
                         param_groups = [DiscParam ''model.0.0.weight'']\<rparr>
                    \<lparr>shape = [2, 1, 32, 32], grad_fn = Leaf ''real_inputs''\<rparr> Cpu 2
                    \<lparr>data = (\<lambda>p. Initial), grad = (\<lambda>p. None), opt_calls = [], draws = 0, gpus = 0\<rparr>)
      \<and> data sg (DiscParam ''model.0.0.weight'') = Initial
      \<and> data sg (GenParam ''encoder.0.0.weight'') \<noteq> Initial
      \<and> opt_calls sg = [ZeroGrad ''optimizer_generator'', Step ''optimizer_generator'']
      \<and> data sd (GenParam ''encoder.0.0.weight'') = Initial
      \<and> data sd (DiscParam ''model.0.0.weight'') \<noteq> Initial
      \<and> opt_calls sd = [ZeroGrad ''optimizer_discriminator'', Step ''optimizer_discriminator''])"
proof -
  let ?leaves = "\<lambda>loss::node. [GenParam ''encoder.0.0.weight'', DiscParam ''model.0.0.weight'']"
  let ?og = "\<lparr>opt_id = ''optimizer_generator'', param_groups = [GenParam ''encoder.0.0.weight'']\<rparr>"
  let ?od = "\<lparr>opt_id = ''optimizer_discriminator'',
              param_groups = [DiscParam ''model.0.0.weight'']\<rparr>"
  let ?x = "\<lparr>shape = [2, 1, 32, 32], grad_fn = Leaf ''real_inputs''\<rparr>"
  let ?s = "\<lparr>data = (\<lambda>p. Initial), grad = (\<lambda>p. None), opt_calls = [], draws = 0, gpus = 0\<rparr>"
  obtain g d where g: "network_generator = Some (Inr g)" and d: "network_discriminator = Some (Inr d)"
    using network_generator_value network_discriminator_value by blast
  have og: "list_all of_generator (param_groups ?og)"
    and od: "list_all of_discriminator (param_groups ?od)" by simp_all
  note frame = train_ops_update_own_parameters [OF og od,
      of ?leaves g d ?x Cpu 2 ?s "''model.0.0.weight''" "''encoder.0.0.weight''"]
  have gen: "data (snd (GeneratorLoss_train_ops ?leaves g d ?og ?x Cpu 2 ?s))
               (GenParam ''encoder.0.0.weight'') \<noteq> Initial
      \<and> opt_calls (snd (GeneratorLoss_train_ops ?leaves g d ?og ?x Cpu 2 ?s))
           = [ZeroGrad ''optimizer_generator'', Step ''optimizer_generator'']"
    using g d unfolding network_generator_value network_discriminator_value
    by (auto simp add: train_eval layer_eval)
  have dis: "data (snd (DiscriminatorLoss_train_ops ?leaves g d ?od ?x Cpu 2 ?s))
               (DiscParam ''model.0.0.weight'') \<noteq> Initial
      \<and> opt_calls (snd (DiscriminatorLoss_train_ops ?leaves g d ?od ?x Cpu 2 ?s))
           = [ZeroGrad ''optimizer_discriminator'', Step ''optimizer_discriminator'']"
    using g d unfolding network_generator_value network_discriminator_value
    by (auto simp add: train_eval layer_eval)
  from frame gen dis g d show ?thesis by auto
qed

section \<open>The order of the script\<close>

text \<open>The definitions a run of the script unfolds.\<close>

lemmas cell_defs =
  cell_install_def cell_imports_def cell_seed_def cell_dataset_def cell_loader_def
  cell_generator_def cell_discriminator_def cell_losses_def cell_network_def
  cell_device_def cell_trainer_def cell_plot_def cell_animation_def

lemma import_guard_raises:
  "raises (snd (import_guard w)) = raises w"
  by (simp add: import_guard_def import_torchgan_def pip_install_def
           split: option.splits sum.splits)

lemma import_guard_cuda:
  "cuda_is_available (snd (import_guard w)) = cuda_is_available w"
  by (simp add: import_guard_def import_torchgan_def pip_install_def
           split: option.splits sum.splits)

lemma import_guard_succeeds:
  assumes "\<forall>c. raises w c = None"
    and "torchgan_version w \<noteq> None \<or> pip_installs w \<noteq> None"
  shows "\<exists>msg. fst (import_guard w) = Inr msg"
  using assms
  by (auto simp add: import_guard_def import_torchgan_def pip_install_def split: option.splits)

lemma upto_epochs:
  "[1..10] = [1, 2, 3, 4, 5, 6, 7, 8, 9, (10::int)]"
  "[1..5] = [1, 2, 3, 4, (5::int)]"
  by (simp_all add: upto_rec1)

lemma notebook_complete:
  assumes "\<forall>c. raises w c = None"
    and "torchgan_version w \<noteq> None \<or> pip_installs w \<noteq> None"
  shows "fst (notebook w) = None
       \<and> calls (snd (notebook w))
           = full_run (if cuda_is_available w then Cuda 0 else Cpu)
                      (if cuda_is_available w then 10 else 5)"
proof -
  obtain msg where "fst (import_guard w) = Inr msg"
    using import_guard_succeeds [OF assms] by blast
  then obtain w1 where g: "import_guard w = (Inr msg, w1)"
    by (cases "import_guard w") simp
  then have r: "raises w1 = raises w" and c: "cuda_is_available w1 = cuda_is_available w"
    using import_guard_raises [of w] import_guard_cuda [of w] by simp_all
  show ?thesis
    using assms(1) g r c
    by (simp add: notebook_def cell_defs perform_def and_then_def full_run_def upto_epochs)
qed


lemma notebook_prefix:
  "prefix (calls (snd (notebook w)))
     (full_run (if cuda_is_available w then Cuda 0 else Cpu)
               (if cuda_is_available w then 10 else 5))"
proof (cases "import_guard w")
  case (Pair r w1)
  then have r: "raises w1 = raises w" and c: "cuda_is_available w1 = cuda_is_available w"
    using import_guard_raises [of w] import_guard_cuda [of w] by simp_all
  show ?thesis
  proof (cases r)
    case (Inl e)
    with Pair show ?thesis
      by (simp add: notebook_def cell_install_def and_then_def)
  next
    case (Inr msg)
    show ?thesis
    proof (cases "cuda_is_available w")
      case True
      with Inr Pair r c show ?thesis
        by (simp add: notebook_def cell_defs perform_def and_then_def full_run_def upto_epochs
                 split: option.splits)
    next
      case False
      with Inr Pair r c show ?thesis
        by (simp add: notebook_def cell_defs perform_def and_then_def full_run_def upto_epochs
                 split: option.splits)
    qed
  qed
qed

lemma full_run_shape:
  "count_list (full_run d e) TrainerCall = 1
   \<and> takeWhile (\<lambda>c. c \<noteq> TrainerCall) (full_run d e)
       = [ImportLibraries, ManualSeed 999, MNIST, DataLoader 64,
          ClassDef ''AdversarialAutoencoderGenerator'',
          ClassDef ''AdversarialAutoencoderDiscriminator'',
          ClassDef ''AdversarialAutoencoderGeneratorLoss'',
          ClassDef ''AdversarialAutoencoderDiscriminatorLoss'',
          MakeLosses, NetworkDict, TorchDevice d, Trainer d e]
   \<and> list_all is_plotting (tl (dropWhile (\<lambda>c. c \<noteq> TrainerCall) (full_run d e)))"
proof -
  have "count_list (map Imread xs) TrainerCall = 0" for xs
    by (induction xs) simp_all
  moreover have "list_all is_plotting (map Imread xs)" for xs
    by (induction xs) simp_all
  ultimately show ?thesis
    by (simp add: full_run_def)
qed

text \<open>
  Claim C10, amended. The notebook runs its cells in one fixed order: imports and seed,
  the MNIST dataset and its \<^verbatim>\<open>DataLoader\<close>, the two model classes, the two loss classes
  and the list of losses, the dictionary \<^verbatim>\<open>network\<close>, the choice of the device, the
  \<^verbatim>\<open>Trainer\<close> and its single call on the loader, and only then the plots. Whatever
  the libraries do, the calls made are a prefix of that order, and when no call raises
  the run is the whole of it; the trainer is called exactly once, everything before
  that call is construction and everything after it is plotting. The order is not free
  of control flow: the device cell branches on \<^verbatim>\<open>torch.cuda.is_available()\<close>, which
  decides the device and the number of epochs (10 on \<^verbatim>\<open>cuda:0\<close>, 5 on the CPU), the
  first cell handles an exception, and the last cell reads one image per epoch.
\<close>

theorem notebook_order:
  "prefix (calls (snd (notebook w)))
     (full_run (if cuda_is_available w then Cuda 0 else Cpu)
               (if cuda_is_available w then 10 else 5))
   \<and> ((\<forall>c. raises w c = None) \<and> (torchgan_version w \<noteq> None \<or> pip_installs w \<noteq> None) \<longrightarrow>
        fst (notebook w) = None
      \<and> calls (snd (notebook w))
           = full_run (if cuda_is_available w then Cuda 0 else Cpu)
                      (if cuda_is_available w then 10 else 5))
   \<and> count_list (full_run d e) TrainerCall = 1
   \<and> takeWhile (\<lambda>c. c \<noteq> TrainerCall) (full_run d e)
       = [ImportLibraries, ManualSeed 999, MNIST, DataLoader 64,
          ClassDef ''AdversarialAutoencoderGenerator'',
          ClassDef ''AdversarialAutoencoderDiscriminator'',
          ClassDef ''AdversarialAutoencoderGeneratorLoss'',
          ClassDef ''AdversarialAutoencoderDiscriminatorLoss'',
          MakeLosses, NetworkDict, TorchDevice d, Trainer d e]
   \<and> list_all is_plotting (tl (dropWhile (\<lambda>c. c \<noteq> TrainerCall) (full_run d e)))"
  using notebook_prefix [of w] notebook_complete [of w] full_run_shape [of d e]
  by blast

theorem notebook_order_witness:
  "(\<forall>c. raises \<lparr>torchgan_version = Some ''0.4.0'', pip_installs = None,
                  cuda_is_available = False, raises = (\<lambda>c. None)\<rparr> c = None)
   \<and> torchgan_version \<lparr>torchgan_version = Some ''0.4.0'', pip_installs = None,
                  cuda_is_available = False, raises = (\<lambda>c. None)\<rparr> = Some ''0.4.0''
   \<and> fst (notebook \<lparr>torchgan_version = Some ''0.4.0'', pip_installs = None,
                  cuda_is_available = False, raises = (\<lambda>c. None)\<rparr>) = None
   \<and> calls (snd (notebook \<lparr>torchgan_version = Some ''0.4.0'', pip_installs = None,
                  cuda_is_available = False, raises = (\<lambda>c. None)\<rparr>))
       = [ImportLibraries, ManualSeed 999, MNIST, DataLoader 64,
          ClassDef ''AdversarialAutoencoderGenerator'',
          ClassDef ''AdversarialAutoencoderDiscriminator'',
          ClassDef ''AdversarialAutoencoderGeneratorLoss'',
          ClassDef ''AdversarialAutoencoderDiscriminatorLoss'',
          MakeLosses, NetworkDict, TorchDevice Cpu, Trainer Cpu 5, TrainerCall,
          PlotReal, Imread 5, Show,
          Imread 1, Imread 2, Imread 3, Imread 4, Imread 5, ArtistAnimation]"
  using notebook_order
    [of "\<lparr>torchgan_version = Some ''0.4.0'', pip_installs = None,
          cuda_is_available = False, raises = (\<lambda>c. None)\<rparr>" Cpu 5]
  by (simp add: full_run_def upto_epochs)

text \<open>
  Claim C10, as stated, at two concrete machines on which no call raises: with a GPU the
  script trains for 10 epochs on \<^verbatim>\<open>cuda:0\<close> and makes 27 calls, without one it trains
  for 5 epochs on the CPU and makes 22. The step between the dictionary and the trainer
  is a branch.
\<close>

theorem device_cell_branches:
  "device_var (snd (notebook \<lparr>torchgan_version = Some ''0.4.0'', pip_installs = None,
                  cuda_is_available = True, raises = (\<lambda>c. None)\<rparr>)) = Some (Cuda 0)
   \<and> epochs_var (snd (notebook \<lparr>torchgan_version = Some ''0.4.0'', pip_installs = None,
                  cuda_is_available = True, raises = (\<lambda>c. None)\<rparr>)) = Some 10
   \<and> device_var (snd (notebook \<lparr>torchgan_version = Some ''0.4.0'', pip_installs = None,
                  cuda_is_available = False, raises = (\<lambda>c. None)\<rparr>)) = Some Cpu
   \<and> epochs_var (snd (notebook \<lparr>torchgan_version = Some ''0.4.0'', pip_installs = None,
                  cuda_is_available = False, raises = (\<lambda>c. None)\<rparr>)) = Some 5
   \<and> length (calls (snd (notebook \<lparr>torchgan_version = Some ''0.4.0'', pip_installs = None,
                  cuda_is_available = True, raises = (\<lambda>c. None)\<rparr>))) = 27
   \<and> length (calls (snd (notebook \<lparr>torchgan_version = Some ''0.4.0'', pip_installs = None,
                  cuda_is_available = False, raises = (\<lambda>c. None)\<rparr>))) = 22"
  by (simp add: notebook_def cell_defs perform_def and_then_def upto_epochs
      import_guard_def import_torchgan_def)

section \<open>Exceptions\<close>

text \<open>
  The methods of the notebook are chains of calls with no \<^verbatim>\<open>try\<close> and no \<^verbatim>\<open>raise\<close>: a method
  raises \<open>e\<close> exactly when the first call inside it that fails raises \<open>e\<close>.
\<close>

lemma sample_raises_iff:
  "Generator_sample g z = Inl e \<longleftrightarrow>
      forward_layer (training g) (decoder_fc g) z = Inl e
    \<or> (\<exists>z1. forward_layer (training g) (decoder_fc g) z = Inr z1
          \<and> (view_noise z1 = Inl e
             \<or> (\<exists>z2. view_noise z1 = Inr z2
                   \<and> forward_layer (training g) (decoder g) z2 = Inl e)))"
  by (auto simp: Generator_sample_def split: sum.splits)

lemma forward_raises_iff:
  "Generator_forward g x = Inl e \<longleftrightarrow>
      (\<not> training g \<and> Generator_sample g x = Inl e)
    \<or> (training g
       \<and> (forward_layer True (encoder g) x = Inl e
          \<or> (\<exists>enc0. forward_layer True (encoder g) x = Inr enc0
                \<and> (view_encoding enc0 = Inl e
                   \<or> (\<exists>flat. view_encoding enc0 = Inr flat
                         \<and> (forward_layer True (encoder_fc g) flat = Inl e
                            \<or> (\<exists>encoding. forward_layer True (encoder_fc g) flat = Inr encoding
                                  \<and> Generator_sample g encoding = Inl e)))))))"
  by (auto simp: Generator_forward_def split: sum.splits if_splits)

lemma discriminator_raises_iff:
  "Discriminator_forward d y = Inl e \<longleftrightarrow>
      forward_layer (d_training d) (model d) y = Inl e"
  by (simp add: Discriminator_forward_def)

lemma generator_loss_raises_iff:
  "GeneratorLoss_forward real_inputs gen_inputs dgz = Inl e \<longleftrightarrow>
      mse_loss gen_inputs real_inputs = Inl e
    \<or> (\<exists>m. mse_loss gen_inputs real_inputs = Inr m
          \<and> (binary_cross_entropy_with_logits dgz (ones_like dgz) = Inl e
             \<or> (\<exists>b. binary_cross_entropy_with_logits dgz (ones_like dgz) = Inr b
                   \<and> iadd (scale 0.999 m) (scale 0.001 b) = Inl e)))"
  by (auto simp: GeneratorLoss_forward_def Let_def split: sum.splits)

lemma discriminator_loss_raises_iff:
  "DiscriminatorLoss_forward dx dgz' = Inl e \<longleftrightarrow>
      binary_cross_entropy_with_logits dx (ones_like dx) = Inl e
    \<or> (\<exists>b1. binary_cross_entropy_with_logits dx (ones_like dx) = Inr b1
          \<and> (binary_cross_entropy_with_logits dgz' (zeros_like dx) = Inl e
             \<or> (\<exists>b2. binary_cross_entropy_with_logits dgz' (zeros_like dx) = Inr b2
                   \<and> iadd (scale 0.5 b1) (scale 0.5 b2) = Inl e)))"
  by (auto simp: DiscriminatorLoss_forward_def Let_def split: sum.splits)

lemma generator_train_ops_raises_iff:
  "fst (GeneratorLoss_train_ops leaves g d opt x dev bsz s) = Inl e \<longleftrightarrow>
      Generator_forward g x = Inl e
    \<or> (\<exists>out. Generator_forward g x = Inr out
          \<and> (unpack2 out = Inl e
             \<or> (\<exists>recon encodings. unpack2 out = Inr (recon, encodings)
                   \<and> (Discriminator_forward d encodings = Inl e
                      \<or> (\<exists>dgz. Discriminator_forward d encodings = Inr dgz
                            \<and> (GeneratorLoss_forward x recon dgz = Inl e
                               \<or> (\<exists>loss. GeneratorLoss_forward x recon dgz = Inr loss
                                     \<and> (backward leaves loss (zero_grad opt s) = Inl e
                                        \<or> ((\<exists>s2. backward leaves loss (zero_grad opt s) = Inr s2)
                                           \<and> item loss = Inl e)))))))))"
  by (auto simp: GeneratorLoss_train_ops_def Let_def split: sum.splits prod.splits)

lemma discriminator_train_ops_raises_iff:
  "fst (DiscriminatorLoss_train_ops leaves g d opt x dev bsz s) = Inl e \<longleftrightarrow>
      Generator_forward g x = Inl e
    \<or> (\<exists>out. Generator_forward g x = Inr out
          \<and> (unpack2 out = Inl e
             \<or> (\<exists>uu encodings. unpack2 out = Inr (uu, encodings)
                   \<and> (size0 x = Inl e
                      \<or> (\<exists>n. size0 x = Inr n
                            \<and> (fst (randn n (encoding_dims g) dev s) = Inl e
                               \<or> (\<exists>noise s0. randn n (encoding_dims g) dev s = (Inr noise, s0)
                                     \<and> (Discriminator_forward d noise = Inl e
                                        \<or> (\<exists>dx. Discriminator_forward d noise = Inr dx
                                              \<and> (Discriminator_forward d encodings = Inl e
                                                 \<or> (\<exists>dgz. Discriminator_forward d encodings = Inr dgz
                                                       \<and> (DiscriminatorLoss_forward dx dgz = Inl e
                                                          \<or> (\<exists>loss. DiscriminatorLoss_forward dx dgz = Inr loss
                                                                \<and> (backward leaves loss (zero_grad opt s0) = Inl e
                                                                   \<or> ((\<exists>s2. backward leaves loss (zero_grad opt s0) = Inr s2)
                                                                      \<and> item loss = Inl e)))))))))))))))"
  by (auto simp: DiscriminatorLoss_train_ops_def Let_def split: sum.splits prod.splits)

lemma generator_init_raises_iff:
  "AdversarialAutoencoderGenerator edims input_size input_channels step_channels nl
        = Some (Inl e) \<longleftrightarrow>
      layer_init (Conv2d input_channels step_channels 5 2 2) = Inl e
    \<or> (\<exists>conv enc ch.
            layer_init (Conv2d input_channels step_channels 5 2 2) = Inr conv
          \<and> encoder_loop nl (input_size div 2) step_channels [Sequential [conv, nl]]
              = Some (enc, ch)
          \<and> (layer_init (Linear ch edims) = Inl e
             \<or> (\<exists>fc. layer_init (Linear ch edims) = Inr fc
                   \<and> (layer_init (Linear edims step_channels) = Inl e
                      \<or> (\<exists>dfc dec ch'.
                              layer_init (Linear edims step_channels) = Inr dfc
                            \<and> decoder_loop nl input_size 1 step_channels [] = Some (dec, ch')
                            \<and> layer_init (ConvTranspose2d ch' input_channels 5 2 2 1)
                                = Inl e)))))"
  by (auto simp: AdversarialAutoencoderGenerator_def
           split: sum.splits prod.splits Option.bind_splits)

lemma discriminator_init_raises_iff:
  "AdversarialAutoencoderDiscriminator idims nl = Some (Inl e) \<longleftrightarrow>
      layer_init (Linear idims (idims div 2)) = Inl e
    \<or> (\<exists>lin m sz.
            layer_init (Linear idims (idims div 2)) = Inr lin
          \<and> discriminator_loop nl (idims div 2) [Sequential [lin, nl]] = Some (m, sz)
          \<and> layer_init (Linear sz 1) = Inl e)"
  by (auto simp: AdversarialAutoencoderDiscriminator_def
           split: sum.splits prod.splits Option.bind_splits)

lemma import_guard_raises_iff:
  "fst (import_guard w) = Inl e \<longleftrightarrow>
      (import_torchgan ImportTorchgan w = Inl e \<and> e \<noteq> ImportError)
    \<or> (import_torchgan ImportTorchgan w = Inl ImportError
       \<and> (pip_install w = Inl e
          \<or> (\<exists>w1. pip_install w = Inr w1
                \<and> import_torchgan ImportTorchganAgain w1 = Inl e)))"
  by (auto simp: import_guard_def split: sum.splits if_splits)

text \<open>
  The cells after the first are sequences of library calls. A sequence of calls ends
  with the exception of the first call that raises.
\<close>

lemma perform_env:
  "env (snd (perform c s)) = env s"
  by (simp add: perform_def split: option.splits)

lemma run_all_perform_raises:
  "fst (run_all (map perform cs) s) = Some e \<longleftrightarrow>
     (\<exists>pre c post. cs = pre @ c # post
        \<and> list_all (\<lambda>c'. raises (env s) c' = None) pre
        \<and> raises (env s) c = Some e)"
proof (induction cs arbitrary: s)
  case Nil
  show ?case by simp
next
  case (Cons a cs)
  show ?case
  proof (cases "raises (env s) a")
    case (Some e')
    then have l: "fst (run_all (map perform (a # cs)) s) = Some e'"
      by (simp add: and_then_def perform_def)
    show ?thesis
    proof
      assume "fst (run_all (map perform (a # cs)) s) = Some e"
      with l Some have "a # cs = [] @ a # cs \<and> list_all (\<lambda>c'. raises (env s) c' = None) []
          \<and> raises (env s) a = Some e" by simp
      then show "\<exists>pre c post. a # cs = pre @ c # post
          \<and> list_all (\<lambda>c'. raises (env s) c' = None) pre \<and> raises (env s) c = Some e"
        by blast
    next
      assume "\<exists>pre c post. a # cs = pre @ c # post
          \<and> list_all (\<lambda>c'. raises (env s) c' = None) pre \<and> raises (env s) c = Some e"
      then obtain pre c post where d: "a # cs = pre @ c # post"
        and ok: "list_all (\<lambda>c'. raises (env s) c' = None) pre"
        and r: "raises (env s) c = Some e" by blast
      have "pre = []"
      proof (cases pre)
        case (Cons p ps)
        with d ok Some show ?thesis by simp
      qed simp
      with d r Some have "e' = e" by simp
      with l show "fst (run_all (map perform (a # cs)) s) = Some e" by simp
    qed
  next
    case None
    let ?s1 = "s\<lparr>calls := calls s @ [a]\<rparr>"
    from None have l: "run_all (map perform (a # cs)) s = run_all (map perform cs) ?s1"
      by (simp add: and_then_def perform_def)
    have env: "env ?s1 = env s" by simp
    show ?thesis
    proof
      assume "fst (run_all (map perform (a # cs)) s) = Some e"
      with l have "fst (run_all (map perform cs) ?s1) = Some e" by simp
      with Cons.IH [of ?s1] env obtain pre c post where d: "cs = pre @ c # post"
        and ok: "list_all (\<lambda>c'. raises (env s) c' = None) pre"
        and r: "raises (env s) c = Some e" by auto
      with None have "a # cs = (a # pre) @ c # post
          \<and> list_all (\<lambda>c'. raises (env s) c' = None) (a # pre)
          \<and> raises (env s) c = Some e" by simp
      then show "\<exists>pre c post. a # cs = pre @ c # post
          \<and> list_all (\<lambda>c'. raises (env s) c' = None) pre \<and> raises (env s) c = Some e"
        by blast
    next
      assume "\<exists>pre c post. a # cs = pre @ c # post
          \<and> list_all (\<lambda>c'. raises (env s) c' = None) pre \<and> raises (env s) c = Some e"
      then obtain pre c post where d: "a # cs = pre @ c # post"
        and ok: "list_all (\<lambda>c'. raises (env s) c' = None) pre"
        and r: "raises (env s) c = Some e" by blast
      from d r None obtain ps where p: "pre = a # ps"
        by (cases pre) auto
      with d ok have "cs = ps @ c # post \<and> list_all (\<lambda>c'. raises (env s) c' = None) ps"
        by simp
      with r env Cons.IH [of ?s1] have "fst (run_all (map perform cs) ?s1) = Some e"
        by auto
      with l show "fst (run_all (map perform (a # cs)) s) = Some e" by simp
    qed
  qed
qed

text \<open>After the first cell the notebook is the sequence of its library calls.\<close>

lemma notebook_calls:
  assumes "import_guard w = (Inr msg, w1)"
  shows "fst (notebook w)
       = fst (run_all (map perform (full_run (if cuda_is_available w then Cuda 0 else Cpu)
                                             (if cuda_is_available w then 10 else 5)))
                \<lparr>env = w1, calls = [], device_var = None, epochs_var = None\<rparr>)"
proof -
  from assms have r: "raises w1 = raises w" and c: "cuda_is_available w1 = cuda_is_available w"
    using import_guard_raises [of w] import_guard_cuda [of w] by simp_all
  show ?thesis
  proof (cases "cuda_is_available w")
    case True
    with assms r c show ?thesis
      by (simp add: notebook_def cell_defs perform_def and_then_def full_run_def upto_epochs
               split: option.splits)
  next
    case False
    with assms r c show ?thesis
      by (simp add: notebook_def cell_defs perform_def and_then_def full_run_def upto_epochs
               split: option.splits)
  qed
qed

lemma notebook_raises_iff:
  "fst (notebook w) = Some e \<longleftrightarrow>
      fst (import_guard w) = Inl e
    \<or> ((\<exists>msg. fst (import_guard w) = Inr msg)
       \<and> (\<exists>pre c post.
              full_run (if cuda_is_available w then Cuda 0 else Cpu)
                       (if cuda_is_available w then 10 else 5) = pre @ c # post
            \<and> list_all (\<lambda>c'. raises w c' = None) pre
            \<and> raises w c = Some e))"
proof (cases "import_guard w")
  case (Pair r w1)
  show ?thesis
  proof (cases r)
    case (Inl e')
    with Pair show ?thesis
      by (simp add: notebook_def cell_install_def and_then_def)
  next
    case (Inr msg)
    with Pair have g: "import_guard w = (Inr msg, w1)" by simp
    then have r: "raises w1 = raises w"
      using import_guard_raises [of w] by simp
    from g have "fst (import_guard w) = Inr msg" by simp
    with notebook_calls [OF g] r show ?thesis
      by (simp add: run_all_perform_raises)
  qed
qed

text \<open>
  Claim C9, amended. The notebook defines no exception class and contains no \<^verbatim>\<open>raise\<close>
  statement, and no class or function it defines catches an exception. Each of \<^verbatim>\<open>sample\<close>,
  the \<^verbatim>\<open>forward\<close> methods of the two models and of the two losses, the two \<^verbatim>\<open>train_ops\<close>
  and the two constructors raises \<open>e\<close> exactly when the first call inside it that fails
  raises \<open>e\<close>. That call is a library call (a layer's constructor, a module applied to a
  tensor, \<^verbatim>\<open>view\<close>, a loss function, the in-place sum, \<^verbatim>\<open>size\<close>, \<^verbatim>\<open>torch.randn\<close> on a device the
  process does not have, \<^verbatim>\<open>backward\<close>, \<^verbatim>\<open>item\<close>) or, in the two \<^verbatim>\<open>train_ops\<close>, the unpacking of
  the generator's output into two values, which fails when the generator returned a
  single tensor whose first dimension is not 2 (\<^verbatim>\<open>ValueError\<close>, and \<^verbatim>\<open>TypeError\<close> for a tensor
  of rank 0). So every failure of a
  library call that is reached (shape mismatch, device error) propagates unchanged to the
  caller. The only exception handling is the installation guard of the first cell, outside
  every class and function: it catches the \<^verbatim>\<open>ImportError\<close> of the first \<^verbatim>\<open>import torchgan\<close> and
  nothing else, so that every other exception of that import, the exception of the
  installation command and the exception of the second import leave the cell unchanged.
  The notebook as a whole ends with \<open>e\<close> exactly when the guard lets \<open>e\<close> out, or the guard
  returns and the first library call of the later cells to fail (reading a missing image
  file among them) raises \<open>e\<close>.
\<close>

theorem exceptions_propagate:
  "(Generator_sample g z = Inl e \<longleftrightarrow>
      forward_layer (training g) (decoder_fc g) z = Inl e
    \<or> (\<exists>z1. forward_layer (training g) (decoder_fc g) z = Inr z1
          \<and> (view_noise z1 = Inl e
             \<or> (\<exists>z2. view_noise z1 = Inr z2
                   \<and> forward_layer (training g) (decoder g) z2 = Inl e))))
   \<and> (Generator_forward g x = Inl e \<longleftrightarrow>
      (\<not> training g \<and> Generator_sample g x = Inl e)
    \<or> (training g
       \<and> (forward_layer True (encoder g) x = Inl e
          \<or> (\<exists>enc0. forward_layer True (encoder g) x = Inr enc0
                \<and> (view_encoding enc0 = Inl e
                   \<or> (\<exists>flat. view_encoding enc0 = Inr flat
                         \<and> (forward_layer True (encoder_fc g) flat = Inl e
                            \<or> (\<exists>encoding. forward_layer True (encoder_fc g) flat = Inr encoding
                                  \<and> Generator_sample g encoding = Inl e))))))))
   \<and> (Discriminator_forward d y = Inl e \<longleftrightarrow>
      forward_layer (d_training d) (model d) y = Inl e)
   \<and> (GeneratorLoss_forward real_inputs gen_inputs dgz = Inl e \<longleftrightarrow>
      mse_loss gen_inputs real_inputs = Inl e
    \<or> (\<exists>m. mse_loss gen_inputs real_inputs = Inr m
          \<and> (binary_cross_entropy_with_logits dgz (ones_like dgz) = Inl e
             \<or> (\<exists>b. binary_cross_entropy_with_logits dgz (ones_like dgz) = Inr b
                   \<and> iadd (scale 0.999 m) (scale 0.001 b) = Inl e))))
   \<and> (DiscriminatorLoss_forward dx dgz' = Inl e \<longleftrightarrow>
      binary_cross_entropy_with_logits dx (ones_like dx) = Inl e
    \<or> (\<exists>b1. binary_cross_entropy_with_logits dx (ones_like dx) = Inr b1
          \<and> (binary_cross_entropy_with_logits dgz' (zeros_like dx) = Inl e
             \<or> (\<exists>b2. binary_cross_entropy_with_logits dgz' (zeros_like dx) = Inr b2
                   \<and> iadd (scale 0.5 b1) (scale 0.5 b2) = Inl e))))
   \<and> (fst (GeneratorLoss_train_ops leaves g d opt x dev bsz s) = Inl e \<longleftrightarrow>
      Generator_forward g x = Inl e
    \<or> (\<exists>out. Generator_forward g x = Inr out
          \<and> (unpack2 out = Inl e
             \<or> (\<exists>recon encodings. unpack2 out = Inr (recon, encodings)
                   \<and> (Discriminator_forward d encodings = Inl e
                      \<or> (\<exists>dgz. Discriminator_forward d encodings = Inr dgz
                            \<and> (GeneratorLoss_forward x recon dgz = Inl e
                               \<or> (\<exists>loss. GeneratorLoss_forward x recon dgz = Inr loss
                                     \<and> (backward leaves loss (zero_grad opt s) = Inl e
                                        \<or> ((\<exists>s2. backward leaves loss (zero_grad opt s) = Inr s2)
                                           \<and> item loss = Inl e))))))))))
   \<and> (fst (DiscriminatorLoss_train_ops leaves g d opt x dev bsz s) = Inl e \<longleftrightarrow>
      Generator_forward g x = Inl e
    \<or> (\<exists>out. Generator_forward g x = Inr out
          \<and> (unpack2 out = Inl e
             \<or> (\<exists>uu encodings. unpack2 out = Inr (uu, encodings)
                   \<and> (size0 x = Inl e
                      \<or> (\<exists>n. size0 x = Inr n
                            \<and> (fst (randn n (encoding_dims g) dev s) = Inl e
                               \<or> (\<exists>noise s0. randn n (encoding_dims g) dev s = (Inr noise, s0)
                                     \<and> (Discriminator_forward d noise = Inl e
                                        \<or> (\<exists>dx. Discriminator_forward d noise = Inr dx
                                              \<and> (Discriminator_forward d encodings = Inl e
                                                 \<or> (\<exists>dgz. Discriminator_forward d encodings = Inr dgz
                                                       \<and> (DiscriminatorLoss_forward dx dgz = Inl e
                                                          \<or> (\<exists>loss. DiscriminatorLoss_forward dx dgz = Inr loss
                                                                \<and> (backward leaves loss (zero_grad opt s0) = Inl e
                                                                   \<or> ((\<exists>s2. backward leaves loss (zero_grad opt s0) = Inr s2)
                                                                      \<and> item loss = Inl e))))))))))))))))
   \<and> (AdversarialAutoencoderGenerator edims input_size input_channels step_channels nl
        = Some (Inl e) \<longleftrightarrow>
      layer_init (Conv2d input_channels step_channels 5 2 2) = Inl e
    \<or> (\<exists>conv enc ch.
            layer_init (Conv2d input_channels step_channels 5 2 2) = Inr conv
          \<and> encoder_loop nl (input_size div 2) step_channels [Sequential [conv, nl]]
              = Some (enc, ch)
          \<and> (layer_init (Linear ch edims) = Inl e
             \<or> (\<exists>fc. layer_init (Linear ch edims) = Inr fc
                   \<and> (layer_init (Linear edims step_channels) = Inl e
                      \<or> (\<exists>dfc dec ch'.
                              layer_init (Linear edims step_channels) = Inr dfc
                            \<and> decoder_loop nl input_size 1 step_channels [] = Some (dec, ch')
                            \<and> layer_init (ConvTranspose2d ch' input_channels 5 2 2 1)
                                = Inl e))))))
   \<and> (AdversarialAutoencoderDiscriminator idims nl = Some (Inl e) \<longleftrightarrow>
      layer_init (Linear idims (idims div 2)) = Inl e
    \<or> (\<exists>lin m sz.
            layer_init (Linear idims (idims div 2)) = Inr lin
          \<and> discriminator_loop nl (idims div 2) [Sequential [lin, nl]] = Some (m, sz)
          \<and> layer_init (Linear sz 1) = Inl e))
   \<and> (fst (import_guard w) = Inl e \<longleftrightarrow>
      (import_torchgan ImportTorchgan w = Inl e \<and> e \<noteq> ImportError)
    \<or> (import_torchgan ImportTorchgan w = Inl ImportError
       \<and> (pip_install w = Inl e
          \<or> (\<exists>w1. pip_install w = Inr w1
                \<and> import_torchgan ImportTorchganAgain w1 = Inl e))))
   \<and> (fst (notebook w) = Some e \<longleftrightarrow>
      fst (import_guard w) = Inl e
    \<or> ((\<exists>msg. fst (import_guard w) = Inr msg)
       \<and> (\<exists>pre c post.
              full_run (if cuda_is_available w then Cuda 0 else Cpu)
                       (if cuda_is_available w then 10 else 5) = pre @ c # post
            \<and> list_all (\<lambda>c'. raises w c' = None) pre
            \<and> raises w c = Some e)))"
  by (intro conjI)
    (rule sample_raises_iff forward_raises_iff discriminator_raises_iff generator_loss_raises_iff discriminator_loss_raises_iff generator_train_ops_raises_iff discriminator_train_ops_raises_iff generator_init_raises_iff discriminator_init_raises_iff import_guard_raises_iff notebook_raises_iff)+

theorem exceptions_propagate_witness:
  "forward_layer True
        (Sequential
               [Sequential [Conv2d 1 16 5 2 2, LeakyReLU 0.2],
                Sequential [Conv2d 16 64 5 4 2, BatchNorm2d 64, LeakyReLU 0.2],
                Sequential [Conv2d 64 256 5 4 2, BatchNorm2d 256, LeakyReLU 0.2]])
        \<lparr>shape = [1, 1, 32, 32], grad_fn = Leaf ''real_inputs''\<rparr> = Inl ValueError
   \<and> Generator_forward
        \<lparr>encoding_dims = 128,
             encoder = Sequential
               [Sequential [Conv2d 1 16 5 2 2, LeakyReLU 0.2],
                Sequential [Conv2d 16 64 5 4 2, BatchNorm2d 64, LeakyReLU 0.2],
                Sequential [Conv2d 64 256 5 4 2, BatchNorm2d 256, LeakyReLU 0.2]],
             encoder_fc = Linear 256 128,
             decoder_fc = Linear 128 16,
             decoder = Sequential
               [Sequential [ConvTranspose2d 16 64 5 4 2 3, BatchNorm2d 64, LeakyReLU 0.2],
                Sequential [ConvTranspose2d 64 256 5 4 2 3, BatchNorm2d 256, LeakyReLU 0.2],
                ConvTranspose2d 256 1 5 2 2 1],
             training = True\<rparr>
        \<lparr>shape = [1, 1, 32, 32], grad_fn = Leaf ''real_inputs''\<rparr> = Inl ValueError
   \<and> fst (DiscriminatorLoss_train_ops
        (\<lambda>loss. [GenParam ''encoder.0.0.weight'', DiscParam ''model.0.0.weight''])
        \<lparr>encoding_dims = 128,
             encoder = Sequential
               [Sequential [Conv2d 1 16 5 2 2, LeakyReLU 0.2],
                Sequential [Conv2d 16 64 5 4 2, BatchNorm2d 64, LeakyReLU 0.2],
                Sequential [Conv2d 64 256 5 4 2, BatchNorm2d 256, LeakyReLU 0.2]],
             encoder_fc = Linear 256 128,
             decoder_fc = Linear 128 16,
             decoder = Sequential
               [Sequential [ConvTranspose2d 16 64 5 4 2 3, BatchNorm2d 64, LeakyReLU 0.2],
                Sequential [ConvTranspose2d 64 256 5 4 2 3, BatchNorm2d 256, LeakyReLU 0.2],
                ConvTranspose2d 256 1 5 2 2 1],
             training = True\<rparr>
        \<lparr>input_dims = 128,
             model = Sequential
               [Sequential [Linear 128 64, LeakyReLU 0.2],
                Sequential [Linear 64 32, BatchNorm1d 32, LeakyReLU 0.2],
                Sequential [Linear 32 16, BatchNorm1d 16, LeakyReLU 0.2],
                Linear 16 1],
             d_training = True\<rparr>
        \<lparr>opt_id = ''optimizer_discriminator'', param_groups = [DiscParam ''model.0.0.weight'']\<rparr>
        \<lparr>shape = [2, 1, 32, 32], grad_fn = Leaf ''real_inputs''\<rparr> (Cuda 0) 2
        \<lparr>data = (\<lambda>p. Initial), grad = (\<lambda>p. None), opt_calls = [], draws = 0, gpus = 0\<rparr>) = Inl RuntimeError
   \<and> AdversarialAutoencoderGenerator 128 32 (- 1) 16 (LeakyReLU 0.2) = Some (Inl RuntimeError)
   \<and> AdversarialAutoencoderDiscriminator (- 1) (LeakyReLU 0.2) = Some (Inl RuntimeError)
   \<and> fst (import_guard
        \<lparr>torchgan_version = Some ''0.4.0'', pip_installs = Some ''0.4.0'',
            cuda_is_available = False,
            raises = (\<lambda>c. if c = ImportTorchgan then Some RuntimeError else None)\<rparr>) = Inl RuntimeError
   \<and> fst (import_guard
        \<lparr>torchgan_version = None, pip_installs = Some ''0.4.0'',
            cuda_is_available = False,
            raises = (\<lambda>c. if c = ImportTorchganAgain then Some ImportError else None)\<rparr>) = Inl ImportError
   \<and> fst (import_guard
        \<lparr>torchgan_version = None, pip_installs = None,
            cuda_is_available = False, raises = (\<lambda>c. None)\<rparr>) = Inl CalledProcessError
   \<and> fst (notebook
        \<lparr>torchgan_version = Some ''0.4.0'', pip_installs = None,
            cuda_is_available = False,
            raises = (\<lambda>c. if c = Imread 5 then Some FileNotFoundError else None)\<rparr>) = Some FileNotFoundError"
proof -
  let ?g = "\<lparr>encoding_dims = 128,
             encoder = Sequential
               [Sequential [Conv2d 1 16 5 2 2, LeakyReLU 0.2],
                Sequential [Conv2d 16 64 5 4 2, BatchNorm2d 64, LeakyReLU 0.2],
                Sequential [Conv2d 64 256 5 4 2, BatchNorm2d 256, LeakyReLU 0.2]],
             encoder_fc = Linear 256 128,
             decoder_fc = Linear 128 16,
             decoder = Sequential
               [Sequential [ConvTranspose2d 16 64 5 4 2 3, BatchNorm2d 64, LeakyReLU 0.2],
                Sequential [ConvTranspose2d 64 256 5 4 2 3, BatchNorm2d 256, LeakyReLU 0.2],
                ConvTranspose2d 256 1 5 2 2 1],
             training = True\<rparr>"
  let ?d = "\<lparr>input_dims = 128,
             model = Sequential
               [Sequential [Linear 128 64, LeakyReLU 0.2],
                Sequential [Linear 64 32, BatchNorm1d 32, LeakyReLU 0.2],
                Sequential [Linear 32 16, BatchNorm1d 16, LeakyReLU 0.2],
                Linear 16 1],
             d_training = True\<rparr>"
  let ?x1 = "\<lparr>shape = [1, 1, 32, 32], grad_fn = Leaf ''real_inputs''\<rparr>"
  let ?x2 = "\<lparr>shape = [2, 1, 32, 32], grad_fn = Leaf ''real_inputs''\<rparr>"
  let ?s = "\<lparr>data = (\<lambda>p. Initial), grad = (\<lambda>p. None), opt_calls = [], draws = 0, gpus = 0\<rparr>"
  let ?leaves = "\<lambda>loss::node. [GenParam ''encoder.0.0.weight'', DiscParam ''model.0.0.weight'']"
  let ?od = "\<lparr>opt_id = ''optimizer_discriminator'', param_groups = [DiscParam ''model.0.0.weight'']\<rparr>"
  let ?wrt = "\<lparr>torchgan_version = Some ''0.4.0'', pip_installs = Some ''0.4.0'',
            cuda_is_available = False,
            raises = (\<lambda>c. if c = ImportTorchgan then Some RuntimeError else None)\<rparr>"
  let ?wag = "\<lparr>torchgan_version = None, pip_installs = Some ''0.4.0'',
            cuda_is_available = False,
            raises = (\<lambda>c. if c = ImportTorchganAgain then Some ImportError else None)\<rparr>"
  let ?wpip = "\<lparr>torchgan_version = None, pip_installs = None,
            cuda_is_available = False, raises = (\<lambda>c. None)\<rparr>"
  let ?wfile = "\<lparr>torchgan_version = Some ''0.4.0'', pip_installs = None,
            cuda_is_available = False,
            raises = (\<lambda>c. if c = Imread 5 then Some FileNotFoundError else None)\<rparr>"
  have enc: "forward_layer True (encoder ?g) ?x1 = Inl ValueError"
    by (simp add: layer_eval)
  have tr: "training ?g" by simp
  note fw = exceptions_propagate [where g = ?g and x = ?x1 and e = ValueError,
      THEN conjunct2, THEN conjunct1]
  from enc tr have f: "Generator_forward ?g ?x1 = Inl ValueError"
    by (subst fw) blast
  have t: "fst (DiscriminatorLoss_train_ops ?leaves ?g ?d ?od ?x2 (Cuda 0) 2 ?s)
      = Inl RuntimeError"
    by (simp add: train_eval layer_eval)
  have gi: "AdversarialAutoencoderGenerator 128 32 (- 1) 16 (LeakyReLU 0.2)
      = Some (Inl RuntimeError)"
    by (simp add: AdversarialAutoencoderGenerator_def)
  have di: "AdversarialAutoencoderDiscriminator (- 1) (LeakyReLU 0.2) = Some (Inl RuntimeError)"
    by (simp add: AdversarialAutoencoderDiscriminator_def)
  have i1: "fst (import_guard ?wrt) = Inl RuntimeError"
    by (simp add: import_guard_def import_torchgan_def)
  have i2: "fst (import_guard ?wag) = Inl ImportError"
    by (simp add: import_guard_def import_torchgan_def pip_install_def)
  have i3: "fst (import_guard ?wpip) = Inl CalledProcessError"
    by (simp add: import_guard_def import_torchgan_def pip_install_def)
  have n: "fst (notebook ?wfile) = Some FileNotFoundError"
    by (simp add: notebook_def cell_defs perform_def and_then_def upto_epochs
        import_guard_def import_torchgan_def)
  from enc f t gi di i1 i2 i3 n show ?thesis by simp
qed

text \<open>
  Claim C9, as stated, at two concrete inputs. On a machine where the framework is not
  installed and \<^verbatim>\<open>pip\<close> can install it, \<^verbatim>\<open>import torchgan\<close> raises \<^verbatim>\<open>ImportError\<close>, the first
  cell catches it and prints the installed version, and the whole notebook runs to its
  end: that failure of a library does not reach the caller. And with the generator of
  the notebook's configuration in evaluation mode and a batch of three latent vectors,
  the generator's call returns a single tensor of shape \<open>(3, 1, 32, 32)\<close> and the generator
  loss's \<^verbatim>\<open>train_ops\<close> raises \<^verbatim>\<open>ValueError\<close> when it unpacks that tensor into two values: an
  exception that no library call raised.
\<close>

theorem import_guard_catches:
  "import_torchgan ImportTorchgan \<lparr>torchgan_version = None, pip_installs = Some ''0.4.0'',
                     cuda_is_available = False, raises = (\<lambda>c. None)\<rparr> = Inl ImportError
   \<and> fst (import_guard \<lparr>torchgan_version = None, pip_installs = Some ''0.4.0'',
                     cuda_is_available = False, raises = (\<lambda>c. None)\<rparr>)
       = Inr ''Installed TorchGAN 0.4.0''
   \<and> fst (notebook \<lparr>torchgan_version = None, pip_installs = Some ''0.4.0'',
                     cuda_is_available = False, raises = (\<lambda>c. None)\<rparr>) = None
   \<and> (\<exists>t. Generator_forward
            \<lparr>encoding_dims = 128,
             encoder = Sequential
               [Sequential [Conv2d 1 16 5 2 2, LeakyReLU 0.2],
                Sequential [Conv2d 16 64 5 4 2, BatchNorm2d 64, LeakyReLU 0.2],
                Sequential [Conv2d 64 256 5 4 2, BatchNorm2d 256, LeakyReLU 0.2]],
             encoder_fc = Linear 256 128,
             decoder_fc = Linear 128 16,
             decoder = Sequential
               [Sequential [ConvTranspose2d 16 64 5 4 2 3, BatchNorm2d 64, LeakyReLU 0.2],
                Sequential [ConvTranspose2d 64 256 5 4 2 3, BatchNorm2d 256, LeakyReLU 0.2],
                ConvTranspose2d 256 1 5 2 2 1],
             training = False\<rparr>
            \<lparr>shape = [3, 128], grad_fn = Leaf ''real_inputs''\<rparr> = Inr (Single t)
          \<and> shape t = [3, 1, 32, 32]
          \<and> unpack2 (Single t) = Inl ValueError)
   \<and> fst (GeneratorLoss_train_ops
        (\<lambda>loss. [GenParam ''encoder.0.0.weight'', DiscParam ''model.0.0.weight''])
        \<lparr>encoding_dims = 128,
             encoder = Sequential
               [Sequential [Conv2d 1 16 5 2 2, LeakyReLU 0.2],
                Sequential [Conv2d 16 64 5 4 2, BatchNorm2d 64, LeakyReLU 0.2],
                Sequential [Conv2d 64 256 5 4 2, BatchNorm2d 256, LeakyReLU 0.2]],
             encoder_fc = Linear 256 128,
             decoder_fc = Linear 128 16,
             decoder = Sequential
               [Sequential [ConvTranspose2d 16 64 5 4 2 3, BatchNorm2d 64, LeakyReLU 0.2],
                Sequential [ConvTranspose2d 64 256 5 4 2 3, BatchNorm2d 256, LeakyReLU 0.2],
                ConvTranspose2d 256 1 5 2 2 1],
             training = False\<rparr>
        \<lparr>input_dims = 128,
             model = Sequential
               [Sequential [Linear 128 64, LeakyReLU 0.2],
                Sequential [Linear 64 32, BatchNorm1d 32, LeakyReLU 0.2],
                Sequential [Linear 32 16, BatchNorm1d 16, LeakyReLU 0.2],
                Linear 16 1],
             d_training = True\<rparr>
        \<lparr>opt_id = ''optimizer_generator'', param_groups = [GenParam ''encoder.0.0.weight'']\<rparr>
        \<lparr>shape = [3, 128], grad_fn = Leaf ''real_inputs''\<rparr> Cpu 3
        \<lparr>data = (\<lambda>p. Initial), grad = (\<lambda>p. None), opt_calls = [], draws = 0, gpus = 0\<rparr>) = Inl ValueError"
  by (simp add: import_guard_def import_torchgan_def pip_install_def
      notebook_def cell_defs perform_def and_then_def upto_epochs
      train_eval layer_eval)

end
